theory Spec2Isabelle
  imports Main "HOL-Library.Sublist" "HOL-Library.Char_ord" "HOL-Library.List_Lexorder"
begin

section \<open>Go strings\<close>

text \<open>
  A Go string is a sequence of bytes, here a \<open>string\<close> (a list of 8-bit characters).
  The functions of package \<open>strings\<close> that the parser calls are modelled on bytes.
  \<open>strings.TrimSpace\<close> and \<open>strings.Fields\<close> decode UTF-8 and ask
  \<open>unicode.IsSpace\<close>; a position holds a white-space rune exactly when the bytes
  there start with the UTF-8 encoding of one of the code points with the White_Space
  property, which \<open>spaceRunes\<close> lists: U+0009 to U+000D, U+0020, U+0085, U+00A0,
  U+1680, U+2000 to U+200A, U+2028, U+2029, U+202F, U+205F and U+3000.
\<close>

definition spaceRunes :: "string list" where
  "spaceRunes =
     [[CHR 0x09], [CHR 0x0A], [CHR 0x0B], [CHR 0x0C], [CHR 0x0D], [CHR 0x20],
      [CHR 0xC2, CHR 0x85], [CHR 0xC2, CHR 0xA0],
      [CHR 0xE1, CHR 0x9A, CHR 0x80],
      [CHR 0xE2, CHR 0x80, CHR 0x80], [CHR 0xE2, CHR 0x80, CHR 0x81],
      [CHR 0xE2, CHR 0x80, CHR 0x82], [CHR 0xE2, CHR 0x80, CHR 0x83],
      [CHR 0xE2, CHR 0x80, CHR 0x84], [CHR 0xE2, CHR 0x80, CHR 0x85],
      [CHR 0xE2, CHR 0x80, CHR 0x86], [CHR 0xE2, CHR 0x80, CHR 0x87],
      [CHR 0xE2, CHR 0x80, CHR 0x88], [CHR 0xE2, CHR 0x80, CHR 0x89],
      [CHR 0xE2, CHR 0x80, CHR 0x8A],
      [CHR 0xE2, CHR 0x80, CHR 0xA8], [CHR 0xE2, CHR 0x80, CHR 0xA9],
      [CHR 0xE2, CHR 0x80, CHR 0xAF],
      [CHR 0xE2, CHR 0x81, CHR 0x9F],
      [CHR 0xE3, CHR 0x80, CHR 0x80]]"

text \<open>The width in bytes of the white-space rune a string starts with, 0 when it starts
  with none; the same for the rune it ends with.\<close>

definition leadingSpace :: "string \<Rightarrow> nat" where
  "leadingSpace s = (case find (\<lambda>w. prefix w s) spaceRunes of None \<Rightarrow> 0 | Some w \<Rightarrow> length w)"

definition trailingSpace :: "string \<Rightarrow> nat" where
  "trailingSpace s = (case find (\<lambda>w. suffix w s) spaceRunes of None \<Rightarrow> 0 | Some w \<Rightarrow> length w)"

function TrimLeftSpace :: "string \<Rightarrow> string" where
  "TrimLeftSpace s =
     (if leadingSpace s = 0 then s else TrimLeftSpace (drop (leadingSpace s) s))"
  by pat_completeness auto
termination
proof (relation "measure length")
  fix s :: string
  assume a: "leadingSpace s \<noteq> 0"
  have "leadingSpace [] = 0"
    by (simp add: leadingSpace_def spaceRunes_def)
  with a have "s \<noteq> []" by auto
  with a show "(drop (leadingSpace s) s, s) \<in> measure length"
    by simp
qed simp

function TrimRightSpace :: "string \<Rightarrow> string" where
  "TrimRightSpace s =
     (if trailingSpace s = 0 then s
      else TrimRightSpace (take (length s - trailingSpace s) s))"
  by pat_completeness auto
termination
proof (relation "measure length")
  fix s :: string
  assume a: "trailingSpace s \<noteq> 0"
  have "trailingSpace [] = 0"
    by (simp add: trailingSpace_def spaceRunes_def)
  with a have "s \<noteq> []" by auto
  with a show "(take (length s - trailingSpace s) s, s) \<in> measure length"
    by simp
qed simp

declare TrimLeftSpace.simps [simp del] TrimRightSpace.simps [simp del]

text \<open>\<open>strings.TrimSpace(s)\<close>: all leading and trailing white space removed.\<close>

definition TrimSpace :: "string \<Rightarrow> string" where
  "TrimSpace s = TrimRightSpace (TrimLeftSpace s)"

text \<open>\<open>strings.Fields(s)\<close>: the maximal runs of bytes between white-space runes. The
  first argument of \<open>fieldsFrom\<close> is the field read so far.\<close>

function fieldsFrom :: "string \<Rightarrow> string \<Rightarrow> string list" where
  "fieldsFrom cur [] = (if cur = [] then [] else [cur])"
| "fieldsFrom cur (c # cs) =
     (if leadingSpace (c # cs) = 0 then fieldsFrom (cur @ [c]) cs
      else (if cur = [] then [] else [cur]) @ fieldsFrom [] (drop (leadingSpace (c # cs)) (c # cs)))"
  by pat_completeness auto
termination
  by (relation "measure (\<lambda>(cur, s). length s)") auto

definition Fields :: "string \<Rightarrow> string list" where
  "Fields s = fieldsFrom [] s"

text \<open>\<open>strings.Index(s, sep)\<close>: the offset of the first occurrence of \<open>sep\<close>;
  Go's \<open>-1\<close> is \<open>None\<close>.\<close>

fun Index :: "string \<Rightarrow> string \<Rightarrow> nat option" where
  "Index [] sep = (if sep = [] then Some 0 else None)"
| "Index (c # cs) sep =
     (if prefix sep (c # cs) then Some 0 else map_option Suc (Index cs sep))"

definition Contains :: "string \<Rightarrow> string \<Rightarrow> bool" where
  "Contains s sub = (Index s sub \<noteq> None)"

definition HasPrefix :: "string \<Rightarrow> string \<Rightarrow> bool" where
  "HasPrefix s pre = prefix pre s"

definition HasSuffix :: "string \<Rightarrow> string \<Rightarrow> bool" where
  "HasSuffix s suf = suffix suf s"

definition TrimSuffix :: "string \<Rightarrow> string \<Rightarrow> string" where
  "TrimSuffix s suf = (if HasSuffix s suf then take (length s - length suf) s else s)"

text \<open>\<open>strings.Split(s, "\n")\<close>: the pieces between line feeds, always at least
  one. The first argument of \<open>splitFrom\<close> is the piece read so far.\<close>

fun splitFrom :: "string \<Rightarrow> string \<Rightarrow> string list" where
  "splitFrom cur [] = [cur]"
| "splitFrom cur (c # cs) =
     (if c = CHR 0x0A then cur # splitFrom [] cs else splitFrom (cur @ [c]) cs)"

definition SplitLines :: "string \<Rightarrow> string list" where
  "SplitLines s = splitFrom [] s"

text \<open>\<open>strings.TrimRight(s, "\n")\<close>: all trailing line feeds removed.\<close>

definition TrimRightNewlines :: "string \<Rightarrow> string" where
  "TrimRightNewlines s = rev (dropWhile (\<lambda>c. c = CHR 0x0A) (rev s))"

section \<open>The output parser\<close>

text \<open>The errors of the program, as values. \<open>RunError\<close> is what \<open>Client.Run\<close>
  returns when dialling, authenticating or the remote command fails; it carries the
  message.\<close>

datatype error =
    MissingRepositoryField
  | MissingUsernameField
  | RunError string
  | UnknownSetValue
  | DuplicateSetElement
  | NotCollaborator string string

record RepoInfoResult =
  ri_ProjectName :: string
  ri_Repository :: string
  ri_Description :: string
  ri_Private :: bool
  ri_Hidden :: bool
  ri_Mirror :: bool
  ri_Owner :: string

record UserInfoResult =
  ui_Username :: string
  ui_Admin :: bool
  ui_PublicKeys :: "string list"

record CollabEntry =
  ce_Username :: string
  ce_AccessLevel :: string

record keyValue =
  kv_key :: string
  kv_value :: string

definition parseKeyValue :: "string \<Rightarrow> string \<times> string \<times> bool" where
  "parseKeyValue line =
     (case Index line '': '' of
        None \<Rightarrow>
          if HasSuffix (TrimSpace line) '':''
          then (TrimSuffix (TrimSpace line) '':'', '''', True)
          else ('''', '''', False)
      | Some idx \<Rightarrow> (TrimSpace (take idx line), TrimSpace (drop (idx + 2) line), True))"

definition parseKeyValues :: "string \<Rightarrow> keyValue list" where
  "parseKeyValues output =
     foldl (\<lambda>kvs line.
              case parseKeyValue line of
                (k, v, ok) \<Rightarrow> if ok then kvs @ [\<lparr>kv_key = k, kv_value = v\<rparr>] else kvs)
           [] (SplitLines output)"

text \<open>The body of the loop of \<open>ParseRepoInfo\<close>: the switch on the label.\<close>

definition repoField :: "RepoInfoResult \<Rightarrow> keyValue \<Rightarrow> RepoInfoResult" where
  "repoField result kv =
     (if kv_key kv = ''Project Name'' then result\<lparr>ri_ProjectName := kv_value kv\<rparr>
      else if kv_key kv = ''Repository'' then result\<lparr>ri_Repository := kv_value kv\<rparr>
      else if kv_key kv = ''Description'' then result\<lparr>ri_Description := kv_value kv\<rparr>
      else if kv_key kv = ''Private'' then result\<lparr>ri_Private := (kv_value kv = ''true'')\<rparr>
      else if kv_key kv = ''Hidden'' then result\<lparr>ri_Hidden := (kv_value kv = ''true'')\<rparr>
      else if kv_key kv = ''Mirror'' then result\<lparr>ri_Mirror := (kv_value kv = ''true'')\<rparr>
      else if kv_key kv = ''Owner'' then result\<lparr>ri_Owner := kv_value kv\<rparr>
      else result)"

definition emptyRepoInfo :: RepoInfoResult where
  "emptyRepoInfo =
     \<lparr>ri_ProjectName = '''', ri_Repository = '''', ri_Description = '''', ri_Private = False,
      ri_Hidden = False, ri_Mirror = False, ri_Owner = ''''\<rparr>"

definition ParseRepoInfo :: "string \<Rightarrow> error + RepoInfoResult" where
  "ParseRepoInfo output =
     (let result = foldl repoField emptyRepoInfo (parseKeyValues output)
      in if ri_Repository result = '''' then Inl MissingRepositoryField else Inr result)"

text \<open>
  The loop of \<open>ParseUserInfo\<close> carries the result and the flag \<open>inPublicKeys\<close>.
  \<open>userKeyValue\<close> is the lower half of its body (the label and value of the line, and
  the switch on the label), \<open>userLine\<close> the whole body: inside a key section a blank
  line is skipped, a line that is not indented by two spaces and contains \<open>": "\<close>
  clears the flag and falls through to the lower half, and every other line is
  appended, trimmed, to the keys.
\<close>

definition userKeyValue :: "UserInfoResult \<Rightarrow> string \<Rightarrow> UserInfoResult \<times> bool" where
  "userKeyValue result line =
     (case parseKeyValue line of
        (k, v, ok) \<Rightarrow>
          if \<not> ok then (result, False)
          else if k = ''Username'' then (result\<lparr>ui_Username := v\<rparr>, False)
          else if k = ''Admin'' then (result\<lparr>ui_Admin := (v = ''true'')\<rparr>, False)
          else if k = ''Public keys'' then (result, True)
          else (result, False))"

fun userLine :: "UserInfoResult \<times> bool \<Rightarrow> string \<Rightarrow> UserInfoResult \<times> bool" where
  "userLine (result, inPublicKeys) line =
     (if inPublicKeys then
        (let trimmed = TrimSpace line in
         if trimmed \<noteq> '''' then
           (if \<not> HasPrefix line ''  '' \<and> Contains line '': ''
            then userKeyValue result line
            else (result\<lparr>ui_PublicKeys := ui_PublicKeys result @ [trimmed]\<rparr>, True))
         else (result, True))
      else userKeyValue result line)"

definition emptyUserInfo :: UserInfoResult where
  "emptyUserInfo = \<lparr>ui_Username = '''', ui_Admin = False, ui_PublicKeys = []\<rparr>"

definition ParseUserInfo :: "string \<Rightarrow> error + UserInfoResult" where
  "ParseUserInfo output =
     (let result = fst (foldl userLine (emptyUserInfo, False) (SplitLines output))
      in if ui_Username result = '''' then Inl MissingUsernameField else Inr result)"

text \<open>The body of the loop of \<open>ParseCollabList\<close>. A nil slice and an empty slice are
  both the empty list.\<close>

definition collabLine :: "CollabEntry list \<Rightarrow> string \<Rightarrow> CollabEntry list" where
  "collabLine entries line0 =
     (let line = TrimSpace line0 in
      if line = '''' then entries
      else
        (let parts = Fields line in
         if length parts = 0 then entries
         else
           (let entry = \<lparr>ce_Username = parts ! 0, ce_AccessLevel = ''''\<rparr>;
                entry = (if length parts \<ge> 2 then entry\<lparr>ce_AccessLevel := parts ! 1\<rparr> else entry)
            in entries @ [entry])))"

definition ParseCollabList :: "string \<Rightarrow> error + CollabEntry list" where
  "ParseCollabList output =
     (if TrimSpace output = '''' then Inr []
      else Inr (foldl collabLine [] (SplitLines output)))"

section \<open>The client: one command per call\<close>

text \<open>
  \<open>Client.Run\<close> dials the server, runs one command and returns its standard output
  without trailing line feeds, or an error. The server is outside the program: \<open>answer\<close>
  gives what the connection returns for a command, given the commands run before it, so
  that a query after a change may answer differently. \<open>fmt_q\<close> is the verb \<open>%q\<close> of
  \<open>fmt.Sprintf\<close> (\<open>strconv.Quote\<close>), which is not part of the program either. Every
  function below takes the list of commands run so far and returns it extended.
\<close>

record wire =
  fmt_q :: "string \<Rightarrow> string"
  answer :: "string list \<Rightarrow> string \<Rightarrow> error + string"

definition fmt_t :: "bool \<Rightarrow> string" where
  "fmt_t b = (if b then ''true'' else ''false'')"

definition Run :: "wire \<Rightarrow> string \<Rightarrow> string list \<Rightarrow> (error + string) \<times> string list" where
  "Run w command sent =
     (case answer w sent command of
        Inl e \<Rightarrow> (Inl e, sent @ [command])
      | Inr stdout \<Rightarrow> (Inr (TrimRightNewlines stdout), sent @ [command]))"

text \<open>The methods that return only an error: \<open>_, err := c.Run(cmd); return err\<close>.\<close>

definition runErr :: "wire \<Rightarrow> string \<Rightarrow> string list \<Rightarrow> error option \<times> string list" where
  "runErr w cmd sent =
     (case Run w cmd sent of (Inl e, sent') \<Rightarrow> (Some e, sent') | (Inr _, sent') \<Rightarrow> (None, sent'))"

record RepoCreateOpts =
  co_Description :: string
  co_ProjectName :: string
  co_Private :: bool

definition RepoCreate ::
  "wire \<Rightarrow> string \<Rightarrow> RepoCreateOpts \<Rightarrow> string list \<Rightarrow> error option \<times> string list" where
  "RepoCreate w name opts sent =
     (let cmd = ''repo create '' @ name;
          cmd = (if co_Description opts \<noteq> ''''
                 then cmd @ '' -d '' @ fmt_q w (co_Description opts) else cmd);
          cmd = (if co_ProjectName opts \<noteq> ''''
                 then cmd @ '' -n '' @ fmt_q w (co_ProjectName opts) else cmd);
          cmd = (if co_Private opts then cmd @ '' -p'' else cmd)
      in runErr w cmd sent)"

definition RepoInfo ::
  "wire \<Rightarrow> string \<Rightarrow> string list \<Rightarrow> (error + RepoInfoResult) \<times> string list" where
  "RepoInfo w name sent =
     (case Run w (''repo info '' @ name) sent of
        (Inl e, sent') \<Rightarrow> (Inl e, sent')
      | (Inr output, sent') \<Rightarrow> (ParseRepoInfo output, sent'))"

definition RepoSetDescription ::
  "wire \<Rightarrow> string \<Rightarrow> string \<Rightarrow> string list \<Rightarrow> error option \<times> string list" where
  "RepoSetDescription w name description sent =
     runErr w (''repo description '' @ name @ '' '' @ fmt_q w description) sent"

definition RepoSetPrivate ::
  "wire \<Rightarrow> string \<Rightarrow> bool \<Rightarrow> string list \<Rightarrow> error option \<times> string list" where
  "RepoSetPrivate w name private sent =
     runErr w (''repo private '' @ name @ '' '' @ fmt_t private) sent"

definition RepoSetHidden ::
  "wire \<Rightarrow> string \<Rightarrow> bool \<Rightarrow> string list \<Rightarrow> error option \<times> string list" where
  "RepoSetHidden w name hidden sent =
     runErr w (''repo hidden '' @ name @ '' '' @ fmt_t hidden) sent"

definition RepoSetProjectName ::
  "wire \<Rightarrow> string \<Rightarrow> string \<Rightarrow> string list \<Rightarrow> error option \<times> string list" where
  "RepoSetProjectName w name projectName sent =
     runErr w (''repo project-name '' @ name @ '' '' @ fmt_q w projectName) sent"

definition UserInfo ::
  "wire \<Rightarrow> string \<Rightarrow> string list \<Rightarrow> (error + UserInfoResult) \<times> string list" where
  "UserInfo w username sent =
     (case Run w (''user info '' @ username) sent of
        (Inl e, sent') \<Rightarrow> (Inl e, sent')
      | (Inr output, sent') \<Rightarrow> (ParseUserInfo output, sent'))"

definition UserSetAdmin ::
  "wire \<Rightarrow> string \<Rightarrow> bool \<Rightarrow> string list \<Rightarrow> error option \<times> string list" where
  "UserSetAdmin w username admin sent =
     runErr w (''user set-admin '' @ username @ '' '' @ fmt_t admin) sent"

definition UserAddPublicKey ::
  "wire \<Rightarrow> string \<Rightarrow> string \<Rightarrow> string list \<Rightarrow> error option \<times> string list" where
  "UserAddPublicKey w username k sent =
     runErr w (''user add-pubkey '' @ username @ '' '' @ fmt_q w k) sent"

definition UserRemovePublicKey ::
  "wire \<Rightarrow> string \<Rightarrow> string \<Rightarrow> string list \<Rightarrow> error option \<times> string list" where
  "UserRemovePublicKey w username k sent =
     runErr w (''user remove-pubkey '' @ username @ '' '' @ fmt_q w k) sent"

definition CollabList ::
  "wire \<Rightarrow> string \<Rightarrow> string list \<Rightarrow> (error + CollabEntry list) \<times> string list" where
  "CollabList w repo sent =
     (case Run w (''repo collab list '' @ repo) sent of
        (Inl e, sent') \<Rightarrow> (Inl e, sent')
      | (Inr output, sent') \<Rightarrow> (ParseCollabList output, sent'))"

section \<open>Values of the plugin framework\<close>

text \<open>
  A \<open>types.String\<close>, \<open>types.Bool\<close> or \<open>types.Set\<close> of the plugin framework is null,
  unknown or known. \<open>ValueString\<close> and \<open>ValueBool\<close> give the zero value for a null or
  unknown one; \<open>Equal\<close> on strings and booleans compares state and value. A set of
  strings holds its elements as a list without repetition; \<open>SetEqual\<close> is the framework's
  \<open>SetValue.Equal\<close> (the same state and, when known, the same number of elements and
  every element of the one contained in the other), and \<open>ElementsAs\<close> into a
  \<open>[]string\<close> gives the elements, or an error diagnostic for an unknown set.
  \<open>SetValueFrom\<close> builds a set of strings from a \<open>[]string\<close>: when the slice holds an
  element twice it returns the error diagnostic \<open>Duplicate Set Element\<close> and an unknown
  set.
\<close>

datatype 'a tfvalue = Null | Unknown | Known 'a

definition IsNull :: "'a tfvalue \<Rightarrow> bool" where
  "IsNull v = (v = Null)"

definition IsUnknown :: "'a tfvalue \<Rightarrow> bool" where
  "IsUnknown v = (v = Unknown)"

definition ValueString :: "string tfvalue \<Rightarrow> string" where
  "ValueString v = (case v of Known s \<Rightarrow> s | _ \<Rightarrow> '''')"

definition ValueBool :: "bool tfvalue \<Rightarrow> bool" where
  "ValueBool v = (case v of Known b \<Rightarrow> b | _ \<Rightarrow> False)"

definition Equal :: "'a tfvalue \<Rightarrow> 'a tfvalue \<Rightarrow> bool" where
  "Equal v other = (v = other)"

definition SetEqual :: "string list tfvalue \<Rightarrow> string list tfvalue \<Rightarrow> bool" where
  "SetEqual s other =
     (case (s, other) of
        (Known xs, Known ys) \<Rightarrow> length xs = length ys \<and> list_all (\<lambda>x. x \<in> set ys) xs
      | (Null, Null) \<Rightarrow> True
      | (Unknown, Unknown) \<Rightarrow> True
      | _ \<Rightarrow> False)"

datatype diagnostic = ErrorDiagnostic string error

type_synonym diagnostics = "diagnostic list"

definition HasError :: "diagnostics \<Rightarrow> bool" where
  "HasError diags = (diags \<noteq> [])"

definition ElementsAs :: "string list tfvalue \<Rightarrow> diagnostics \<times> string list" where
  "ElementsAs s =
     (case s of
        Known xs \<Rightarrow> ([], xs)
      | Null \<Rightarrow> ([], [])
      | Unknown \<Rightarrow> ([ErrorDiagnostic ''Value Conversion Error'' UnknownSetValue], []))"

definition SetValueFrom :: "string list \<Rightarrow> string list tfvalue \<times> diagnostics" where
  "SetValueFrom elements =
     (if distinct elements then (Known elements, [])
      else (Unknown, [ErrorDiagnostic ''Duplicate Set Element'' DuplicateSetElement]))"

section \<open>The resources\<close>

text \<open>
  A resource method reads the plan and the prior state from its request and writes
  diagnostics and the new state to its response. Here it takes the decoded models and the
  commands run so far, and returns the diagnostics, the state it set (\<open>None\<close> when it
  returned before \<open>resp.State.Set\<close>) and the commands run.
\<close>

record RepositoryResourceModel =
  rm_ID :: "string tfvalue"
  rm_Name :: "string tfvalue"
  rm_Description :: "string tfvalue"
  rm_ProjectName :: "string tfvalue"
  rm_Private :: "bool tfvalue"
  rm_Hidden :: "bool tfvalue"

record UserResourceModel =
  um_ID :: "string tfvalue"
  um_Username :: "string tfvalue"
  um_Admin :: "bool tfvalue"
  um_PublicKeys :: "string list tfvalue"

record RepositoryCollaboratorResourceModel =
  cm_ID :: "string tfvalue"
  cm_Repository :: "string tfvalue"
  cm_Username :: "string tfvalue"
  cm_AccessLevel :: "string tfvalue"

record ServerSettingsResourceModel =
  sm_ID :: "string tfvalue"
  sm_AllowKeyless :: "bool tfvalue"
  sm_AnonAccess :: "string tfvalue"

subsection \<open>Repository\<close>

definition readRepoState ::
  "wire \<Rightarrow> string \<Rightarrow> RepositoryResourceModel \<Rightarrow> string list
     \<Rightarrow> diagnostics \<times> RepositoryResourceModel \<times> string list" where
  "readRepoState w name model sent =
     (case RepoInfo w name sent of
        (Inl e, sent') \<Rightarrow> ([ErrorDiagnostic ''Error reading repository'' e], model, sent')
      | (Inr info, sent') \<Rightarrow>
          ([], model\<lparr>rm_ID := Known name,
                     rm_Name := Known (ri_Repository info),
                     rm_Description := Known (ri_Description info),
                     rm_ProjectName := Known (ri_ProjectName info),
                     rm_Private := Known (ri_Private info),
                     rm_Hidden := Known (ri_Hidden info)\<rparr>, sent'))"

text \<open>The end of Create, Read, Update and Import: read the state back and store it.\<close>

definition readBackRepo ::
  "wire \<Rightarrow> string \<Rightarrow> RepositoryResourceModel \<Rightarrow> string list
     \<Rightarrow> diagnostics \<times> RepositoryResourceModel option \<times> string list" where
  "readBackRepo w name model sent =
     (case readRepoState w name model sent of
        (diags, model', sent') \<Rightarrow>
          if HasError diags then (diags, None, sent') else (diags, Some model', sent'))"

definition Repository_Create ::
  "wire \<Rightarrow> RepositoryResourceModel \<Rightarrow> string list
     \<Rightarrow> diagnostics \<times> RepositoryResourceModel option \<times> string list" where
  "Repository_Create w plan sent =
     (let name = ValueString (rm_Name plan);
          opts = \<lparr>co_Description = '''', co_ProjectName = '''',
                  co_Private = ValueBool (rm_Private plan)\<rparr>;
          opts = (if \<not> IsNull (rm_Description plan) \<and> \<not> IsUnknown (rm_Description plan)
                  then opts\<lparr>co_Description := ValueString (rm_Description plan)\<rparr> else opts);
          opts = (if \<not> IsNull (rm_ProjectName plan) \<and> \<not> IsUnknown (rm_ProjectName plan)
                  then opts\<lparr>co_ProjectName := ValueString (rm_ProjectName plan)\<rparr> else opts)
      in case RepoCreate w name opts sent of
           (Some e, sent1) \<Rightarrow> ([ErrorDiagnostic ''Error creating repository'' e], None, sent1)
         | (None, sent1) \<Rightarrow>
             (case (if ValueBool (rm_Hidden plan) then RepoSetHidden w name True sent1
                    else (None, sent1)) of
                (Some e, sent2) \<Rightarrow>
                  ([ErrorDiagnostic ''Error setting repository hidden'' e], None, sent2)
              | (None, sent2) \<Rightarrow> readBackRepo w name plan sent2))"

definition Repository_Update ::
  "wire \<Rightarrow> RepositoryResourceModel \<Rightarrow> RepositoryResourceModel \<Rightarrow> string list
     \<Rightarrow> diagnostics \<times> RepositoryResourceModel option \<times> string list" where
  "Repository_Update w plan state sent =
     (let name = ValueString (rm_Name plan) in
      case (if \<not> Equal (rm_Description plan) (rm_Description state)
            then RepoSetDescription w name
                   (if \<not> IsNull (rm_Description plan) then ValueString (rm_Description plan)
                    else '''') sent
            else (None, sent)) of
        (Some e, sent1) \<Rightarrow> ([ErrorDiagnostic ''Error updating description'' e], None, sent1)
      | (None, sent1) \<Rightarrow>
      (case (if \<not> Equal (rm_ProjectName plan) (rm_ProjectName state)
             then RepoSetProjectName w name
                    (if \<not> IsNull (rm_ProjectName plan) then ValueString (rm_ProjectName plan)
                     else '''') sent1
             else (None, sent1)) of
        (Some e, sent2) \<Rightarrow> ([ErrorDiagnostic ''Error updating project name'' e], None, sent2)
      | (None, sent2) \<Rightarrow>
      (case (if \<not> Equal (rm_Private plan) (rm_Private state)
             then RepoSetPrivate w name (ValueBool (rm_Private plan)) sent2
             else (None, sent2)) of
        (Some e, sent3) \<Rightarrow> ([ErrorDiagnostic ''Error updating private'' e], None, sent3)
      | (None, sent3) \<Rightarrow>
      (case (if \<not> Equal (rm_Hidden plan) (rm_Hidden state)
             then RepoSetHidden w name (ValueBool (rm_Hidden plan)) sent3
             else (None, sent3)) of
        (Some e, sent4) \<Rightarrow> ([ErrorDiagnostic ''Error updating hidden'' e], None, sent4)
      | (None, sent4) \<Rightarrow> readBackRepo w name plan sent4))))"

subsection \<open>User\<close>

text \<open>\<open>readUserState\<close> stores the keys of the server sorted, as a set. When the server
  lists a key twice, \<open>types.SetValueFrom\<close> gives an error diagnostic, which
  \<open>readUserState\<close> returns, so that its caller sets no state. A user without keys
  keeps a null set null.\<close>

definition readUserState ::
  "wire \<Rightarrow> string \<Rightarrow> UserResourceModel \<Rightarrow> string list
     \<Rightarrow> diagnostics \<times> UserResourceModel \<times> string list" where
  "readUserState w username model sent =
     (case UserInfo w username sent of
        (Inl e, sent') \<Rightarrow> ([ErrorDiagnostic ''Error reading user'' e], model, sent')
      | (Inr info, sent') \<Rightarrow>
          (let model = model\<lparr>um_ID := Known username,
                              um_Username := Known (ui_Username info),
                              um_Admin := Known (ui_Admin info)\<rparr>
           in if length (ui_PublicKeys info) > 0
              then (let sorted = sort (ui_PublicKeys info);
                        (keySet, d) = SetValueFrom sorted
                    in (d, model\<lparr>um_PublicKeys := keySet\<rparr>, sent'))
              else if \<not> IsNull (um_PublicKeys model)
              then (let (keySet, d) = SetValueFrom []
                    in (d, model\<lparr>um_PublicKeys := keySet\<rparr>, sent'))
              else ([], model, sent')))"

definition readBackUser ::
  "wire \<Rightarrow> string \<Rightarrow> UserResourceModel \<Rightarrow> string list
     \<Rightarrow> diagnostics \<times> UserResourceModel option \<times> string list" where
  "readBackUser w username model sent =
     (case readUserState w username model sent of
        (diags, model', sent') \<Rightarrow>
          if HasError diags then (diags, None, sent') else (diags, Some model', sent'))"

text \<open>\<open>toStringSet\<close> builds a \<open>map[string]struct{}\<close>, a set of strings, by inserting the
  elements of the slice one by one.\<close>

definition toStringSet :: "string list \<Rightarrow> string set" where
  "toStringSet s = fold insert s {}"


fun removeKeys ::
  "wire \<Rightarrow> string \<Rightarrow> string set \<Rightarrow> string list \<Rightarrow> string list \<Rightarrow> error option \<times> string list"
  where
  "removeKeys w username planSet [] sent = (None, sent)"
| "removeKeys w username planSet (k # ks) sent =
     (if k \<notin> planSet then
        (case UserRemovePublicKey w username k sent of
           (Some e, sent') \<Rightarrow> (Some e, sent')
         | (None, sent') \<Rightarrow> removeKeys w username planSet ks sent')
      else removeKeys w username planSet ks sent)"

fun addKeys ::
  "wire \<Rightarrow> string \<Rightarrow> string set \<Rightarrow> string list \<Rightarrow> string list \<Rightarrow> error option \<times> string list"
  where
  "addKeys w username stateSet [] sent = (None, sent)"
| "addKeys w username stateSet (k # ks) sent =
     (if k \<notin> stateSet then
        (case UserAddPublicKey w username k sent of
           (Some e, sent') \<Rightarrow> (Some e, sent')
         | (None, sent') \<Rightarrow> addKeys w username stateSet ks sent')
      else addKeys w username stateSet ks sent)"

text \<open>The block of Update under \<open>if !plan.PublicKeys.Equal(state.PublicKeys)\<close>.\<close>

definition updateKeys ::
  "wire \<Rightarrow> string list \<Rightarrow> string list \<Rightarrow> string \<Rightarrow> UserResourceModel \<Rightarrow> UserResourceModel
     \<Rightarrow> string list \<Rightarrow> diagnostics \<times> string list" where
  "updateKeys w stateRange planRange username plan state sent =
     (let (d1, planKeys) = (if \<not> IsNull (um_PublicKeys plan) then ElementsAs (um_PublicKeys plan)
                            else ([], []));
          (d2, stateKeys) = (if \<not> IsNull (um_PublicKeys state) then ElementsAs (um_PublicKeys state)
                             else ([], []))
      in if HasError (d1 @ d2) then (d1 @ d2, sent)
         else
           (let planSet = toStringSet planKeys; stateSet = toStringSet stateKeys in
            case removeKeys w username planSet stateRange sent of
              (Some e, sent1) \<Rightarrow> ([ErrorDiagnostic ''Error removing public key'' e], sent1)
            | (None, sent1) \<Rightarrow>
                (case addKeys w username stateSet planRange sent1 of
                   (Some e, sent2) \<Rightarrow> ([ErrorDiagnostic ''Error adding public key'' e], sent2)
                 | (None, sent2) \<Rightarrow> ([], sent2))))"

definition User_Update ::
  "wire \<Rightarrow> string list \<Rightarrow> string list \<Rightarrow> UserResourceModel \<Rightarrow> UserResourceModel \<Rightarrow> string list
     \<Rightarrow> diagnostics \<times> UserResourceModel option \<times> string list" where
  "User_Update w stateRange planRange plan state sent =
     (let username = ValueString (um_Username plan) in
      case (if \<not> Equal (um_Admin plan) (um_Admin state)
            then UserSetAdmin w username (ValueBool (um_Admin plan)) sent
            else (None, sent)) of
        (Some e, sent1) \<Rightarrow> ([ErrorDiagnostic ''Error updating admin status'' e], None, sent1)
      | (None, sent1) \<Rightarrow>
          (case (if \<not> SetEqual (um_PublicKeys plan) (um_PublicKeys state)
                 then updateKeys w stateRange planRange username plan state sent1
                 else ([], sent1)) of
             (diags, sent2) \<Rightarrow>
               if HasError diags then (diags, None, sent2)
               else readBackUser w username plan sent2))"

subsection \<open>Repository collaborator\<close>

text \<open>The loop of \<open>readCollabState\<close> returns at the first entry with the user's name.\<close>

definition readCollabState ::
  "wire \<Rightarrow> string \<Rightarrow> string \<Rightarrow> RepositoryCollaboratorResourceModel \<Rightarrow> string list
     \<Rightarrow> diagnostics \<times> RepositoryCollaboratorResourceModel \<times> string list" where
  "readCollabState w repo username model sent =
     (case CollabList w repo sent of
        (Inl e, sent') \<Rightarrow> ([ErrorDiagnostic ''Error listing collaborators'' e], model, sent')
      | (Inr collabs, sent') \<Rightarrow>
          (case find (\<lambda>c. ce_Username c = username) collabs of
             Some c \<Rightarrow>
               (let accessLevel = ce_AccessLevel c;
                    accessLevel = (if accessLevel = '''' then ''read-write'' else accessLevel)
                in ([], model\<lparr>cm_ID := Known (repo @ ''/'' @ username),
                               cm_Repository := Known repo,
                               cm_Username := Known username,
                               cm_AccessLevel := Known accessLevel\<rparr>, sent'))
           | None \<Rightarrow>
               ([ErrorDiagnostic ''Collaborator not found'' (NotCollaborator username repo)],
                model, sent')))"

definition Collaborator_Read ::
  "wire \<Rightarrow> RepositoryCollaboratorResourceModel \<Rightarrow> string list
     \<Rightarrow> diagnostics \<times> RepositoryCollaboratorResourceModel option \<times> string list" where
  "Collaborator_Read w state sent =
     (case readCollabState w (ValueString (cm_Repository state)) (ValueString (cm_Username state))
             state sent of
        (diags, state', sent') \<Rightarrow>
          if HasError diags then (diags, None, sent') else (diags, Some state', sent'))"

subsection \<open>Server settings\<close>

text \<open>Delete has an empty body: it runs no command and leaves the response as it got
  it.\<close>

definition ServerSettings_Delete ::
  "wire \<Rightarrow> ServerSettingsResourceModel \<Rightarrow> diagnostics \<Rightarrow> string list
     \<Rightarrow> diagnostics \<times> string list" where
  "ServerSettings_Delete w state diags sent = (diags, sent)"

section \<open>Construction of the client\<close>

text \<open>
  \<open>NewClient\<close> reads its surroundings through the library: \<open>ssh.ParsePrivateKey\<close>,
  \<open>os.ReadFile\<close>, \<open>os.Getenv("SSH_AUTH_SOCK")\<close>, \<open>net.Dial("unix", socket)\<close> and
  \<open>ssh.ParseAuthorizedKey\<close>. The record \<open>system\<close> holds what they return (\<open>Inl\<close> the
  library's error text). A signer is known by the marshalled bytes of its public key, a
  connection to the agent by a number. Besides its result \<open>NewClient\<close> returns the files
  it read and the connections it opened and closed, in order.
\<close>

datatype signer = Signer string

fun Marshal :: "signer \<Rightarrow> string" where
  "Marshal (Signer bytes) = bytes"

datatype client_error =
    ParsingPrivateKey string
  | ReadingPrivateKeyFile string string
  | ParsingPrivateKeyFrom string string
  | ReadingIdentityFile string string
  | ParsingPublicKeyFrom string string
  | FilteringAgentKeys client_error
  | NoAuthenticationMethod
  | AgentError string
  | KeyNotInAgent string

datatype event = ReadFile string | Dial string | Close nat

record system =
  sys_ParsePrivateKey :: "string \<Rightarrow> string + signer"
  sys_ReadFile :: "string \<Rightarrow> string + string"
  sys_SSH_AUTH_SOCK :: string
  sys_Dial :: "string \<Rightarrow> string + nat"
  sys_ParseAuthorizedKey :: "string \<Rightarrow> string + string"

text \<open>An authentication method built by \<open>ssh.PublicKeysCallback\<close>: a function that is
  called when a connection authenticates. It asks the agent for its signers; here it
  takes what the agent answers at that time.\<close>

datatype auth_method =
  PublicKeysCallback "string + signer list \<Rightarrow> client_error + signer list"

record ClientConfig =
  cfg_Host :: string
  cfg_Port :: int
  cfg_Username :: string
  cfg_PrivateKey :: string
  cfg_PrivateKeyPath :: string
  cfg_UseAgent :: bool
  cfg_IdentityFile :: string

record Client =
  cl_host :: string
  cl_port :: int
  cl_username :: string
  cl_signer :: "signer option"
  cl_agentConn :: "nat option"
  cl_agentAuth :: "auth_method option"

text \<open>\<open>agentClient.Signers\<close> as a callback, and the callback of \<open>filteredAgentAuth\<close>
  that offers only the signer whose public key has the wanted bytes.\<close>

definition agentSigners :: "string + signer list \<Rightarrow> client_error + signer list" where
  "agentSigners reply = (case reply of Inl e \<Rightarrow> Inl (AgentError e) | Inr signers \<Rightarrow> Inr signers)"

definition matchingSigner ::
  "string \<Rightarrow> string \<Rightarrow> string + signer list \<Rightarrow> client_error + signer list" where
  "matchingSigner identityFile wantBytes reply =
     (case reply of
        Inl e \<Rightarrow> Inl (AgentError e)
      | Inr signers \<Rightarrow>
          (case find (\<lambda>s. Marshal s = wantBytes) signers of
             Some s \<Rightarrow> Inr [s]
           | None \<Rightarrow> Inl (KeyNotInAgent identityFile)))"

definition filteredAgentAuth :: "system \<Rightarrow> string \<Rightarrow> client_error + auth_method" where
  "filteredAgentAuth sys identityFile =
     (case sys_ReadFile sys identityFile of
        Inl e \<Rightarrow> Inl (ReadingIdentityFile identityFile e)
      | Inr pubKeyData \<Rightarrow>
          (case sys_ParseAuthorizedKey sys pubKeyData of
             Inl e \<Rightarrow> Inl (ParsingPublicKeyFrom identityFile e)
           | Inr wantBytes \<Rightarrow> Inr (PublicKeysCallback (matchingSigner identityFile wantBytes))))"

text \<open>The first block of \<open>NewClient\<close>: the signer from the key contents, else from the
  key file.\<close>

definition resolveSigner ::
  "system \<Rightarrow> ClientConfig \<Rightarrow> Client \<Rightarrow> (client_error + Client) \<times> event list" where
  "resolveSigner sys cfg c =
     (if cfg_PrivateKey cfg \<noteq> '''' then
        (case sys_ParsePrivateKey sys (cfg_PrivateKey cfg) of
           Inl e \<Rightarrow> (Inl (ParsingPrivateKey e), [])
         | Inr s \<Rightarrow> (Inr (c\<lparr>cl_signer := Some s\<rparr>), []))
      else if cfg_PrivateKeyPath cfg \<noteq> '''' then
        (case sys_ReadFile sys (cfg_PrivateKeyPath cfg) of
           Inl e \<Rightarrow> (Inl (ReadingPrivateKeyFile (cfg_PrivateKeyPath cfg) e),
                     [ReadFile (cfg_PrivateKeyPath cfg)])
         | Inr keyData \<Rightarrow>
             (case sys_ParsePrivateKey sys keyData of
                Inl e \<Rightarrow> (Inl (ParsingPrivateKeyFrom (cfg_PrivateKeyPath cfg) e),
                          [ReadFile (cfg_PrivateKeyPath cfg)])
              | Inr s \<Rightarrow> (Inr (c\<lparr>cl_signer := Some s\<rparr>), [ReadFile (cfg_PrivateKeyPath cfg)])))
      else (Inr c, []))"

text \<open>The second block: the agent, when it is asked for and its socket can be dialled.\<close>

definition setUpAgent ::
  "system \<Rightarrow> ClientConfig \<Rightarrow> Client \<Rightarrow> (client_error + Client) \<times> event list" where
  "setUpAgent sys cfg c =
     (if cfg_UseAgent cfg then
        (let socket = sys_SSH_AUTH_SOCK sys in
         if socket \<noteq> '''' then
           (case sys_Dial sys socket of
              Inl e \<Rightarrow> (Inr c, [Dial socket])
            | Inr conn \<Rightarrow>
                (let c = c\<lparr>cl_agentConn := Some conn\<rparr> in
                 if cfg_IdentityFile cfg \<noteq> '''' then
                   (case filteredAgentAuth sys (cfg_IdentityFile cfg) of
                      Inl e \<Rightarrow> (Inl (FilteringAgentKeys e),
                                [Dial socket, ReadFile (cfg_IdentityFile cfg), Close conn])
                    | Inr a \<Rightarrow> (Inr (c\<lparr>cl_agentAuth := Some a\<rparr>),
                                [Dial socket, ReadFile (cfg_IdentityFile cfg)]))
                 else (Inr (c\<lparr>cl_agentAuth := Some (PublicKeysCallback agentSigners)\<rparr>),
                       [Dial socket])))
         else (Inr c, []))
      else (Inr c, []))"

definition NewClient :: "system \<Rightarrow> ClientConfig \<Rightarrow> (client_error + Client) \<times> event list" where
  "NewClient sys cfg =
     (let c = \<lparr>cl_host = cfg_Host cfg, cl_port = cfg_Port cfg, cl_username = cfg_Username cfg,
               cl_signer = None, cl_agentConn = None, cl_agentAuth = None\<rparr> in
      case resolveSigner sys cfg c of
        (Inl e, ev) \<Rightarrow> (Inl e, ev)
      | (Inr c, ev) \<Rightarrow>
          (case setUpAgent sys cfg c of
             (Inl e, ev') \<Rightarrow> (Inl e, ev @ ev')
           | (Inr c, ev') \<Rightarrow>
               if cl_signer c = None \<and> cl_agentAuth c = None
               then (Inl NoAuthenticationMethod, ev @ ev')
               else (Inr c, ev @ ev')))"

section \<open>Notions used in the statements\<close>


text \<open>The continuation bytes of UTF-8, and the width of an encoded code point as its
  first byte tells it.\<close>

definition continuation :: "char \<Rightarrow> bool" where
  "continuation c = ((of_char c :: nat) div 64 = 2)"

definition runeWidth :: "char \<Rightarrow> nat" where
  "runeWidth c = (if (of_char c :: nat) < 128 then 1 else if (of_char c :: nat) < 224 then 2 else 3)"

text \<open>What the specification says a line of the listing yields: the first white-space
  token is the user name, the second, when there is one, the access level.\<close>

definition collabEntryOf :: "string \<Rightarrow> CollabEntry" where
  "collabEntryOf line =
     \<lparr>ce_Username = hd (Fields line),
      ce_AccessLevel = (case tl (Fields line) of [] \<Rightarrow> '''' | level # _ \<Rightarrow> level)\<rparr>"

text \<open>
  Two notions in the words of the specification. \<open>labelHasValue label out\<close>: some line
  of the input yields a non-empty value for the label. \<open>lastValue label kvs\<close>: the value
  of the last pair with that label in a list of pairs, if there is one.
\<close>

definition labelHasValue :: "string \<Rightarrow> string \<Rightarrow> bool" where
  "labelHasValue label out =
     list_ex (\<lambda>line. case parseKeyValue line of (k, v, ok) \<Rightarrow> ok \<and> k = label \<and> v \<noteq> '''')
       (SplitLines out)"

definition lastValue :: "string \<Rightarrow> keyValue list \<Rightarrow> string option" where
  "lastValue label kvs = map_option kv_value (find (\<lambda>kv. kv_key kv = label) (rev kvs))"

text \<open>
  The lines that the loop of \<open>ParseUserInfo\<close> reads as \<open>label: value\<close> lines, as pairs:
  inside a key section a blank line and a line collected as a key are not read so, and
  a line labelled \<open>Public keys\<close> opens a key section.
\<close>

fun userKeyValues :: "string list \<Rightarrow> bool \<Rightarrow> keyValue list" where
  "userKeyValues [] inPublicKeys = []"
| "userKeyValues (line # ls) inPublicKeys =
     (if inPublicKeys \<and> (TrimSpace line = '''' \<or> HasPrefix line ''  '' \<or> \<not> Contains line '': '')
      then userKeyValues ls True
      else (case parseKeyValue line of
              (k, v, ok) \<Rightarrow>
                if ok then \<lparr>kv_key = k, kv_value = v\<rparr> # userKeyValues ls (k = ''Public keys'')
                else userKeyValues ls False))"

text \<open>
  The key sections in the words of the specification. A line opens a key section when
  it is read as the label \<open>Public keys\<close>. \<open>sectionKeys ls inSection\<close> are the keys that
  the lines \<open>ls\<close> yield, \<open>inSection\<close> telling whether they start inside a key section:
  inside a section a blank line is skipped and a line that is indented by two spaces
  or has no \<open>": "\<close> is a key, stored without the white space around it; every other
  line is read as a \<open>label: value\<close> line, after which the lines are inside a section
  exactly when that line opens one.
\<close>

definition opensKeySection :: "string \<Rightarrow> bool" where
  "opensKeySection line = (case parseKeyValue line of (k, v, ok) \<Rightarrow> ok \<and> k = ''Public keys'')"

fun sectionKeys :: "string list \<Rightarrow> bool \<Rightarrow> string list" where
  "sectionKeys [] inSection = []"
| "sectionKeys (line # ls) inSection =
     (if inSection \<and> TrimSpace line = '''' then sectionKeys ls True
      else if inSection \<and> (HasPrefix line ''  '' \<or> \<not> Contains line '': '')
      then TrimSpace line # sectionKeys ls True
      else sectionKeys ls (opensKeySection line))"

text \<open>
  In the words of the specification: a method resolves when it yields an
  authentication method. The key contents resolve when they are given and parse; the
  key file when it is given, can be read and parses; the agent when it is asked for,
  its socket is known and can be dialled, and the identity file, if one is given, can
  be read and parses.
\<close>

definition keyContentResolves :: "system \<Rightarrow> ClientConfig \<Rightarrow> bool" where
  "keyContentResolves sys cfg =
     (cfg_PrivateKey cfg \<noteq> '''' \<and> \<not> isl (sys_ParsePrivateKey sys (cfg_PrivateKey cfg)))"

definition keyFileResolves :: "system \<Rightarrow> ClientConfig \<Rightarrow> bool" where
  "keyFileResolves sys cfg =
     (cfg_PrivateKeyPath cfg \<noteq> '''' \<and>
      (case sys_ReadFile sys (cfg_PrivateKeyPath cfg) of
         Inl e \<Rightarrow> False
       | Inr keyData \<Rightarrow> \<not> isl (sys_ParsePrivateKey sys keyData)))"

definition agentReached :: "system \<Rightarrow> ClientConfig \<Rightarrow> bool" where
  "agentReached sys cfg =
     (cfg_UseAgent cfg \<and> sys_SSH_AUTH_SOCK sys \<noteq> '''' \<and> \<not> isl (sys_Dial sys (sys_SSH_AUTH_SOCK sys)))"

definition agentResolves :: "system \<Rightarrow> ClientConfig \<Rightarrow> bool" where
  "agentResolves sys cfg =
     (agentReached sys cfg \<and>
      (cfg_IdentityFile cfg = '''' \<or> \<not> isl (filteredAgentAuth sys (cfg_IdentityFile cfg))))"

section \<open>Commands run by the resources\<close>

subsection \<open>Auxiliary facts\<close>



lemma runErr_sent: "snd (runErr w cmd sent) = sent @ [cmd]"
  by (simp add: runErr_def Run_def split: sum.splits)

lemma runErr_cases:
  "runErr w x s = (if isl (answer w s x) then Some (projl (answer w s x)) else None, s @ [x])"
  by (cases "answer w s x") (simp_all add: runErr_def Run_def)

lemma readBackRepo_sent:
  "snd (snd (readBackRepo w name model sent)) = sent @ [''repo info '' @ name]"
  by (simp add: readBackRepo_def readRepoState_def RepoInfo_def Run_def
      split: sum.splits prod.splits)

lemma readBackUser_sent:
  "snd (snd (readBackUser w name model sent)) = sent @ [''user info '' @ name]"
  by (simp add: readBackUser_def readUserState_def UserInfo_def Run_def Let_def
      SetValueFrom_def split: sum.splits prod.splits)


lemma SetEqual_of_same_set:
  assumes "distinct xs" "distinct ys" "set xs = set ys"
  shows "SetEqual (Known xs) (Known ys)"
proof -
  have "length xs = length ys"
    using assms by (metis distinct_card)
  with assms(3) show ?thesis by (simp add: SetEqual_def list_all_iff)
qed







subsection \<open>User Update: the difference of the key sets\<close>



subsection \<open>Update without a change\<close>

text \<open>
  Claim C2. When the plan agrees with the prior state on every attribute that Update
  compares (description, project name, private and hidden of a repository; the admin
  flag and the set of public keys of a user, whatever the order of its elements), Update
  runs no command that changes anything: the only command is the query that reads the
  state back, \<open>repo info\<close> or \<open>user info\<close>. This holds whatever the server answers.
\<close>

theorem Update_unchanged_only_reads:
  "(rm_Description plan = rm_Description state \<and> rm_ProjectName plan = rm_ProjectName state
      \<and> rm_Private plan = rm_Private state \<and> rm_Hidden plan = rm_Hidden state
    \<longrightarrow> snd (snd (Repository_Update w plan state sent))
          = sent @ [''repo info '' @ ValueString (rm_Name plan)])
   \<and> (um_Admin uplan = um_Admin ustate
       \<and> (um_PublicKeys uplan = um_PublicKeys ustate
          \<or> (\<exists>xs ys. um_PublicKeys uplan = Known xs \<and> um_PublicKeys ustate = Known ys
                \<and> distinct xs \<and> distinct ys \<and> set xs = set ys))
    \<longrightarrow> snd (snd (User_Update w stateRange planRange uplan ustate sent))
          = sent @ [''user info '' @ ValueString (um_Username uplan)])"
proof (intro conjI impI)
  assume "rm_Description plan = rm_Description state \<and> rm_ProjectName plan = rm_ProjectName state
      \<and> rm_Private plan = rm_Private state \<and> rm_Hidden plan = rm_Hidden state"
  then show "snd (snd (Repository_Update w plan state sent))
          = sent @ [''repo info '' @ ValueString (rm_Name plan)]"
    by (simp add: Repository_Update_def Equal_def readBackRepo_sent)
next
  assume a: "um_Admin uplan = um_Admin ustate
       \<and> (um_PublicKeys uplan = um_PublicKeys ustate
          \<or> (\<exists>xs ys. um_PublicKeys uplan = Known xs \<and> um_PublicKeys ustate = Known ys
                \<and> distinct xs \<and> distinct ys \<and> set xs = set ys))"
  have refl: "SetEqual s s" for s
    by (cases s) (auto simp: SetEqual_def list_all_iff)
  from a have "SetEqual (um_PublicKeys uplan) (um_PublicKeys ustate)"
    using refl SetEqual_of_same_set by auto
  with a show "snd (snd (User_Update w stateRange planRange uplan ustate sent))
          = sent @ [''user info '' @ ValueString (um_Username uplan)]"
    by (simp add: User_Update_def Equal_def HasError_def readBackUser_sent)
qed

theorem Update_unchanged_only_reads_witness:
  "snd (snd (Repository_Update \<lparr>fmt_q = (\<lambda>s. s), answer = (\<lambda>h c. Inl (RunError ''down''))\<rparr>
       \<lparr>rm_ID = Unknown, rm_Name = Known ''proj'', rm_Description = Known ''d'',
        rm_ProjectName = Null, rm_Private = Known True, rm_Hidden = Known False\<rparr>
       \<lparr>rm_ID = Known ''proj'', rm_Name = Known ''proj'', rm_Description = Known ''d'',
        rm_ProjectName = Null, rm_Private = Known True, rm_Hidden = Known False\<rparr> []))
     = [''repo info proj'']
   \<and> snd (snd (User_Update \<lparr>fmt_q = (\<lambda>s. s), answer = (\<lambda>h c. Inl (RunError ''down''))\<rparr>
       [''B'', ''A''] [''A'', ''B'']
       \<lparr>um_ID = Unknown, um_Username = Known ''alice'', um_Admin = Known True,
        um_PublicKeys = Known [''B'', ''A'']\<rparr>
       \<lparr>um_ID = Known ''alice'', um_Username = Known ''alice'', um_Admin = Known True,
        um_PublicKeys = Known [''A'', ''B'']\<rparr> []))
     = [''user info alice'']"
  using Update_unchanged_only_reads [where
      w = "\<lparr>fmt_q = (\<lambda>s. s), answer = (\<lambda>h c. Inl (RunError ''down''))\<rparr>" and
      plan = "\<lparr>rm_ID = Unknown, rm_Name = Known ''proj'', rm_Description = Known ''d'',
        rm_ProjectName = Null, rm_Private = Known True, rm_Hidden = Known False\<rparr>" and
      state = "\<lparr>rm_ID = Known ''proj'', rm_Name = Known ''proj'', rm_Description = Known ''d'',
        rm_ProjectName = Null, rm_Private = Known True, rm_Hidden = Known False\<rparr>" and
      uplan = "\<lparr>um_ID = Unknown, um_Username = Known ''alice'', um_Admin = Known True,
        um_PublicKeys = Known [''B'', ''A'']\<rparr>" and
      ustate = "\<lparr>um_ID = Known ''alice'', um_Username = Known ''alice'', um_Admin = Known True,
        um_PublicKeys = Known [''A'', ''B'']\<rparr>" and
      stateRange = "[''B'', ''A'']" and planRange = "[''A'', ''B'']" and sent = "[]"]
  by (auto simp: ValueString_def)

subsection \<open>Server settings: Delete\<close>

text \<open>
  Claim C8. Delete of the server settings runs no command and adds no diagnostic, for
  every request and whatever the server would answer: the commands run and the
  diagnostics are those before the call, so a response that starts without errors ends
  without errors and the settings on the server are not touched.
\<close>

theorem ServerSettings_Delete_noop:
  "snd (ServerSettings_Delete w state diags sent) = sent
   \<and> fst (ServerSettings_Delete w state diags sent) = diags
   \<and> \<not> HasError (fst (ServerSettings_Delete w state [] sent))"
  by (simp add: ServerSettings_Delete_def HasError_def)

subsection \<open>Repository: values left out on Create, values cleared on Update\<close>

text \<open>A step that may fail, followed by steps that only add commands, only adds
  commands.\<close>

lemma step_extends:
  assumes "\<And>s'. \<exists>rest. snd (snd (k s')) = s' @ rest"
  shows "\<exists>rest. snd (snd (case r of (Some e, s') \<Rightarrow> ([ErrorDiagnostic m e], None, s')
                                   | (None, s') \<Rightarrow> k s')) = snd r @ rest"
proof (cases r)
  case (Pair eo s')
  then show ?thesis using assms [of s'] by (cases eo) auto
qed

lemma readBackRepo_extends: "\<exists>rest. snd (snd (readBackRepo w name model s)) = s @ rest"
  by (simp add: readBackRepo_sent)

lemma Repository_Create_first:
  "\<exists>rest. snd (snd (Repository_Create w plan sent)) =
     sent @ (''repo create '' @ ValueString (rm_Name plan)
        @ (if ValueString (rm_Description plan) = '''' then ''''
           else '' -d '' @ fmt_q w (ValueString (rm_Description plan)))
        @ (if ValueString (rm_ProjectName plan) = '''' then ''''
           else '' -n '' @ fmt_q w (ValueString (rm_ProjectName plan)))
        @ (if ValueBool (rm_Private plan) then '' -p'' else '''')) # rest"
proof -
  let ?name = "ValueString (rm_Name plan)"
  let ?cmd = "''repo create '' @ ?name
        @ (if ValueString (rm_Description plan) = '''' then ''''
           else '' -d '' @ fmt_q w (ValueString (rm_Description plan)))
        @ (if ValueString (rm_ProjectName plan) = '''' then ''''
           else '' -n '' @ fmt_q w (ValueString (rm_ProjectName plan)))
        @ (if ValueBool (rm_Private plan) then '' -p'' else '''')"
  let ?k = "\<lambda>sent1. case (if ValueBool (rm_Hidden plan) then RepoSetHidden w ?name True sent1
                             else (None, sent1)) of
              (Some e, sent2) \<Rightarrow>
                ([ErrorDiagnostic ''Error setting repository hidden'' e], None, sent2)
            | (None, sent2) \<Rightarrow> readBackRepo w ?name plan sent2"
  have create: "Repository_Create w plan sent =
      (case runErr w ?cmd sent of
         (Some e, sent1) \<Rightarrow> ([ErrorDiagnostic ''Error creating repository'' e], None, sent1)
       | (None, sent1) \<Rightarrow> ?k sent1)"
    unfolding Repository_Create_def RepoCreate_def Let_def
    by (cases "rm_Description plan"; cases "rm_ProjectName plan")
       (simp_all add: IsNull_def IsUnknown_def ValueString_def)
  have k: "\<exists>rest. snd (snd (?k s')) = s' @ rest" for s'
    using step_extends [where k = "readBackRepo w ?name plan" and
        r = "if ValueBool (rm_Hidden plan) then RepoSetHidden w ?name True s' else (None, s')" and
        m = "''Error setting repository hidden''", OF readBackRepo_extends]
    by (auto simp: RepoSetHidden_def runErr_cases)
  from step_extends [where k = ?k and r = "runErr w ?cmd sent" and
      m = "''Error creating repository''", OF k]
  show ?thesis
    unfolding create by (simp add: runErr_cases)
qed

lemma Repository_Update_after_description:
  "\<exists>rest. snd (snd (
      case (if \<not> Equal (rm_ProjectName plan) (rm_ProjectName state)
             then RepoSetProjectName w name pn sent1 else (None, sent1)) of
        (Some e, sent2) \<Rightarrow> ([ErrorDiagnostic ''Error updating project name'' e], None, sent2)
      | (None, sent2) \<Rightarrow>
      (case (if \<not> Equal (rm_Private plan) (rm_Private state)
             then RepoSetPrivate w name (ValueBool (rm_Private plan)) sent2
             else (None, sent2)) of
        (Some e, sent3) \<Rightarrow> ([ErrorDiagnostic ''Error updating private'' e], None, sent3)
      | (None, sent3) \<Rightarrow>
      (case (if \<not> Equal (rm_Hidden plan) (rm_Hidden state)
             then RepoSetHidden w name (ValueBool (rm_Hidden plan)) sent3
             else (None, sent3)) of
        (Some e, sent4) \<Rightarrow> ([ErrorDiagnostic ''Error updating hidden'' e], None, sent4)
      | (None, sent4) \<Rightarrow> readBackRepo w name plan sent4))))
    = sent1 @ (if rm_ProjectName plan \<noteq> rm_ProjectName state
               then [''repo project-name '' @ name @ '' '' @ fmt_q w pn] else []) @ rest"
proof -
  let ?k4 = "\<lambda>sent3. case (if \<not> Equal (rm_Hidden plan) (rm_Hidden state)
             then RepoSetHidden w name (ValueBool (rm_Hidden plan)) sent3
             else (None, sent3)) of
        (Some e, sent4) \<Rightarrow> ([ErrorDiagnostic ''Error updating hidden'' e], None, sent4)
      | (None, sent4) \<Rightarrow> readBackRepo w name plan sent4"
  let ?k3 = "\<lambda>sent2. case (if \<not> Equal (rm_Private plan) (rm_Private state)
             then RepoSetPrivate w name (ValueBool (rm_Private plan)) sent2
             else (None, sent2)) of
        (Some e, sent3) \<Rightarrow> ([ErrorDiagnostic ''Error updating private'' e], None, sent3)
      | (None, sent3) \<Rightarrow> ?k4 sent3"
  have k4: "\<exists>rest. snd (snd (?k4 s')) = s' @ rest" for s'
    using step_extends [where k = "readBackRepo w name plan" and
        r = "if \<not> Equal (rm_Hidden plan) (rm_Hidden state)
         then RepoSetHidden w name (ValueBool (rm_Hidden plan)) s' else (None, s')" and
        m = "''Error updating hidden''", OF readBackRepo_extends]
    by (auto simp: RepoSetHidden_def runErr_cases)
  have k3: "\<exists>rest. snd (snd (?k3 s')) = s' @ rest" for s'
    using step_extends [where k = ?k4 and
        r = "if \<not> Equal (rm_Private plan) (rm_Private state)
         then RepoSetPrivate w name (ValueBool (rm_Private plan)) s' else (None, s')" and
        m = "''Error updating private''", OF k4]
    by (auto simp: RepoSetPrivate_def runErr_cases)
  from step_extends [where k = ?k3 and
        r = "if \<not> Equal (rm_ProjectName plan) (rm_ProjectName state)
         then RepoSetProjectName w name pn sent1 else (None, sent1)" and
        m = "''Error updating project name''", OF k3]
  show ?thesis
    by (auto simp: RepoSetProjectName_def runErr_cases Equal_def)
qed

text \<open>The first commands of Create and of Update.\<close>

lemma Repository_first_commands:
  fixes w :: wire and plan state :: RepositoryResourceModel and sent :: "string list"
  defines "name \<equiv> ValueString (rm_Name plan)"
  defines "created \<equiv> drop (length sent) (snd (snd (Repository_Create w plan sent)))"
    and "updated \<equiv> drop (length sent) (snd (snd (Repository_Update w plan state sent)))"
    and "private \<equiv> (if ValueBool (rm_Private plan) then '' -p'' else '''')"
    and "setDescription \<equiv> ''repo description '' @ name @ '' ''
           @ fmt_q w (if \<not> IsNull (rm_Description plan) then ValueString (rm_Description plan)
                      else '''')"
  shows
   "(rm_Description plan \<in> {Null, Unknown} \<and> rm_ProjectName plan \<in> {Null, Unknown}
       \<longrightarrow> created \<noteq> [] \<and> hd created = ''repo create '' @ name @ private)
    \<and> (rm_Description plan \<in> {Null, Unknown}
       \<longrightarrow> created \<noteq> [] \<and> hd created = ''repo create '' @ name
             @ (if ValueString (rm_ProjectName plan) = '''' then ''''
                else '' -n '' @ fmt_q w (ValueString (rm_ProjectName plan))) @ private)
    \<and> (rm_ProjectName plan \<in> {Null, Unknown}
       \<longrightarrow> created \<noteq> [] \<and> hd created = ''repo create '' @ name
             @ (if ValueString (rm_Description plan) = '''' then ''''
                else '' -d '' @ fmt_q w (ValueString (rm_Description plan))) @ private)
    \<and> ((\<exists>d. rm_Description state = Known d \<and> d \<noteq> '''')
          \<and> rm_Description plan \<in> {Null, Known ''''}
       \<longrightarrow> updated \<noteq> [] \<and> hd updated = ''repo description '' @ name @ '' '' @ fmt_q w '''')
    \<and> ((\<exists>p. rm_ProjectName state = Known p \<and> p \<noteq> '''')
          \<and> rm_ProjectName plan \<in> {Null, Known ''''}
          \<and> rm_Description plan = rm_Description state
       \<longrightarrow> updated \<noteq> [] \<and> hd updated = ''repo project-name '' @ name @ '' '' @ fmt_q w '''')
    \<and> ((\<exists>p. rm_ProjectName state = Known p \<and> p \<noteq> '''')
          \<and> rm_ProjectName plan \<in> {Null, Known ''''}
          \<and> rm_Description plan \<noteq> rm_Description state
          \<and> \<not> isl (answer w sent setDescription)
       \<longrightarrow> length updated \<ge> 2 \<and> updated ! 0 = setDescription
           \<and> updated ! 1 = ''repo project-name '' @ name @ '' '' @ fmt_q w '''')"
proof -
  from Repository_Create_first [where w = w and plan = plan and sent = sent] obtain rest where
    cr: "created = (''repo create '' @ name
        @ (if ValueString (rm_Description plan) = '''' then ''''
           else '' -d '' @ fmt_q w (ValueString (rm_Description plan)))
        @ (if ValueString (rm_ProjectName plan) = '''' then ''''
           else '' -n '' @ fmt_q w (ValueString (rm_ProjectName plan)))
        @ private) # rest"
    by (auto simp: created_def name_def private_def)
  have nov: "v \<in> {Null, Unknown} \<Longrightarrow> ValueString v = ''''" for v
    by (auto simp: ValueString_def)
  have c1: "rm_Description plan \<in> {Null, Unknown} \<and> rm_ProjectName plan \<in> {Null, Unknown}
       \<longrightarrow> created \<noteq> [] \<and> hd created = ''repo create '' @ name @ private"
    using nov by (simp add: cr del: insert_iff)
  have c2: "rm_Description plan \<in> {Null, Unknown}
       \<longrightarrow> created \<noteq> [] \<and> hd created = ''repo create '' @ name
             @ (if ValueString (rm_ProjectName plan) = '''' then ''''
                else '' -n '' @ fmt_q w (ValueString (rm_ProjectName plan))) @ private"
    using nov by (simp add: cr del: insert_iff)
  have c3: "rm_ProjectName plan \<in> {Null, Unknown}
       \<longrightarrow> created \<noteq> [] \<and> hd created = ''repo create '' @ name
             @ (if ValueString (rm_Description plan) = '''' then ''''
                else '' -d '' @ fmt_q w (ValueString (rm_Description plan))) @ private"
    using nov by (simp add: cr del: insert_iff)
  let ?pn = "if \<not> IsNull (rm_ProjectName plan) then ValueString (rm_ProjectName plan) else ''''"
  have cleared: "v \<in> {Null, Known ''''} \<Longrightarrow> (if \<not> IsNull v then ValueString v else '''') = ''''"
    for v
    by (auto simp: IsNull_def ValueString_def)
  define k2 where "k2 = (\<lambda>sent1.
      case (if \<not> Equal (rm_ProjectName plan) (rm_ProjectName state)
             then RepoSetProjectName w name ?pn sent1 else (None, sent1)) of
        (Some e, sent2) \<Rightarrow> ([ErrorDiagnostic ''Error updating project name'' e], None, sent2)
      | (None, sent2) \<Rightarrow>
      (case (if \<not> Equal (rm_Private plan) (rm_Private state)
             then RepoSetPrivate w name (ValueBool (rm_Private plan)) sent2
             else (None, sent2)) of
        (Some e, sent3) \<Rightarrow> ([ErrorDiagnostic ''Error updating private'' e], None, sent3)
      | (None, sent3) \<Rightarrow>
      (case (if \<not> Equal (rm_Hidden plan) (rm_Hidden state)
             then RepoSetHidden w name (ValueBool (rm_Hidden plan)) sent3
             else (None, sent3)) of
        (Some e, sent4) \<Rightarrow> ([ErrorDiagnostic ''Error updating hidden'' e], None, sent4)
      | (None, sent4) \<Rightarrow> readBackRepo w name plan sent4)))"
  have after: "\<exists>rest. snd (snd (k2 s1)) = s1 @ (if rm_ProjectName plan \<noteq> rm_ProjectName state
               then [''repo project-name '' @ name @ '' '' @ fmt_q w ?pn] else []) @ rest" for s1
    unfolding k2_def by (rule Repository_Update_after_description)
  have upd: "Repository_Update w plan state sent =
      (case (if rm_Description plan \<noteq> rm_Description state
             then runErr w setDescription sent else (None, sent)) of
        (Some e, sent1) \<Rightarrow> ([ErrorDiagnostic ''Error updating description'' e], None, sent1)
      | (None, sent1) \<Rightarrow> k2 sent1)"
    unfolding k2_def Repository_Update_def Let_def name_def [symmetric] Equal_def
      RepoSetDescription_def setDescription_def
    by (rule refl)
  have same: "rm_Description plan = rm_Description state \<Longrightarrow>
      \<exists>rest. updated = (if rm_ProjectName plan \<noteq> rm_ProjectName state
               then [''repo project-name '' @ name @ '' '' @ fmt_q w ?pn] else []) @ rest"
    using after [of sent] by (auto simp: updated_def upd)
  have changed: "\<exists>rest. updated = setDescription # rest"
    if "rm_Description plan \<noteq> rm_Description state"
  proof (cases "isl (answer w sent setDescription)")
    case True
    with that show ?thesis by (simp add: updated_def upd runErr_cases)
  next
    case False
    from after [of "sent @ [setDescription]"] obtain rest where
      "snd (snd (k2 (sent @ [setDescription]))) = sent @ setDescription # rest"
      by (cases "rm_ProjectName plan \<noteq> rm_ProjectName state") auto
    with that False show ?thesis by (simp add: updated_def upd runErr_cases)
  qed
  have accepted: "\<exists>rest. updated = setDescription # (if rm_ProjectName plan \<noteq> rm_ProjectName state
               then [''repo project-name '' @ name @ '' '' @ fmt_q w ?pn] else []) @ rest"
    if "rm_Description plan \<noteq> rm_Description state" "\<not> isl (answer w sent setDescription)"
  proof -
    from after [of "sent @ [setDescription]"] obtain rest where
      "snd (snd (k2 (sent @ [setDescription]))) = sent @ setDescription #
         (if rm_ProjectName plan \<noteq> rm_ProjectName state
          then [''repo project-name '' @ name @ '' '' @ fmt_q w ?pn] else []) @ rest"
      by auto
    with that show ?thesis by (simp add: updated_def upd runErr_cases)
  qed
  have u1: "(\<exists>d. rm_Description state = Known d \<and> d \<noteq> '''')
          \<and> rm_Description plan \<in> {Null, Known ''''}
       \<longrightarrow> updated \<noteq> [] \<and> hd updated = ''repo description '' @ name @ '' '' @ fmt_q w ''''"
  proof
    assume a: "(\<exists>d. rm_Description state = Known d \<and> d \<noteq> '''')
          \<and> rm_Description plan \<in> {Null, Known ''''}"
    then have "rm_Description plan \<noteq> rm_Description state" by auto
    from changed [OF this] a cleared [of "rm_Description plan"]
    show "updated \<noteq> [] \<and> hd updated = ''repo description '' @ name @ '' '' @ fmt_q w ''''"
      by (auto simp: setDescription_def)
  qed
  have u2: "(\<exists>p. rm_ProjectName state = Known p \<and> p \<noteq> '''')
          \<and> rm_ProjectName plan \<in> {Null, Known ''''}
          \<and> rm_Description plan = rm_Description state
       \<longrightarrow> updated \<noteq> [] \<and> hd updated = ''repo project-name '' @ name @ '' '' @ fmt_q w ''''"
  proof
    assume a: "(\<exists>p. rm_ProjectName state = Known p \<and> p \<noteq> '''')
          \<and> rm_ProjectName plan \<in> {Null, Known ''''}
          \<and> rm_Description plan = rm_Description state"
    then have "rm_ProjectName plan \<noteq> rm_ProjectName state" by auto
    with same a cleared [of "rm_ProjectName plan"]
    show "updated \<noteq> [] \<and> hd updated = ''repo project-name '' @ name @ '' '' @ fmt_q w ''''"
      by auto
  qed
  have u3: "(\<exists>p. rm_ProjectName state = Known p \<and> p \<noteq> '''')
          \<and> rm_ProjectName plan \<in> {Null, Known ''''}
          \<and> rm_Description plan \<noteq> rm_Description state
          \<and> \<not> isl (answer w sent setDescription)
       \<longrightarrow> length updated \<ge> 2 \<and> updated ! 0 = setDescription
           \<and> updated ! 1 = ''repo project-name '' @ name @ '' '' @ fmt_q w ''''"
  proof
    assume a: "(\<exists>p. rm_ProjectName state = Known p \<and> p \<noteq> '''')
          \<and> rm_ProjectName plan \<in> {Null, Known ''''}
          \<and> rm_Description plan \<noteq> rm_Description state
          \<and> \<not> isl (answer w sent setDescription)"
    then have "rm_ProjectName plan \<noteq> rm_ProjectName state" by auto
    with accepted a cleared [of "rm_ProjectName plan"]
    show "length updated \<ge> 2 \<and> updated ! 0 = setDescription
           \<and> updated ! 1 = ''repo project-name '' @ name @ '' '' @ fmt_q w ''''"
      by auto
  qed
  from c1 c2 c3 u1 u2 u3 show ?thesis by blast
qed

text \<open>A step that runs one command when its condition holds, followed by steps that run
  a prefix of a list of commands, runs a prefix of the longer list, and the whole list
  when the server accepts the command and the later steps run all of theirs.\<close>

lemma step_run:
  assumes k: "\<And>s'. \<exists>run. snd (snd (k s')) = s' @ run \<and> prefix run rest \<and> (acc \<longrightarrow> run = rest)"
  shows "\<exists>run. snd (snd (case (if c then runErr w cmd s else (None, s)) of
                              (Some e, s') \<Rightarrow> ([ErrorDiagnostic m e], None, s')
                            | (None, s') \<Rightarrow> k s')) = s @ run
      \<and> prefix run ((if c then [cmd] else []) @ rest)
      \<and> ((c \<longrightarrow> (\<forall>h. \<not> isl (answer w h cmd))) \<and> acc \<longrightarrow> run = (if c then [cmd] else []) @ rest)"
proof (cases "c")
  case False
  then show ?thesis using k [of s] by simp
next
  case True
  show ?thesis
  proof (cases "isl (answer w s cmd)")
    case failed: True
    have "snd (snd (case (if c then runErr w cmd s else (None, s)) of
                              (Some e, s') \<Rightarrow> ([ErrorDiagnostic m e], None, s')
                            | (None, s') \<Rightarrow> k s')) = s @ [cmd]"
      using True failed by (simp add: runErr_cases)
    moreover have "\<not> (\<forall>h. \<not> isl (answer w h cmd))" using failed by blast
    ultimately show ?thesis using True by auto
  next
    case ok: False
    obtain run where run: "snd (snd (k (s @ [cmd]))) = (s @ [cmd]) @ run" "prefix run rest"
        "acc \<longrightarrow> run = rest"
      using k [of "s @ [cmd]"] by blast
    have "snd (snd (case (if c then runErr w cmd s else (None, s)) of
                              (Some e, s') \<Rightarrow> ([ErrorDiagnostic m e], None, s')
                            | (None, s') \<Rightarrow> k s')) = s @ cmd # run"
      using True ok run(1) by (simp add: runErr_cases)
    then show ?thesis using True run(2,3) by auto
  qed
qed

lemma readBackRepo_run:
  "\<exists>run. snd (snd (readBackRepo w name model s)) = s @ run
     \<and> prefix run [''repo info '' @ name] \<and> (True \<longrightarrow> run = [''repo info '' @ name])"
  by (simp add: readBackRepo_sent)

lemma Repository_Create_commands:
  fixes w :: wire and plan :: RepositoryResourceModel
  defines "name \<equiv> ValueString (rm_Name plan)"
  defines "createCommand \<equiv> ''repo create '' @ name
      @ (if ValueString (rm_Description plan) = '''' then ''''
         else '' -d '' @ fmt_q w (ValueString (rm_Description plan)))
      @ (if ValueString (rm_ProjectName plan) = '''' then ''''
         else '' -n '' @ fmt_q w (ValueString (rm_ProjectName plan)))
      @ (if ValueBool (rm_Private plan) then '' -p'' else '''')"
  defines "cmds \<equiv> createCommand
      # (if ValueBool (rm_Hidden plan) then [''repo hidden '' @ name @ '' true''] else [])"
  shows "\<exists>run. snd (snd (Repository_Create w plan sent)) = sent @ run
      \<and> prefix run (cmds @ [''repo info '' @ name])
      \<and> ((\<forall>h. \<forall>c\<in>set cmds. \<not> isl (answer w h c)) \<longrightarrow> run = cmds @ [''repo info '' @ name])"
proof -
  define hidden where "hidden = ''repo hidden '' @ name @ '' '' @ fmt_t True"
  have hidden: "hidden = ''repo hidden '' @ name @ '' true''"
    by (simp add: hidden_def fmt_t_def)
  define k2 where "k2 s = readBackRepo w name plan s" for s
  define k1 where "k1 s =
      (case (if ValueBool (rm_Hidden plan) then runErr w hidden s else (None, s)) of
         (Some e, s') \<Rightarrow> ([ErrorDiagnostic ''Error setting repository hidden'' e], None, s')
       | (None, s') \<Rightarrow> k2 s')" for s
  define k0 where "k0 s =
      (case (if True then runErr w createCommand s else (None, s)) of
         (Some e, s') \<Rightarrow> ([ErrorDiagnostic ''Error creating repository'' e], None, s')
       | (None, s') \<Rightarrow> k1 s')" for s
  have opts: "(let cmd = ''repo create '' @ name;
          cmd = (if co_Description opts \<noteq> ''''
                 then cmd @ '' -d '' @ fmt_q w (co_Description opts) else cmd);
          cmd = (if co_ProjectName opts \<noteq> ''''
                 then cmd @ '' -n '' @ fmt_q w (co_ProjectName opts) else cmd);
          cmd = (if co_Private opts then cmd @ '' -p'' else cmd)
      in cmd) = createCommand"
    if "co_Description opts = ValueString (rm_Description plan)"
      "co_ProjectName opts = ValueString (rm_ProjectName plan)"
      "co_Private opts = ValueBool (rm_Private plan)" for opts
    using that by (simp add: createCommand_def Let_def)
  have create: "RepoCreate w name
      (let opts = \<lparr>co_Description = '''', co_ProjectName = '''',
                  co_Private = ValueBool (rm_Private plan)\<rparr>;
          opts = (if \<not> IsNull (rm_Description plan) \<and> \<not> IsUnknown (rm_Description plan)
                  then opts\<lparr>co_Description := ValueString (rm_Description plan)\<rparr> else opts);
          opts = (if \<not> IsNull (rm_ProjectName plan) \<and> \<not> IsUnknown (rm_ProjectName plan)
                  then opts\<lparr>co_ProjectName := ValueString (rm_ProjectName plan)\<rparr> else opts)
       in opts) s = runErr w createCommand s" for s
  proof -
    let ?opts = "(let opts = \<lparr>co_Description = '''', co_ProjectName = '''',
                  co_Private = ValueBool (rm_Private plan)\<rparr>;
          opts = (if \<not> IsNull (rm_Description plan) \<and> \<not> IsUnknown (rm_Description plan)
                  then opts\<lparr>co_Description := ValueString (rm_Description plan)\<rparr> else opts);
          opts = (if \<not> IsNull (rm_ProjectName plan) \<and> \<not> IsUnknown (rm_ProjectName plan)
                  then opts\<lparr>co_ProjectName := ValueString (rm_ProjectName plan)\<rparr> else opts)
       in opts)"
    have 1: "co_Description ?opts = ValueString (rm_Description plan)"
      by (cases "rm_Description plan")
         (simp_all add: Let_def IsNull_def IsUnknown_def ValueString_def)
    have 2: "co_ProjectName ?opts = ValueString (rm_ProjectName plan)"
      by (cases "rm_ProjectName plan")
         (simp_all add: Let_def IsNull_def IsUnknown_def ValueString_def)
    have 3: "co_Private ?opts = ValueBool (rm_Private plan)"
      by (simp add: Let_def)
    have "RepoCreate w name ?opts s = runErr w (let cmd = ''repo create '' @ name;
          cmd = (if co_Description ?opts \<noteq> ''''
                 then cmd @ '' -d '' @ fmt_q w (co_Description ?opts) else cmd);
          cmd = (if co_ProjectName ?opts \<noteq> ''''
                 then cmd @ '' -n '' @ fmt_q w (co_ProjectName ?opts) else cmd);
          cmd = (if co_Private ?opts then cmd @ '' -p'' else cmd)
      in cmd) s"
      unfolding RepoCreate_def Let_def by (rule refl)
    also have "\<dots> = runErr w createCommand s"
      by (simp only: opts [OF 1 2 3])
    finally show ?thesis .
  qed
  have "Repository_Create w plan sent =
      (case RepoCreate w name
      (let opts = \<lparr>co_Description = '''', co_ProjectName = '''',
                  co_Private = ValueBool (rm_Private plan)\<rparr>;
          opts = (if \<not> IsNull (rm_Description plan) \<and> \<not> IsUnknown (rm_Description plan)
                  then opts\<lparr>co_Description := ValueString (rm_Description plan)\<rparr> else opts);
          opts = (if \<not> IsNull (rm_ProjectName plan) \<and> \<not> IsUnknown (rm_ProjectName plan)
                  then opts\<lparr>co_ProjectName := ValueString (rm_ProjectName plan)\<rparr> else opts)
       in opts) sent of
           (Some e, sent1) \<Rightarrow> ([ErrorDiagnostic ''Error creating repository'' e], None, sent1)
         | (None, sent1) \<Rightarrow>
             (case (if ValueBool (rm_Hidden plan) then RepoSetHidden w name True sent1
                    else (None, sent1)) of
                (Some e, sent2) \<Rightarrow>
                  ([ErrorDiagnostic ''Error setting repository hidden'' e], None, sent2)
              | (None, sent2) \<Rightarrow> readBackRepo w name plan sent2))"
    unfolding Repository_Create_def Let_def name_def by (rule refl)
  also have "\<dots> = k0 sent"
    unfolding create k0_def k1_def k2_def RepoSetHidden_def hidden_def if_True by (rule refl)
  finally have upd: "Repository_Create w plan sent = k0 sent" .
  have p2: "\<exists>run. snd (snd (k2 s)) = s @ run
     \<and> prefix run [''repo info '' @ name] \<and> (True \<longrightarrow> run = [''repo info '' @ name])" for s
    unfolding k2_def by (rule readBackRepo_run)
  have p1: "\<exists>run. snd (snd (k1 s)) = s @ run
     \<and> prefix run ((if ValueBool (rm_Hidden plan) then [hidden] else []) @ [''repo info '' @ name])
     \<and> ((ValueBool (rm_Hidden plan) \<longrightarrow> (\<forall>h. \<not> isl (answer w h hidden))) \<and> True
         \<longrightarrow> run = (if ValueBool (rm_Hidden plan) then [hidden] else []) @ [''repo info '' @ name])"
    for s
    unfolding k1_def by (rule step_run) (rule p2)
  have p0: "\<exists>run. snd (snd (k0 s)) = s @ run
     \<and> prefix run ((if True then [createCommand] else [])
          @ (if ValueBool (rm_Hidden plan) then [hidden] else []) @ [''repo info '' @ name])
     \<and> ((True \<longrightarrow> (\<forall>h. \<not> isl (answer w h createCommand)))
          \<and> ((ValueBool (rm_Hidden plan) \<longrightarrow> (\<forall>h. \<not> isl (answer w h hidden))) \<and> True)
         \<longrightarrow> run = (if True then [createCommand] else [])
          @ (if ValueBool (rm_Hidden plan) then [hidden] else []) @ [''repo info '' @ name])"
    for s
    unfolding k0_def by (rule step_run) (rule p1)
  from p0 [of sent] show ?thesis
    unfolding upd cmds_def hidden by auto
qed

lemma Repository_Update_commands:
  fixes w :: wire and plan state :: RepositoryResourceModel
  defines "name \<equiv> ValueString (rm_Name plan)"
  defines "cmds \<equiv>
      (if rm_Description plan \<noteq> rm_Description state
       then [''repo description '' @ name @ '' '' @ fmt_q w (ValueString (rm_Description plan))]
       else [])
      @ (if rm_ProjectName plan \<noteq> rm_ProjectName state
         then [''repo project-name '' @ name @ '' '' @ fmt_q w (ValueString (rm_ProjectName plan))]
         else [])
      @ (if rm_Private plan \<noteq> rm_Private state
         then [''repo private '' @ name @ '' '' @ fmt_t (ValueBool (rm_Private plan))] else [])
      @ (if rm_Hidden plan \<noteq> rm_Hidden state
         then [''repo hidden '' @ name @ '' '' @ fmt_t (ValueBool (rm_Hidden plan))] else [])"
  shows "\<exists>run. snd (snd (Repository_Update w plan state sent)) = sent @ run
      \<and> prefix run (cmds @ [''repo info '' @ name])
      \<and> ((\<forall>h. \<forall>c\<in>set cmds. \<not> isl (answer w h c)) \<longrightarrow> run = cmds @ [''repo info '' @ name])"
proof -
  define c1 where "c1 = (\<not> Equal (rm_Description plan) (rm_Description state))"
  define c2 where "c2 = (\<not> Equal (rm_ProjectName plan) (rm_ProjectName state))"
  define c3 where "c3 = (\<not> Equal (rm_Private plan) (rm_Private state))"
  define c4 where "c4 = (\<not> Equal (rm_Hidden plan) (rm_Hidden state))"
  define d1 where "d1 = ''repo description '' @ name @ '' ''
      @ fmt_q w (if \<not> IsNull (rm_Description plan) then ValueString (rm_Description plan) else '''')"
  define d2 where "d2 = ''repo project-name '' @ name @ '' ''
      @ fmt_q w (if \<not> IsNull (rm_ProjectName plan) then ValueString (rm_ProjectName plan) else '''')"
  define d3 where "d3 = ''repo private '' @ name @ '' '' @ fmt_t (ValueBool (rm_Private plan))"
  define d4 where "d4 = ''repo hidden '' @ name @ '' '' @ fmt_t (ValueBool (rm_Hidden plan))"
  define info where "info = ''repo info '' @ name"
  define k5 where "k5 s = readBackRepo w name plan s" for s
  define k4 where "k4 s =
      (case (if c4 then runErr w d4 s else (None, s)) of
         (Some e, s') \<Rightarrow> ([ErrorDiagnostic ''Error updating hidden'' e], None, s')
       | (None, s') \<Rightarrow> k5 s')" for s
  define k3 where "k3 s =
      (case (if c3 then runErr w d3 s else (None, s)) of
         (Some e, s') \<Rightarrow> ([ErrorDiagnostic ''Error updating private'' e], None, s')
       | (None, s') \<Rightarrow> k4 s')" for s
  define k2 where "k2 s =
      (case (if c2 then runErr w d2 s else (None, s)) of
         (Some e, s') \<Rightarrow> ([ErrorDiagnostic ''Error updating project name'' e], None, s')
       | (None, s') \<Rightarrow> k3 s')" for s
  define k1 where "k1 s =
      (case (if c1 then runErr w d1 s else (None, s)) of
         (Some e, s') \<Rightarrow> ([ErrorDiagnostic ''Error updating description'' e], None, s')
       | (None, s') \<Rightarrow> k2 s')" for s
  have upd: "Repository_Update w plan state sent = k1 sent"
    unfolding Repository_Update_def Let_def k1_def k2_def k3_def k4_def k5_def
      c1_def c2_def c3_def c4_def d1_def d2_def d3_def d4_def name_def
      RepoSetDescription_def RepoSetProjectName_def RepoSetPrivate_def RepoSetHidden_def
    by (rule refl)
  have p5: "\<exists>run. snd (snd (k5 s)) = s @ run
     \<and> prefix run [info] \<and> (True \<longrightarrow> run = [info])" for s
    unfolding k5_def info_def by (rule readBackRepo_run)
  have p4: "\<exists>run. snd (snd (k4 s)) = s @ run
     \<and> prefix run ((if c4 then [d4] else []) @ [info])
     \<and> ((c4 \<longrightarrow> (\<forall>h. \<not> isl (answer w h d4))) \<and> True
         \<longrightarrow> run = (if c4 then [d4] else []) @ [info])" for s
    unfolding k4_def by (rule step_run) (rule p5)
  have p3: "\<exists>run. snd (snd (k3 s)) = s @ run
     \<and> prefix run ((if c3 then [d3] else []) @ (if c4 then [d4] else []) @ [info])
     \<and> ((c3 \<longrightarrow> (\<forall>h. \<not> isl (answer w h d3)))
          \<and> ((c4 \<longrightarrow> (\<forall>h. \<not> isl (answer w h d4))) \<and> True)
         \<longrightarrow> run = (if c3 then [d3] else []) @ (if c4 then [d4] else []) @ [info])" for s
    unfolding k3_def by (rule step_run) (rule p4)
  have p2: "\<exists>run. snd (snd (k2 s)) = s @ run
     \<and> prefix run ((if c2 then [d2] else []) @ (if c3 then [d3] else [])
          @ (if c4 then [d4] else []) @ [info])
     \<and> ((c2 \<longrightarrow> (\<forall>h. \<not> isl (answer w h d2)))
          \<and> ((c3 \<longrightarrow> (\<forall>h. \<not> isl (answer w h d3)))
          \<and> ((c4 \<longrightarrow> (\<forall>h. \<not> isl (answer w h d4))) \<and> True))
         \<longrightarrow> run = (if c2 then [d2] else []) @ (if c3 then [d3] else [])
          @ (if c4 then [d4] else []) @ [info])" for s
    unfolding k2_def by (rule step_run) (rule p3)
  have p1: "\<exists>run. snd (snd (k1 s)) = s @ run
     \<and> prefix run ((if c1 then [d1] else []) @ (if c2 then [d2] else [])
          @ (if c3 then [d3] else []) @ (if c4 then [d4] else []) @ [info])
     \<and> ((c1 \<longrightarrow> (\<forall>h. \<not> isl (answer w h d1)))
          \<and> ((c2 \<longrightarrow> (\<forall>h. \<not> isl (answer w h d2)))
          \<and> ((c3 \<longrightarrow> (\<forall>h. \<not> isl (answer w h d3)))
          \<and> ((c4 \<longrightarrow> (\<forall>h. \<not> isl (answer w h d4))) \<and> True)))
         \<longrightarrow> run = (if c1 then [d1] else []) @ (if c2 then [d2] else [])
          @ (if c3 then [d3] else []) @ (if c4 then [d4] else []) @ [info])" for s
    unfolding k1_def by (rule step_run) (rule p2)
  have e1: "d1 = ''repo description '' @ name @ '' '' @ fmt_q w (ValueString (rm_Description plan))"
    by (cases "rm_Description plan") (simp_all add: d1_def IsNull_def ValueString_def)
  have e2: "d2 = ''repo project-name '' @ name @ '' '' @ fmt_q w (ValueString (rm_ProjectName plan))"
    by (cases "rm_ProjectName plan") (simp_all add: d2_def IsNull_def ValueString_def)
  have cmds: "cmds = (if c1 then [d1] else []) @ (if c2 then [d2] else [])
          @ (if c3 then [d3] else []) @ (if c4 then [d4] else [])"
    unfolding cmds_def e1 e2 d3_def d4_def c1_def c2_def c3_def c4_def Equal_def by simp
  have "\<exists>run. snd (snd (k1 sent)) = sent @ run
     \<and> prefix run (cmds @ [info])
     \<and> ((c1 \<longrightarrow> (\<forall>h. \<not> isl (answer w h d1)))
          \<and> ((c2 \<longrightarrow> (\<forall>h. \<not> isl (answer w h d2)))
          \<and> ((c3 \<longrightarrow> (\<forall>h. \<not> isl (answer w h d3)))
          \<and> ((c4 \<longrightarrow> (\<forall>h. \<not> isl (answer w h d4))) \<and> True)))
         \<longrightarrow> run = cmds @ [info])"
    unfolding cmds append_assoc by (rule p1)
  then obtain run where run: "snd (snd (k1 sent)) = sent @ run"
      "prefix run (cmds @ [info])"
      "(c1 \<longrightarrow> (\<forall>h. \<not> isl (answer w h d1)))
          \<and> ((c2 \<longrightarrow> (\<forall>h. \<not> isl (answer w h d2)))
          \<and> ((c3 \<longrightarrow> (\<forall>h. \<not> isl (answer w h d3)))
          \<and> ((c4 \<longrightarrow> (\<forall>h. \<not> isl (answer w h d4))) \<and> True)))
         \<longrightarrow> run = cmds @ [info]"
    by blast
  have "run = cmds @ [info]" if "\<forall>h. \<forall>c\<in>set cmds. \<not> isl (answer w h c)"
  proof -
    from that have "(c1 \<longrightarrow> (\<forall>h. \<not> isl (answer w h d1)))
          \<and> ((c2 \<longrightarrow> (\<forall>h. \<not> isl (answer w h d2)))
          \<and> ((c3 \<longrightarrow> (\<forall>h. \<not> isl (answer w h d3)))
          \<and> ((c4 \<longrightarrow> (\<forall>h. \<not> isl (answer w h d4))) \<and> True)))"
      unfolding cmds by auto
    with run(3) show ?thesis by blast
  qed
  with run(1,2) show ?thesis
    unfolding upd info_def by blast
qed

text \<open>
  Claim C5. The commands of Create are, in this order, \<open>repo create <name>\<close>, then
  \<open>repo hidden <name> true\<close> for a hidden repository, then the query \<open>repo info\<close>:
  whatever the server answers Create runs a prefix of this list that starts with the
  create command, and the whole list when the server accepts the commands, so none of
  its commands is \<open>repo description\<close> or \<open>repo project-name\<close>. The create command
  carries \<open>-d\<close> and the quoted description only when one is given, \<open>-n\<close> and the quoted
  project name only when one is given, and \<open>-p\<close> for a private repository: with a null
  or unknown description it has no \<open>-d\<close>, with a null or unknown project name no \<open>-n\<close>.
  The commands of Update are one command for each of description, project name,
  private and hidden that differs from the prior state, in this order, then the query;
  Update runs a prefix of this list, and the whole list when the server accepts the
  commands. When the prior description is not empty and the planned one is null or
  empty, Update starts with \<open>repo description <name>\<close> and the quoted empty string; when
  the prior project name is not empty and the planned one is null or empty, it runs
  \<open>repo project-name <name>\<close> with the quoted empty string, as its first command when
  the description is unchanged and as its second when the description command was
  accepted (Update returns at the first command that fails).
\<close>

theorem Repository_defaulting_asymmetry:
  fixes w :: wire and plan state :: RepositoryResourceModel and sent :: "string list"
  defines "name \<equiv> ValueString (rm_Name plan)"
  defines "created \<equiv> drop (length sent) (snd (snd (Repository_Create w plan sent)))"
    and "updated \<equiv> drop (length sent) (snd (snd (Repository_Update w plan state sent)))"
    and "private \<equiv> (if ValueBool (rm_Private plan) then '' -p'' else '''')"
    and "setDescription \<equiv> ''repo description '' @ name @ '' ''
           @ fmt_q w (if \<not> IsNull (rm_Description plan) then ValueString (rm_Description plan)
                      else '''')"
  defines "createCommand \<equiv> ''repo create '' @ name
           @ (if ValueString (rm_Description plan) = '''' then ''''
              else '' -d '' @ fmt_q w (ValueString (rm_Description plan)))
           @ (if ValueString (rm_ProjectName plan) = '''' then ''''
              else '' -n '' @ fmt_q w (ValueString (rm_ProjectName plan)))
           @ private"
  defines "createCommands \<equiv> createCommand
           # (if ValueBool (rm_Hidden plan) then [''repo hidden '' @ name @ '' true''] else [])"
    and "updateCommands \<equiv>
           (if rm_Description plan \<noteq> rm_Description state
            then [''repo description '' @ name @ '' '' @ fmt_q w (ValueString (rm_Description plan))]
            else [])
           @ (if rm_ProjectName plan \<noteq> rm_ProjectName state
              then [''repo project-name '' @ name @ '' ''
                      @ fmt_q w (ValueString (rm_ProjectName plan))]
              else [])
           @ (if rm_Private plan \<noteq> rm_Private state
              then [''repo private '' @ name @ '' '' @ fmt_t (ValueBool (rm_Private plan))]
              else [])
           @ (if rm_Hidden plan \<noteq> rm_Hidden state
              then [''repo hidden '' @ name @ '' '' @ fmt_t (ValueBool (rm_Hidden plan))]
              else [])"
  shows
   "(rm_Description plan \<in> {Null, Unknown} \<and> rm_ProjectName plan \<in> {Null, Unknown}
       \<longrightarrow> created \<noteq> [] \<and> hd created = ''repo create '' @ name @ private)
    \<and> (rm_Description plan \<in> {Null, Unknown}
       \<longrightarrow> created \<noteq> [] \<and> hd created = ''repo create '' @ name
             @ (if ValueString (rm_ProjectName plan) = '''' then ''''
                else '' -n '' @ fmt_q w (ValueString (rm_ProjectName plan))) @ private)
    \<and> (rm_ProjectName plan \<in> {Null, Unknown}
       \<longrightarrow> created \<noteq> [] \<and> hd created = ''repo create '' @ name
             @ (if ValueString (rm_Description plan) = '''' then ''''
                else '' -d '' @ fmt_q w (ValueString (rm_Description plan))) @ private)
    \<and> ((\<exists>d. rm_Description state = Known d \<and> d \<noteq> '''')
          \<and> rm_Description plan \<in> {Null, Known ''''}
       \<longrightarrow> updated \<noteq> [] \<and> hd updated = ''repo description '' @ name @ '' '' @ fmt_q w '''')
    \<and> ((\<exists>p. rm_ProjectName state = Known p \<and> p \<noteq> '''')
          \<and> rm_ProjectName plan \<in> {Null, Known ''''}
          \<and> rm_Description plan = rm_Description state
       \<longrightarrow> updated \<noteq> [] \<and> hd updated = ''repo project-name '' @ name @ '' '' @ fmt_q w '''')
    \<and> ((\<exists>p. rm_ProjectName state = Known p \<and> p \<noteq> '''')
          \<and> rm_ProjectName plan \<in> {Null, Known ''''}
          \<and> rm_Description plan \<noteq> rm_Description state
          \<and> \<not> isl (answer w sent setDescription)
       \<longrightarrow> length updated \<ge> 2 \<and> updated ! 0 = setDescription
           \<and> updated ! 1 = ''repo project-name '' @ name @ '' '' @ fmt_q w '''')
    \<and> created \<noteq> [] \<and> hd created = createCommand
    \<and> prefix created (createCommands @ [''repo info '' @ name])
    \<and> ((\<forall>h. \<forall>c\<in>set createCommands. \<not> isl (answer w h c))
       \<longrightarrow> created = createCommands @ [''repo info '' @ name])
    \<and> (\<forall>c\<in>set created. \<not> prefix ''repo description '' c \<and> \<not> prefix ''repo project-name '' c)
    \<and> prefix updated (updateCommands @ [''repo info '' @ name])
    \<and> ((\<forall>h. \<forall>c\<in>set updateCommands. \<not> isl (answer w h c))
       \<longrightarrow> updated = updateCommands @ [''repo info '' @ name])"
proof -
  have first: "(rm_Description plan \<in> {Null, Unknown} \<and> rm_ProjectName plan \<in> {Null, Unknown}
       \<longrightarrow> created \<noteq> [] \<and> hd created = ''repo create '' @ name @ private)
    \<and> (rm_Description plan \<in> {Null, Unknown}
       \<longrightarrow> created \<noteq> [] \<and> hd created = ''repo create '' @ name
             @ (if ValueString (rm_ProjectName plan) = '''' then ''''
                else '' -n '' @ fmt_q w (ValueString (rm_ProjectName plan))) @ private)
    \<and> (rm_ProjectName plan \<in> {Null, Unknown}
       \<longrightarrow> created \<noteq> [] \<and> hd created = ''repo create '' @ name
             @ (if ValueString (rm_Description plan) = '''' then ''''
                else '' -d '' @ fmt_q w (ValueString (rm_Description plan))) @ private)
    \<and> ((\<exists>d. rm_Description state = Known d \<and> d \<noteq> '''')
          \<and> rm_Description plan \<in> {Null, Known ''''}
       \<longrightarrow> updated \<noteq> [] \<and> hd updated = ''repo description '' @ name @ '' '' @ fmt_q w '''')
    \<and> ((\<exists>p. rm_ProjectName state = Known p \<and> p \<noteq> '''')
          \<and> rm_ProjectName plan \<in> {Null, Known ''''}
          \<and> rm_Description plan = rm_Description state
       \<longrightarrow> updated \<noteq> [] \<and> hd updated = ''repo project-name '' @ name @ '' '' @ fmt_q w '''')
    \<and> ((\<exists>p. rm_ProjectName state = Known p \<and> p \<noteq> '''')
          \<and> rm_ProjectName plan \<in> {Null, Known ''''}
          \<and> rm_Description plan \<noteq> rm_Description state
          \<and> \<not> isl (answer w sent setDescription)
       \<longrightarrow> length updated \<ge> 2 \<and> updated ! 0 = setDescription
           \<and> updated ! 1 = ''repo project-name '' @ name @ '' '' @ fmt_q w '''')"
    unfolding created_def updated_def private_def setDescription_def name_def
    by (rule Repository_first_commands)
  obtain rest where rest: "snd (snd (Repository_Create w plan sent)) = sent @ createCommand # rest"
    using Repository_Create_first [of w plan sent]
    unfolding createCommand_def private_def name_def by blast
  have hd: "created \<noteq> [] \<and> hd created = createCommand"
    by (simp add: created_def rest)
  obtain run where run: "snd (snd (Repository_Create w plan sent)) = sent @ run"
      "prefix run (createCommands @ [''repo info '' @ name])"
      "(\<forall>h. \<forall>c\<in>set createCommands. \<not> isl (answer w h c))
         \<longrightarrow> run = createCommands @ [''repo info '' @ name]"
    using Repository_Create_commands [of w plan sent]
    unfolding createCommands_def createCommand_def private_def name_def by blast
  have created: "created = run"
    by (simp add: created_def run(1))
  have none: "\<not> prefix ''repo description '' c \<and> \<not> prefix ''repo project-name '' c"
    if "c \<in> set created" for c
  proof -
    from that run(2) have "c \<in> set (createCommands @ [''repo info '' @ name])"
      unfolding created using set_mono_prefix by blast
    then consider "c = createCommand" | "c = ''repo hidden '' @ name @ '' true''"
      | "c = ''repo info '' @ name"
      by (auto simp: createCommands_def split: if_splits)
    then show ?thesis
      by cases (simp_all add: createCommand_def)
  qed
  obtain urun where urun: "snd (snd (Repository_Update w plan state sent)) = sent @ urun"
      "prefix urun (updateCommands @ [''repo info '' @ name])"
      "(\<forall>h. \<forall>c\<in>set updateCommands. \<not> isl (answer w h c))
         \<longrightarrow> urun = updateCommands @ [''repo info '' @ name]"
    using Repository_Update_commands [of w plan state sent]
    unfolding updateCommands_def name_def by blast
  have updated: "updated = urun"
    by (simp add: updated_def urun(1))
  have more: "created \<noteq> [] \<and> hd created = createCommand
    \<and> prefix created (createCommands @ [''repo info '' @ name])
    \<and> ((\<forall>h. \<forall>c\<in>set createCommands. \<not> isl (answer w h c))
       \<longrightarrow> created = createCommands @ [''repo info '' @ name])
    \<and> (\<forall>c\<in>set created. \<not> prefix ''repo description '' c \<and> \<not> prefix ''repo project-name '' c)
    \<and> prefix updated (updateCommands @ [''repo info '' @ name])
    \<and> ((\<forall>h. \<forall>c\<in>set updateCommands. \<not> isl (answer w h c))
       \<longrightarrow> updated = updateCommands @ [''repo info '' @ name])"
    using hd run(2,3) none urun(2,3) unfolding created updated by blast
  from first more show ?thesis
    by (elim conjE, intro conjI) assumption+
qed

text \<open>A repository \<open>proj\<close> with description \<open>d\<close> and project name \<open>p\<close>, and a plan
  that gives neither: Create sends \<open>repo create proj -p\<close> and the query, Update sends
  the two clearing commands with the quoted empty string and the query.\<close>

theorem Repository_defaulting_asymmetry_witness:
  "drop (length ([] :: string list)) (snd (snd (Repository_Create
        \<lparr>fmt_q = (\<lambda>s. CHR 0x22 # s @ [CHR 0x22]), answer = (\<lambda>h c. Inr '''')\<rparr>
        \<lparr>rm_ID = Unknown, rm_Name = Known ''proj'', rm_Description = Null,
         rm_ProjectName = Null, rm_Private = Known True, rm_Hidden = Known False\<rparr> [])))
     = [''repo create proj -p'', ''repo info proj'']
   \<and> drop (length ([] :: string list)) (snd (snd (Repository_Update
        \<lparr>fmt_q = (\<lambda>s. CHR 0x22 # s @ [CHR 0x22]), answer = (\<lambda>h c. Inr '''')\<rparr>
        \<lparr>rm_ID = Unknown, rm_Name = Known ''proj'', rm_Description = Null,
         rm_ProjectName = Null, rm_Private = Known True, rm_Hidden = Known False\<rparr>
        \<lparr>rm_ID = Known ''proj'', rm_Name = Known ''proj'', rm_Description = Known ''d'',
         rm_ProjectName = Known ''p'', rm_Private = Known True, rm_Hidden = Known False\<rparr> [])))
     = [''repo description proj '' @ [CHR 0x22, CHR 0x22],
        ''repo project-name proj '' @ [CHR 0x22, CHR 0x22], ''repo info proj'']
   \<and> hd (drop (length ([] :: string list)) (snd (snd (Repository_Update
        \<lparr>fmt_q = (\<lambda>s. CHR 0x22 # s @ [CHR 0x22]), answer = (\<lambda>h c. Inr '''')\<rparr>
        \<lparr>rm_ID = Unknown, rm_Name = Known ''proj'', rm_Description = Known ''d'',
         rm_ProjectName = Known '''', rm_Private = Known True, rm_Hidden = Known False\<rparr>
        \<lparr>rm_ID = Known ''proj'', rm_Name = Known ''proj'', rm_Description = Known ''d'',
         rm_ProjectName = Known ''p'', rm_Private = Known True, rm_Hidden = Known False\<rparr> []))))
     = ''repo project-name proj '' @ [CHR 0x22, CHR 0x22]"
  using Repository_defaulting_asymmetry [where
      w = "\<lparr>fmt_q = (\<lambda>s. CHR 0x22 # s @ [CHR 0x22]), answer = (\<lambda>h c. Inr '''')\<rparr>" and
      plan = "\<lparr>rm_ID = Unknown, rm_Name = Known ''proj'', rm_Description = Null,
         rm_ProjectName = Null, rm_Private = Known True, rm_Hidden = Known False\<rparr>" and
      state = "\<lparr>rm_ID = Known ''proj'', rm_Name = Known ''proj'', rm_Description = Known ''d'',
         rm_ProjectName = Known ''p'', rm_Private = Known True, rm_Hidden = Known False\<rparr>" and
      sent = "[]"]
    Repository_defaulting_asymmetry [where
      w = "\<lparr>fmt_q = (\<lambda>s. CHR 0x22 # s @ [CHR 0x22]), answer = (\<lambda>h c. Inr '''')\<rparr>" and
      plan = "\<lparr>rm_ID = Unknown, rm_Name = Known ''proj'', rm_Description = Known ''d'',
         rm_ProjectName = Known '''', rm_Private = Known True, rm_Hidden = Known False\<rparr>" and
      state = "\<lparr>rm_ID = Known ''proj'', rm_Name = Known ''proj'', rm_Description = Known ''d'',
         rm_ProjectName = Known ''p'', rm_Private = Known True, rm_Hidden = Known False\<rparr>" and
      sent = "[]"]
  by (simp add: ValueString_def ValueBool_def IsNull_def)

subsection \<open>Collaborator Read\<close>

text \<open>
  Claim C7. Read lists the collaborators of the repository. When the listing fails, the
  only diagnostic is the listing error and no state is set. When the listing succeeds,
  Read fails with the diagnostic \<open>Collaborator not found\<close> exactly when no entry of the
  parsed listing has the user's name; otherwise it sets the state from the entry of
  that name (the first one, should the listing repeat a name), with the access level
  \<open>read-write\<close> when the entry lists none.
\<close>

theorem Collaborator_Read_not_found:
  fixes w :: wire and state :: RepositoryCollaboratorResourceModel and sent :: "string list"
  defines "repo \<equiv> ValueString (cm_Repository state)"
    and "username \<equiv> ValueString (cm_Username state)"
  defines "r \<equiv> Collaborator_Read w state sent"
    and "notFound \<equiv> [ErrorDiagnostic ''Collaborator not found'' (NotCollaborator username repo)]"
  shows
   "(\<forall>e. answer w sent (''repo collab list '' @ repo) = Inl e
       \<longrightarrow> fst r = [ErrorDiagnostic ''Error listing collaborators'' e] \<and> fst (snd r) = None)
    \<and> (\<forall>out collabs.
         answer w sent (''repo collab list '' @ repo) = Inr out
         \<and> ParseCollabList (TrimRightNewlines out) = Inr collabs
       \<longrightarrow> (fst r = notFound \<longleftrightarrow> username \<notin> ce_Username ` set collabs)
         \<and> (HasError (fst r) \<longleftrightarrow> username \<notin> ce_Username ` set collabs)
         \<and> (\<forall>c. find (\<lambda>c. ce_Username c = username) collabs = Some c
              \<longrightarrow> fst r = []
                \<and> fst (snd r) = Some (state\<lparr>cm_ID := Known (repo @ ''/'' @ username),
                       cm_Repository := Known repo, cm_Username := Known username,
                       cm_AccessLevel := Known (if ce_AccessLevel c = '''' then ''read-write''
                                                else ce_AccessLevel c)\<rparr>)))"
proof -
  have failed: "fst r = [ErrorDiagnostic ''Error listing collaborators'' e] \<and> fst (snd r) = None"
    if "answer w sent (''repo collab list '' @ repo) = Inl e" for e
    using that
    by (simp add: r_def Collaborator_Read_def readCollabState_def CollabList_def Run_def
        repo_def [symmetric] HasError_def)
  have listed: "(fst r = notFound \<longleftrightarrow> username \<notin> ce_Username ` set collabs)
         \<and> (HasError (fst r) \<longleftrightarrow> username \<notin> ce_Username ` set collabs)
         \<and> (\<forall>c. find (\<lambda>c. ce_Username c = username) collabs = Some c
              \<longrightarrow> fst r = []
                \<and> fst (snd r) = Some (state\<lparr>cm_ID := Known (repo @ ''/'' @ username),
                       cm_Repository := Known repo, cm_Username := Known username,
                       cm_AccessLevel := Known (if ce_AccessLevel c = '''' then ''read-write''
                                                else ce_AccessLevel c)\<rparr>))"
    if a: "answer w sent (''repo collab list '' @ repo) = Inr out
         \<and> ParseCollabList (TrimRightNewlines out) = Inr collabs" for out collabs
  proof -
    from a have l: "CollabList w repo sent = (Inr collabs, sent @ [''repo collab list '' @ repo])"
      by (simp add: CollabList_def Run_def)
    have none: "find (\<lambda>c. ce_Username c = username) collabs = None
        \<longleftrightarrow> username \<notin> ce_Username ` set collabs"
      by (auto simp: find_None_iff)
    have 1: "fst r = notFound \<longleftrightarrow> username \<notin> ce_Username ` set collabs"
      unfolding none [symmetric]
      by (cases "find (\<lambda>c. ce_Username c = username) collabs")
         (simp_all add: r_def Collaborator_Read_def readCollabState_def l HasError_def Let_def
            repo_def [symmetric] username_def [symmetric] notFound_def)
    have 2: "HasError (fst r) \<longleftrightarrow> username \<notin> ce_Username ` set collabs"
      unfolding none [symmetric]
      by (cases "find (\<lambda>c. ce_Username c = username) collabs")
         (simp_all add: r_def Collaborator_Read_def readCollabState_def l HasError_def Let_def
            repo_def [symmetric] username_def [symmetric])
    have 3: "fst r = []
                \<and> fst (snd r) = Some (state\<lparr>cm_ID := Known (repo @ ''/'' @ username),
                       cm_Repository := Known repo, cm_Username := Known username,
                       cm_AccessLevel := Known (if ce_AccessLevel c = '''' then ''read-write''
                                                else ce_AccessLevel c)\<rparr>)"
      if "find (\<lambda>c. ce_Username c = username) collabs = Some c" for c
      using that
      by (simp add: r_def Collaborator_Read_def readCollabState_def l HasError_def Let_def
            repo_def [symmetric] username_def [symmetric])
    from 1 2 3 show ?thesis by blast
  qed
  from failed listed show ?thesis by blast
qed

text \<open>The listing \<open>alice read-only\<close>, \<open>bob\<close>: Read of bob sets the access level
  \<open>read-write\<close>, Read of carol fails with \<open>Collaborator not found\<close>, and Read over a
  connection that is down fails with the listing error.\<close>

theorem Collaborator_Read_not_found_witness:
  "fst (snd (Collaborator_Read
      \<lparr>fmt_q = (\<lambda>s. s),
       answer = (\<lambda>h c. Inr (''alice read-only'' @ [CHR 0x0A] @ ''bob'' @ [CHR 0x0A]))\<rparr>
      \<lparr>cm_ID = Null, cm_Repository = Known ''proj'', cm_Username = Known ''bob'',
       cm_AccessLevel = Null\<rparr> []))
     = Some \<lparr>cm_ID = Known ''proj/bob'', cm_Repository = Known ''proj'',
             cm_Username = Known ''bob'', cm_AccessLevel = Known ''read-write''\<rparr>
   \<and> fst (Collaborator_Read
      \<lparr>fmt_q = (\<lambda>s. s),
       answer = (\<lambda>h c. Inr (''alice read-only'' @ [CHR 0x0A] @ ''bob'' @ [CHR 0x0A]))\<rparr>
      \<lparr>cm_ID = Null, cm_Repository = Known ''proj'', cm_Username = Known ''carol'',
       cm_AccessLevel = Null\<rparr> [])
     = [ErrorDiagnostic ''Collaborator not found'' (NotCollaborator ''carol'' ''proj'')]
   \<and> fst (Collaborator_Read
      \<lparr>fmt_q = (\<lambda>s. s), answer = (\<lambda>h c. Inl (RunError ''down''))\<rparr>
      \<lparr>cm_ID = Null, cm_Repository = Known ''proj'', cm_Username = Known ''bob'',
       cm_AccessLevel = Null\<rparr> [])
     = [ErrorDiagnostic ''Error listing collaborators'' (RunError ''down'')]"
proof -
  let ?w = "\<lparr>fmt_q = (\<lambda>s. s),
       answer = (\<lambda>h c. Inr (''alice read-only'' @ [CHR 0x0A] @ ''bob'' @ [CHR 0x0A]))\<rparr>"
  let ?down = "\<lparr>fmt_q = (\<lambda>s. s), answer = (\<lambda>h c. Inl (RunError ''down''))\<rparr>"
  let ?bob = "\<lparr>cm_ID = Null, cm_Repository = Known ''proj'', cm_Username = Known ''bob'',
       cm_AccessLevel = Null\<rparr>"
  let ?carol = "\<lparr>cm_ID = Null, cm_Repository = Known ''proj'', cm_Username = Known ''carol'',
       cm_AccessLevel = Null\<rparr>"
  have p: "ParseCollabList (TrimRightNewlines (''alice read-only'' @ [CHR 0x0A] @ ''bob'' @ [CHR 0x0A]))
      = Inr [\<lparr>ce_Username = ''alice'', ce_AccessLevel = ''read-only''\<rparr>,
             \<lparr>ce_Username = ''bob'', ce_AccessLevel = ''''\<rparr>]"
    by code_simp
  have 1: "fst (snd (Collaborator_Read ?w ?bob []))
     = Some \<lparr>cm_ID = Known ''proj/bob'', cm_Repository = Known ''proj'',
             cm_Username = Known ''bob'', cm_AccessLevel = Known ''read-write''\<rparr>"
    using p Collaborator_Read_not_found [where w = ?w and state = ?bob and sent = "[]",
        THEN conjunct2, rule_format,
        where out = "''alice read-only'' @ [CHR 0x0A] @ ''bob'' @ [CHR 0x0A]"]
    by (simp add: ValueString_def)
  have 2: "fst (Collaborator_Read ?w ?carol [])
     = [ErrorDiagnostic ''Collaborator not found'' (NotCollaborator ''carol'' ''proj'')]"
    using p Collaborator_Read_not_found [where w = ?w and state = ?carol and sent = "[]",
        THEN conjunct2, rule_format,
        where out = "''alice read-only'' @ [CHR 0x0A] @ ''bob'' @ [CHR 0x0A]"]
    by (simp add: ValueString_def)
  have 3: "fst (Collaborator_Read ?down ?bob [])
     = [ErrorDiagnostic ''Error listing collaborators'' (RunError ''down'')]"
    using Collaborator_Read_not_found [where w = ?down and state = ?bob and sent = "[]",
        THEN conjunct1]
    by (simp add: ValueString_def)
  from 1 2 3 show ?thesis by simp
qed

section \<open>Facts about white space\<close>

lemma spaceRunes_nonempty: "w \<in> set spaceRunes \<Longrightarrow> w \<noteq> []"
  by (auto simp: spaceRunes_def)

lemma leadingSpace_le: "leadingSpace s \<le> length s"
  by (auto simp: leadingSpace_def prefix_length_le split: option.splits dest!: find_Some_iff[THEN iffD1])

lemma trailingSpace_le: "trailingSpace s \<le> length s"
  by (auto simp: trailingSpace_def suffix_length_le split: option.splits dest!: find_Some_iff[THEN iffD1])

lemma leadingSpace_pos: "leadingSpace s \<noteq> 0 \<Longrightarrow> s \<noteq> []"
  using leadingSpace_le [of s] by auto

lemma trailingSpace_pos: "trailingSpace s \<noteq> 0 \<Longrightarrow> s \<noteq> []"
  using trailingSpace_le [of s] by auto

text \<open>In UTF-8 the first byte of an encoded code point tells its width, and every further
  byte is a continuation byte (\<open>0x80\<close> to \<open>0xBF\<close>); no white-space rune contains a colon,
  and only the line feed itself contains the byte of a line feed.\<close>

lemma spaceRunes_shape:
  assumes "w \<in> set spaceRunes"
  shows "w \<noteq> []" "\<not> continuation (hd w)" "\<forall>c\<in>set (tl w). continuation c"
    "length w = runeWidth (hd w)" "CHR 0x3A \<notin> set w" "CHR 0x0A \<in> set w \<longrightarrow> w = [CHR 0x0A]"
  using assms by (auto simp: spaceRunes_def continuation_def runeWidth_def)

lemma find_SomeD: "find P xs = Some x \<Longrightarrow> x \<in> set xs \<and> P x"
  by (induction xs) (auto split: if_splits)

lemma find_spaceRunes_prefix:
  assumes "w \<in> set spaceRunes"
  shows "\<exists>r \<in> set spaceRunes. find (\<lambda>r. prefix r (w @ t)) spaceRunes = Some r \<and> length r = length w"
proof (cases "find (\<lambda>r. prefix r (w @ t)) spaceRunes")
  case None
  with assms show ?thesis by (auto simp: find_None_iff)
next
  case (Some r)
  then have r: "r \<in> set spaceRunes" "prefix r (w @ t)"
    by (auto dest: find_SomeD)
  from r(1) assms have ne: "r \<noteq> []" "w \<noteq> []" by (auto dest: spaceRunes_shape(1))
  with r(2) have "hd r = hd w"
    by (cases r; cases w) auto
  with r(1) assms have "length r = length w"
    by (simp add: spaceRunes_shape(4))
  with Some r(1) show ?thesis by simp
qed

lemma leadingSpace_rune: "w \<in> set spaceRunes \<Longrightarrow> leadingSpace (w @ t) = length w"
  using find_spaceRunes_prefix [of w t] by (auto simp: leadingSpace_def)

lemma leadingSpace_take:
  assumes "leadingSpace s \<noteq> 0"
  shows "take (leadingSpace s) s \<in> set spaceRunes"
proof -
  from assms obtain r where f: "find (\<lambda>r. prefix r s) spaceRunes = Some r"
    by (auto simp: leadingSpace_def split: option.splits)
  then have "r \<in> set spaceRunes" "prefix r s"
    by (auto dest: find_SomeD)
  moreover from f have "leadingSpace s = length r" by (simp add: leadingSpace_def)
  ultimately show ?thesis by (auto simp: prefix_def)
qed

lemma suffix_rune_eq:
  assumes "r \<in> set spaceRunes" "w \<in> set spaceRunes" "suffix r w"
  shows "r = w"
proof (rule ccontr)
  assume "r \<noteq> w"
  with assms(3) obtain u where u: "w = u @ r" "u \<noteq> []"
    by (auto simp: suffix_def)
  from assms(1) have "r \<noteq> []" by (rule spaceRunes_shape(1))
  with u have "hd r \<in> set (tl w)"
    by (cases u; cases r) auto
  with assms(2) have "continuation (hd r)"
    using spaceRunes_shape(3) by blast
  with assms(1) show False
    using spaceRunes_shape(2) by blast
qed

lemma trailingSpace_rune:
  assumes "w \<in> set spaceRunes"
  shows "trailingSpace (t @ w) = length w"
proof (cases "find (\<lambda>r. suffix r (t @ w)) spaceRunes")
  case None
  then have "\<not> suffix w (t @ w)" using assms by (auto simp: find_None_iff)
  then show ?thesis by (auto simp: suffix_def)
next
  case (Some r)
  then have r: "r \<in> set spaceRunes" "suffix r (t @ w)"
    by (auto dest: find_SomeD)
  have "suffix w (t @ w)" by (auto simp: suffix_def)
  with r(2) have "suffix r w \<or> suffix w r"
    by (rule suffix_same_cases)
  with r(1) assms have "r = w"
    using suffix_rune_eq by blast
  with Some show ?thesis by (simp add: trailingSpace_def)
qed

lemma trailingSpace_drop:
  assumes "trailingSpace s \<noteq> 0"
  shows "drop (length s - trailingSpace s) s \<in> set spaceRunes"
proof -
  from assms obtain r where f: "find (\<lambda>r. suffix r s) spaceRunes = Some r"
    by (auto simp: trailingSpace_def split: option.splits)
  then have "r \<in> set spaceRunes" "suffix r s"
    by (auto dest: find_SomeD)
  moreover from f have "trailingSpace s = length r" by (simp add: trailingSpace_def)
  ultimately show ?thesis by (auto simp: suffix_def)
qed

lemma leadingSpace_append_rune:
  assumes "t \<noteq> []" "w \<in> set spaceRunes"
  shows "leadingSpace (t @ w) = leadingSpace t"
proof -
  have "prefix r (t @ w) \<longleftrightarrow> prefix r t" if r: "r \<in> set spaceRunes" for r
  proof
    assume p: "prefix r (t @ w)"
    show "prefix r t"
    proof (rule ccontr)
      assume n: "\<not> prefix r t"
      with p obtain us where us: "r = t @ us" "prefix us w"
        by (auto simp: prefix_append)
      with n have ne: "us \<noteq> []" by auto
      from assms(2) have "w \<noteq> []" by (rule spaceRunes_shape(1))
      with us ne have "hd us = hd w" by (cases us; cases w) auto
      moreover from us ne assms(1) have "hd us \<in> set (tl r)" by (cases t; cases us) auto
      ultimately have "continuation (hd w)"
        using r spaceRunes_shape(3) by metis
      with assms(2) show False using spaceRunes_shape(2) by blast
    qed
  qed simp
  then have "find (\<lambda>r. prefix r (t @ w)) spaceRunes = find (\<lambda>r. prefix r t) spaceRunes"
    by (intro find_cong) auto
  then show ?thesis by (simp add: leadingSpace_def)
qed

lemma leadingSpace_zero_iff: "leadingSpace s = 0 \<longleftrightarrow> (\<forall>r\<in>set spaceRunes. \<not> prefix r s)"
proof (cases "find (\<lambda>r. prefix r s) spaceRunes")
  case None
  then have "\<forall>r\<in>set spaceRunes. \<not> prefix r s" by (simp add: find_None_iff)
  moreover have "leadingSpace s = 0" using None by (simp add: leadingSpace_def)
  ultimately show ?thesis by simp
next
  case (Some r)
  then have "r \<in> set spaceRunes" "prefix r s" by (auto dest: find_SomeD)
  with Some spaceRunes_shape(1) [of r] show ?thesis by (auto simp: leadingSpace_def)
qed

lemma leadingSpace_take_zero: "leadingSpace s = 0 \<Longrightarrow> leadingSpace (take k s) = 0"
  unfolding leadingSpace_zero_iff
  using prefix_order.trans take_is_prefix by blast

subsection \<open>Trimming\<close>

lemma TrimLeftSpace_Nil [simp]: "TrimLeftSpace [] = []"
  using leadingSpace_le [of "[]"] by (subst TrimLeftSpace.simps) simp

lemma TrimRightSpace_Nil [simp]: "TrimRightSpace [] = []"
  using trailingSpace_le [of "[]"] by (subst TrimRightSpace.simps) simp

lemma TrimSpace_Nil [simp]: "TrimSpace [] = []"
  by (simp add: TrimSpace_def)

lemma TrimLeftSpace_rune: "w \<in> set spaceRunes \<Longrightarrow> TrimLeftSpace (w @ t) = TrimLeftSpace t"
  using spaceRunes_shape(1) [of w]
  by (subst TrimLeftSpace.simps) (simp add: leadingSpace_rune)

lemma TrimRightSpace_rune: "w \<in> set spaceRunes \<Longrightarrow> TrimRightSpace (t @ w) = TrimRightSpace t"
  using spaceRunes_shape(1) [of w]
  by (subst TrimRightSpace.simps) (simp add: trailingSpace_rune)

lemma leadingSpace_TrimLeftSpace: "leadingSpace (TrimLeftSpace s) = 0"
  by (induction s rule: TrimLeftSpace.induct) (subst TrimLeftSpace.simps, simp)

lemma leadingSpace_TrimRightSpace: "leadingSpace s = 0 \<Longrightarrow> leadingSpace (TrimRightSpace s) = 0"
  by (induction s rule: TrimRightSpace.induct)
     (subst TrimRightSpace.simps, simp add: leadingSpace_take_zero)

lemma leadingSpace_TrimSpace: "leadingSpace (TrimSpace s) = 0"
  by (simp add: TrimSpace_def leadingSpace_TrimRightSpace leadingSpace_TrimLeftSpace)

lemma TrimLeftSpace_none: "leadingSpace s = 0 \<Longrightarrow> TrimLeftSpace s = s"
  by (subst TrimLeftSpace.simps) simp

lemma TrimRightSpace_none: "trailingSpace s = 0 \<Longrightarrow> TrimRightSpace s = s"
  by (subst TrimRightSpace.simps) simp

text \<open>Induction over the runes removed on the left, and on the right.\<close>

lemma leading_runes_induct [case_names none rune]:
  assumes "\<And>s. leadingSpace s = 0 \<Longrightarrow> P s"
    and "\<And>w t. w \<in> set spaceRunes \<Longrightarrow> P t \<Longrightarrow> P (w @ t)"
  shows "P s"
proof (induction s rule: TrimLeftSpace.induct)
  case (1 s)
  show ?case
  proof (cases "leadingSpace s = 0")
    case True
    then show ?thesis by (rule assms(1))
  next
    case False
    from assms(2) [OF leadingSpace_take [OF False] "1.IH" [OF False]]
    show ?thesis by simp
  qed
qed

lemma trailing_runes_induct [case_names none rune]:
  assumes "\<And>s. trailingSpace s = 0 \<Longrightarrow> P s"
    and "\<And>w t. w \<in> set spaceRunes \<Longrightarrow> P t \<Longrightarrow> P (t @ w)"
  shows "P s"
proof (induction s rule: TrimRightSpace.induct)
  case (1 s)
  show ?case
  proof (cases "trailingSpace s = 0")
    case True
    then show ?thesis by (rule assms(1))
  next
    case False
    from assms(2) [OF trailingSpace_drop [OF False] "1.IH" [OF False]]
    show ?thesis by simp
  qed
qed

lemma colon_TrimLeftSpace: "CHR 0x3A \<in> set s \<Longrightarrow> CHR 0x3A \<in> set (TrimLeftSpace s)"
proof (induction s rule: leading_runes_induct)
  case (none s)
  then show ?case by (simp add: TrimLeftSpace_none)
next
  case (rune w t)
  then show ?case using spaceRunes_shape(5) [of w] by (simp add: TrimLeftSpace_rune)
qed

lemma colon_TrimRightSpace: "CHR 0x3A \<in> set s \<Longrightarrow> CHR 0x3A \<in> set (TrimRightSpace s)"
proof (induction s rule: trailing_runes_induct)
  case (none s)
  then show ?case by (simp add: TrimRightSpace_none)
next
  case (rune w t)
  then show ?case using spaceRunes_shape(5) [of w] by (simp add: TrimRightSpace_rune)
qed

lemma colon_TrimSpace: "CHR 0x3A \<in> set s \<Longrightarrow> TrimSpace s \<noteq> []"
  using colon_TrimRightSpace [OF colon_TrimLeftSpace, of s] by (auto simp: TrimSpace_def)

lemma Index_Some_set: "Index s sep = Some i \<Longrightarrow> set sep \<subseteq> set s"
proof (induction s arbitrary: i)
  case Nil
  then show ?case by (simp split: if_splits)
next
  case (Cons c cs)
  show ?case
  proof (cases "prefix sep (c # cs)")
    case True
    then show ?thesis by (rule set_mono_prefix)
  next
    case False
    with Cons.prems obtain j where "Index cs sep = Some j" by auto
    from Cons.IH [OF this] show ?thesis by auto
  qed
qed

lemma Contains_colon_TrimSpace: "Contains line '': '' \<Longrightarrow> TrimSpace line \<noteq> ''''"
proof -
  assume "Contains line '': ''"
  then obtain i where "Index line '': '' = Some i" by (auto simp: Contains_def)
  from Index_Some_set [OF this] have "CHR 0x3A \<in> set line" by simp
  then show ?thesis by (rule colon_TrimSpace)
qed

text \<open>A string is blank when trimming leaves nothing; then trimming on the left alone
  leaves nothing.\<close>

lemma TrimRightSpace_Nil_leading:
  "TrimRightSpace s = [] \<Longrightarrow> s \<noteq> [] \<Longrightarrow> leadingSpace s \<noteq> 0"
proof (induction s rule: trailing_runes_induct)
  case (none s)
  then show ?case by (simp add: TrimRightSpace_none)
next
  case (rune w t)
  show ?case
  proof (cases "t = []")
    case True
    with rune.hyps leadingSpace_rune [of w "[]"] spaceRunes_shape(1) [of w] show ?thesis by simp
  next
    case False
    with rune show ?thesis
      by (simp add: TrimRightSpace_rune leadingSpace_append_rune)
  qed
qed

lemma blank_iff: "TrimSpace s = [] \<longleftrightarrow> TrimLeftSpace s = []"
proof
  assume "TrimSpace s = []"
  then show "TrimLeftSpace s = []"
    using TrimRightSpace_Nil_leading [of "TrimLeftSpace s"] leadingSpace_TrimLeftSpace [of s]
    by (auto simp: TrimSpace_def)
qed (simp add: TrimSpace_def)

lemma blank_append: "TrimLeftSpace a = [] \<Longrightarrow> TrimLeftSpace (a @ b) = TrimLeftSpace b"
proof (induction a rule: leading_runes_induct)
  case (none s)
  then show ?case by (simp add: TrimLeftSpace_none)
next
  case (rune w t)
  then show ?case by (simp add: TrimLeftSpace_rune)
qed

subsection \<open>Fields\<close>

lemma fieldsFrom_nonempty: "cur \<noteq> [] \<Longrightarrow> fieldsFrom cur s \<noteq> []"
  by (induction cur s rule: fieldsFrom.induct) auto

lemma fieldsFrom_rune:
  "w \<in> set spaceRunes \<Longrightarrow>
     fieldsFrom cur (w @ t) = (if cur = [] then [] else [cur]) @ fieldsFrom [] t"
  using spaceRunes_shape(1) [of w] leadingSpace_rune [of w t]
  by (cases w) auto

lemma Fields_TrimLeftSpace: "fieldsFrom [] (TrimLeftSpace s) = fieldsFrom [] s"
proof (induction s rule: leading_runes_induct)
  case (none s)
  then show ?case by (simp add: TrimLeftSpace_none)
next
  case (rune w t)
  then show ?case by (simp add: TrimLeftSpace_rune fieldsFrom_rune)
qed

lemma drop_append_le: "n \<le> length xs \<Longrightarrow> drop n (xs @ ys) = drop n xs @ ys"
  by simp

lemma fieldsFrom_append_rune:
  "w \<in> set spaceRunes \<Longrightarrow> fieldsFrom cur (t @ w) = fieldsFrom cur t"
proof (induction cur t rule: fieldsFrom.induct)
  case (1 cur)
  then show ?case using fieldsFrom_rune [of w cur "[]"] by simp
next
  case (2 cur c cs)
  have l: "leadingSpace ((c # cs) @ w) = leadingSpace (c # cs)"
    using leadingSpace_append_rune [of "c # cs" w] "2.prems" by simp
  show ?case
  proof (cases "leadingSpace (c # cs) = 0")
    case True
    from "2.IH"(1) [OF True "2.prems"] have "fieldsFrom (cur @ [c]) (cs @ w) = fieldsFrom (cur @ [c]) cs" .
    with True l show ?thesis by simp
  next
    case False
    have d: "drop (leadingSpace (c # cs)) ((c # cs) @ w) = drop (leadingSpace (c # cs)) (c # cs) @ w"
      using leadingSpace_le [of "c # cs"] by (rule drop_append_le)
    from "2.IH"(2) [OF False "2.prems"]
    have "fieldsFrom [] (drop (leadingSpace (c # cs)) (c # cs) @ w)
          = fieldsFrom [] (drop (leadingSpace (c # cs)) (c # cs))" .
    with d l False show ?thesis
      by (simp del: drop_append)
  qed
qed

lemma Fields_TrimRightSpace: "fieldsFrom cur (TrimRightSpace s) = fieldsFrom cur s"
proof (induction s rule: trailing_runes_induct)
  case (none s)
  then show ?case by (simp add: TrimRightSpace_none)
next
  case (rune w t)
  then show ?case by (simp add: TrimRightSpace_rune fieldsFrom_append_rune)
qed

lemma Fields_TrimSpace: "Fields (TrimSpace s) = Fields s"
  by (simp add: Fields_def TrimSpace_def Fields_TrimRightSpace Fields_TrimLeftSpace)

lemma Fields_nonblank: "TrimSpace s \<noteq> [] \<Longrightarrow> Fields s \<noteq> []"
proof -
  assume ne: "TrimSpace s \<noteq> []"
  then obtain c cs where t: "TrimSpace s = c # cs" by (cases "TrimSpace s") auto
  with leadingSpace_TrimSpace [of s] have "Fields (TrimSpace s) = fieldsFrom [c] cs"
    by (simp add: Fields_def)
  then show ?thesis
    using fieldsFrom_nonempty [of "[c]" cs] by (simp add: Fields_TrimSpace)
qed

subsection \<open>Lines\<close>

lemma splitFrom_no_newline:
  "CHR 0x0A \<notin> set u \<Longrightarrow> splitFrom cur (u @ t) = splitFrom (cur @ u) t"
  by (induction u arbitrary: cur) auto

lemma splitFrom_blank:
  "TrimLeftSpace s = [] \<Longrightarrow> TrimLeftSpace cur = [] \<Longrightarrow>
     \<forall>l\<in>set (splitFrom cur s). TrimLeftSpace l = []"
proof (induction s arbitrary: cur rule: leading_runes_induct)
  case (none s)
  then show ?case by (simp add: TrimLeftSpace_none)
next
  case (rune w t)
  from rune.prems(1) rune.hyps have t: "TrimLeftSpace t = []"
    by (simp add: TrimLeftSpace_rune)
  show ?case
  proof (cases "CHR 0x0A \<in> set w")
    case True
    with rune.hyps have "w = [CHR 0x0A]" using spaceRunes_shape(6) by blast
    then have "splitFrom cur (w @ t) = cur # splitFrom [] t" by simp
    with rune.IH [OF t, of "[]"] rune.prems(2) show ?thesis by simp
  next
    case False
    from rune.hyps have "TrimLeftSpace (cur @ w) = []"
      using blank_append [OF rune.prems(2), of w] TrimLeftSpace_rune [of w "[]"] by simp
    from rune.IH [OF t this] splitFrom_no_newline [OF False, of cur t] show ?thesis by simp
  qed
qed

lemma SplitLines_blank:
  assumes "TrimSpace s = []" "l \<in> set (SplitLines s)"
  shows "TrimSpace l = []"
proof -
  from assms(1) have "TrimLeftSpace s = []" by (simp only: blank_iff)
  from splitFrom_blank [OF this TrimLeftSpace_Nil] assms(2) have "TrimLeftSpace l = []"
    unfolding SplitLines_def by blast
  then show ?thesis by (simp only: blank_iff)
qed

section \<open>The parser: collaborator listings\<close>

lemma collabLine_entry:
  "collabLine entries line =
     (if TrimSpace line = '''' then entries else entries @ [collabEntryOf line])"
proof (cases "TrimSpace line = ''''")
  case True
  then show ?thesis by (simp add: collabLine_def)
next
  case False
  then have "Fields line \<noteq> []" by (rule Fields_nonblank)
  then obtain p ps where p: "Fields line = p # ps" by (cases "Fields line") auto
  show ?thesis
    using False
    by (cases ps) (simp_all add: collabLine_def Let_def Fields_TrimSpace p collabEntryOf_def)
qed

lemma foldl_collabLine:
  "foldl collabLine entries ls =
     entries @ map collabEntryOf (filter (\<lambda>l. TrimSpace l \<noteq> '''') ls)"
  by (induction ls arbitrary: entries) (simp_all add: collabLine_entry)

text \<open>
  Claim C9. \<open>ParseCollabList\<close> never returns an error. Its result has one entry for
  each line of the input that is not empty once trimmed (a line of white space alone
  yields nothing, as the claim's last clause says of a whole input), in the order of the
  lines; the entry's user name is the first white-space token of the line, which exists,
  and its access level the second token, or the empty string when the line has one
  token only. An empty input and an input of white space alone yield the empty list.
\<close>

theorem ParseCollabList_entries:
  "ParseCollabList out =
     Inr (map collabEntryOf (filter (\<lambda>l. TrimSpace l \<noteq> '''') (SplitLines out)))
   \<and> (\<forall>l\<in>set (SplitLines out). TrimSpace l \<noteq> '''' \<longrightarrow> Fields l \<noteq> [])
   \<and> (TrimSpace out = '''' \<longrightarrow> ParseCollabList out = Inr [])"
proof -
  have "filter (\<lambda>l. TrimSpace l \<noteq> '''') (SplitLines out) = []" if "TrimSpace out = ''''"
    using SplitLines_blank [OF that] by (auto simp: filter_empty_conv)
  then show ?thesis
    by (auto simp: ParseCollabList_def foldl_collabLine Fields_nonblank)
qed

text \<open>Two entries and a line of two spaces between them; and an input of two spaces.\<close>

theorem ParseCollabList_entries_witness:
  "ParseCollabList (''alice read-write'' @ [CHR 0x0A] @ ''  '' @ [CHR 0x0A] @ ''bob'')
     = Inr [\<lparr>ce_Username = ''alice'', ce_AccessLevel = ''read-write''\<rparr>,
            \<lparr>ce_Username = ''bob'', ce_AccessLevel = ''''\<rparr>]
   \<and> Fields ''bob'' \<noteq> []
   \<and> ParseCollabList ''  '' = Inr []"
proof -
  let ?out = "''alice read-write'' @ [CHR 0x0A] @ ''  '' @ [CHR 0x0A] @ ''bob''"
  have e: "map collabEntryOf (filter (\<lambda>l. TrimSpace l \<noteq> '''') (SplitLines ?out))
      = [\<lparr>ce_Username = ''alice'', ce_AccessLevel = ''read-write''\<rparr>,
         \<lparr>ce_Username = ''bob'', ce_AccessLevel = ''''\<rparr>]"
    by code_simp
  have l: "''bob'' \<in> set (SplitLines ?out)" by code_simp
  have t: "TrimSpace ''bob'' \<noteq> ''''" by code_simp
  have b: "TrimSpace ''  '' = ''''" by code_simp
  from ParseCollabList_entries [of ?out] e l t
  have 1: "ParseCollabList ?out
     = Inr [\<lparr>ce_Username = ''alice'', ce_AccessLevel = ''read-write''\<rparr>,
            \<lparr>ce_Username = ''bob'', ce_AccessLevel = ''''\<rparr>]"
    and 2: "Fields ''bob'' \<noteq> []"
    by auto
  from ParseCollabList_entries [of "''  ''"] b have 3: "ParseCollabList ''  '' = Inr []"
    by blast
  from 1 2 3 show ?thesis by blast
qed

section \<open>The parser: mandatory fields\<close>

lemma labelHasValueI:
  assumes "line \<in> set (SplitLines out)" "parseKeyValue line = (label, v, True)" "v \<noteq> []"
  shows "labelHasValue label out"
  unfolding labelHasValue_def list_ex_iff
  using assms by (intro bexI [of _ line]) simp_all

lemma lastValue_Nil [simp]: "lastValue label [] = None"
  by (simp add: lastValue_def)

lemma lastValue_snoc [simp]:
  "lastValue label (kvs @ [kv]) =
     (if kv_key kv = label then Some (kv_value kv) else lastValue label kvs)"
  by (simp add: lastValue_def)

lemma lastValue_Cons:
  "lastValue label (kv # kvs) =
     (case lastValue label kvs of
        None \<Rightarrow> if kv_key kv = label then Some (kv_value kv) else None
      | Some v \<Rightarrow> Some v)"
  by (induction kvs rule: rev_induct) (simp_all add: lastValue_def)

lemma lastValue_Some_mem:
  "lastValue label kvs = Some v \<Longrightarrow> \<exists>kv\<in>set kvs. kv_key kv = label \<and> kv_value kv = v"
  by (auto simp: lastValue_def dest!: find_SomeD)

lemma parseKeyValues_snoc:
  "foldl (\<lambda>kvs line. case parseKeyValue line of
                       (k, v, ok) \<Rightarrow> if ok then kvs @ [\<lparr>kv_key = k, kv_value = v\<rparr>] else kvs)
     acc ls
   = acc @ concat (map (\<lambda>line. case parseKeyValue line of
                       (k, v, ok) \<Rightarrow> if ok then [\<lparr>kv_key = k, kv_value = v\<rparr>] else []) ls)"
  by (induction ls arbitrary: acc) (auto split: prod.splits)

lemma parseKeyValues_mem:
  "kv \<in> set (parseKeyValues out) \<Longrightarrow>
     \<exists>line\<in>set (SplitLines out). parseKeyValue line = (kv_key kv, kv_value kv, True)"
  by (auto simp: parseKeyValues_def parseKeyValues_snoc split: prod.splits if_splits)

lemma Repository_foldl:
  "ri_Repository (foldl repoField r kvs) =
     (case lastValue ''Repository'' kvs of None \<Rightarrow> ri_Repository r | Some v \<Rightarrow> v)"
  by (induction kvs rule: rev_induct) (simp_all add: repoField_def)

lemma userKeyValues_mem:
  "kv \<in> set (userKeyValues ls b) \<Longrightarrow>
     \<exists>line\<in>set ls. parseKeyValue line = (kv_key kv, kv_value kv, True)"
proof (induction ls arbitrary: b)
  case Nil
  then show ?case by simp
next
  case (Cons line ls)
  obtain k v ok where p: "parseKeyValue line = (k, v, ok)"
    by (cases "parseKeyValue line") auto
  from Cons.prems p
  have "kv = \<lparr>kv_key = k, kv_value = v\<rparr> \<and> ok \<or> (\<exists>b'. kv \<in> set (userKeyValues ls b'))"
    by (auto split: if_splits)
  then show ?case
  proof
    assume "kv = \<lparr>kv_key = k, kv_value = v\<rparr> \<and> ok"
    with p show ?thesis by auto
  next
    assume "\<exists>b'. kv \<in> set (userKeyValues ls b')"
    with Cons.IH show ?thesis by auto
  qed
qed

lemma Username_foldl:
  "ui_Username (fst (foldl userLine (r, b) ls)) =
     (case lastValue ''Username'' (userKeyValues ls b) of None \<Rightarrow> ui_Username r | Some v \<Rightarrow> v)"
proof (induction ls arbitrary: r b)
  case Nil
  then show ?case by simp
next
  case (Cons line ls)
  obtain k v ok where p: "parseKeyValue line = (k, v, ok)"
    by (cases "parseKeyValue line") auto
  show ?case
  proof (cases "b \<and> (TrimSpace line = '''' \<or> HasPrefix line ''  '' \<or> \<not> Contains line '': '')")
    case True
    then consider
      "userLine (r, b) line = (r\<lparr>ui_PublicKeys := ui_PublicKeys r @ [TrimSpace line]\<rparr>, True)"
      | "userLine (r, b) line = (r, True)"
      by (cases "TrimSpace line = []") (auto simp: Let_def)
    then show ?thesis
    proof cases
      case 1
      with True Cons.IH [of "r\<lparr>ui_PublicKeys := ui_PublicKeys r @ [TrimSpace line]\<rparr>" True]
      show ?thesis by (simp split: option.splits)
    next
      case 2
      with True Cons.IH [of r True] show ?thesis by (simp split: option.splits)
    qed
  next
    case False
    then have u: "userLine (r, b) line = userKeyValue r line"
      using Contains_colon_TrimSpace [of line] by (auto simp: Let_def)
    have kvs: "userKeyValues (line # ls) b =
        (if ok then \<lparr>kv_key = k, kv_value = v\<rparr> # userKeyValues ls (k = ''Public keys'')
         else userKeyValues ls False)"
      using False p by auto
    show ?thesis
    proof (cases ok)
      case no: False
      with p have "userKeyValue r line = (r, False)" by (simp add: userKeyValue_def)
      with no Cons.IH [of r False] show ?thesis by (simp add: u kvs del: userLine.simps userKeyValues.simps)
    next
      case ok: True
      consider "k = ''Username''" | "k = ''Admin''" | "k = ''Public keys''"
        | "k \<noteq> ''Username''" "k \<noteq> ''Admin''" "k \<noteq> ''Public keys''" by blast
      then show ?thesis
      proof cases
        case 1
        with p ok have "userKeyValue r line = (r\<lparr>ui_Username := v\<rparr>, False)"
          by (simp add: userKeyValue_def)
        with 1 ok Cons.IH [of "r\<lparr>ui_Username := v\<rparr>" False] show ?thesis
          by (simp add: u kvs lastValue_Cons del: userLine.simps userKeyValues.simps split: option.splits)
      next
        case 2
        with p ok have "userKeyValue r line = (r\<lparr>ui_Admin := (v = ''true'')\<rparr>, False)"
          by (simp add: userKeyValue_def)
        with 2 ok Cons.IH [of "r\<lparr>ui_Admin := (v = ''true'')\<rparr>" False] show ?thesis
          by (simp add: u kvs lastValue_Cons del: userLine.simps userKeyValues.simps split: option.splits)
      next
        case 3
        with p ok have "userKeyValue r line = (r, True)"
          by (simp add: userKeyValue_def)
        with 3 ok Cons.IH [of r True] show ?thesis
          by (simp add: u kvs lastValue_Cons del: userLine.simps userKeyValues.simps split: option.splits)
      next
        case 4
        with p ok have "userKeyValue r line = (r, False)"
          by (simp add: userKeyValue_def)
        with 4 ok Cons.IH [of r False] show ?thesis
          by (simp add: u kvs lastValue_Cons del: userLine.simps userKeyValues.simps split: option.splits)
      qed
    qed
  qed
qed

text \<open>
  Claim C3 as stated fails: a later line with the same label overrides an earlier one.
  In the first input the line \<open>Repository: foo\<close> yields a non-empty value for the
  label and the parser still returns the missing-field error, because the last line,
  \<open>Repository:\<close>, sets the field to the empty string; the same for \<open>Username\<close>. In the
  third input the line that yields a value for \<open>Username\<close> lies inside a key section and
  is collected as a key.
\<close>

theorem Parse_mandatory_field_counterexample:
  "labelHasValue ''Repository'' (''Repository: foo'' @ [CHR 0x0A] @ ''Repository:'')
   \<and> ParseRepoInfo (''Repository: foo'' @ [CHR 0x0A] @ ''Repository:'')
       = Inl MissingRepositoryField
   \<and> labelHasValue ''Username'' (''Username: alice'' @ [CHR 0x0A] @ ''Username:'')
   \<and> ParseUserInfo (''Username: alice'' @ [CHR 0x0A] @ ''Username:'')
       = Inl MissingUsernameField
   \<and> labelHasValue ''Username'' (''Public keys:'' @ [CHR 0x0A] @ ''  Username: bob'')
   \<and> ParseUserInfo (''Public keys:'' @ [CHR 0x0A] @ ''  Username: bob'')
       = Inl MissingUsernameField"
  by code_simp

text \<open>
  Claim C3, amended. \<open>ParseRepoInfo\<close> returns the missing-field error exactly when the
  last line labelled \<open>Repository\<close> has an empty value or no line has that label, and
  otherwise a record whose \<open>Repository\<close> field is that last value, which is not empty.
  \<open>ParseUserInfo\<close> does the same for the last line labelled \<open>Username\<close> among the lines
  it reads as \<open>label: value\<close> lines. Each of them returns either the error or a record
  with its mandatory field filled, and returns the error whenever no line of the input
  yields a non-empty value for the label.
\<close>

theorem Parse_mandatory_field:
  "(ParseRepoInfo out = Inl MissingRepositoryField
      \<longleftrightarrow> lastValue ''Repository'' (parseKeyValues out) \<in> {None, Some ''''})
   \<and> (\<forall>r. ParseRepoInfo out = Inr r
         \<longrightarrow> ri_Repository r \<noteq> ''''
           \<and> lastValue ''Repository'' (parseKeyValues out) = Some (ri_Repository r))
   \<and> (ParseRepoInfo out = Inl MissingRepositoryField \<or> (\<exists>r. ParseRepoInfo out = Inr r))
   \<and> (\<not> labelHasValue ''Repository'' out \<longrightarrow> ParseRepoInfo out = Inl MissingRepositoryField)
   \<and> (ParseUserInfo out = Inl MissingUsernameField
      \<longleftrightarrow> lastValue ''Username'' (userKeyValues (SplitLines out) False) \<in> {None, Some ''''})
   \<and> (\<forall>r. ParseUserInfo out = Inr r
         \<longrightarrow> ui_Username r \<noteq> ''''
           \<and> lastValue ''Username'' (userKeyValues (SplitLines out) False)
               = Some (ui_Username r))
   \<and> (ParseUserInfo out = Inl MissingUsernameField \<or> (\<exists>r. ParseUserInfo out = Inr r))
   \<and> (\<not> labelHasValue ''Username'' out \<longrightarrow> ParseUserInfo out = Inl MissingUsernameField)"
proof -
  let ?repo = "lastValue ''Repository'' (parseKeyValues out)"
  let ?user = "lastValue ''Username'' (userKeyValues (SplitLines out) False)"
  have repo: "ri_Repository (foldl repoField emptyRepoInfo (parseKeyValues out))
      = (case ?repo of None \<Rightarrow> '''' | Some v \<Rightarrow> v)"
    by (simp add: Repository_foldl emptyRepoInfo_def split: option.splits)
  have user: "ui_Username (fst (foldl userLine (emptyUserInfo, False) (SplitLines out)))
      = (case ?user of None \<Rightarrow> '''' | Some v \<Rightarrow> v)"
    by (simp add: Username_foldl emptyUserInfo_def split: option.splits)
  have r1: "ParseRepoInfo out = Inl MissingRepositoryField \<longleftrightarrow> ?repo \<in> {None, Some ''''}"
    using repo by (auto simp: ParseRepoInfo_def Let_def split: option.splits)
  have r2: "ri_Repository r \<noteq> '''' \<and> ?repo = Some (ri_Repository r)"
    if "ParseRepoInfo out = Inr r" for r
    using that repo by (auto simp: ParseRepoInfo_def Let_def split: option.splits if_splits)
  have r3: "ParseRepoInfo out = Inl MissingRepositoryField \<or> (\<exists>r. ParseRepoInfo out = Inr r)"
    by (simp add: ParseRepoInfo_def Let_def)
  have r4: "ParseRepoInfo out = Inl MissingRepositoryField"
    if no: "\<not> labelHasValue ''Repository'' out"
  proof (rule ccontr)
    assume "ParseRepoInfo out \<noteq> Inl MissingRepositoryField"
    with r1 obtain v where v: "?repo = Some v" "v \<noteq> ''''" by (cases ?repo) auto
    from lastValue_Some_mem [OF v(1)] obtain kv where
      "kv \<in> set (parseKeyValues out)" "kv_key kv = ''Repository''" "kv_value kv = v" by blast
    with parseKeyValues_mem [of kv out] obtain line where
      "line \<in> set (SplitLines out)" "parseKeyValue line = (''Repository'', v, True)" by auto
    then have "labelHasValue ''Repository'' out" using v(2) by (auto intro: labelHasValueI)
    with no show False by simp
  qed
  have u1: "ParseUserInfo out = Inl MissingUsernameField \<longleftrightarrow> ?user \<in> {None, Some ''''}"
    using user by (auto simp: ParseUserInfo_def Let_def split: option.splits)
  have u2: "ui_Username r \<noteq> '''' \<and> ?user = Some (ui_Username r)"
    if "ParseUserInfo out = Inr r" for r
    using that user by (auto simp: ParseUserInfo_def Let_def split: option.splits if_splits)
  have u3: "ParseUserInfo out = Inl MissingUsernameField \<or> (\<exists>r. ParseUserInfo out = Inr r)"
    by (simp add: ParseUserInfo_def Let_def)
  have u4: "ParseUserInfo out = Inl MissingUsernameField"
    if no: "\<not> labelHasValue ''Username'' out"
  proof (rule ccontr)
    assume "ParseUserInfo out \<noteq> Inl MissingUsernameField"
    with u1 obtain v where v: "?user = Some v" "v \<noteq> ''''" by (cases ?user) auto
    from lastValue_Some_mem [OF v(1)] obtain kv where
      "kv \<in> set (userKeyValues (SplitLines out) False)" "kv_key kv = ''Username''"
      "kv_value kv = v" by blast
    with userKeyValues_mem [of kv "SplitLines out" False] obtain line where
      "line \<in> set (SplitLines out)" "parseKeyValue line = (''Username'', v, True)" by auto
    then have "labelHasValue ''Username'' out" using v(2) by (auto intro: labelHasValueI)
    with no show False by simp
  qed
  from r1 r2 r3 r4 u1 u2 u3 u4 show ?thesis by blast
qed

text \<open>The first counterexample input, where the last \<open>Repository\<close> line is empty; an
  input without the labels; and inputs that parse.\<close>

theorem Parse_mandatory_field_witness:
  "ParseRepoInfo (''Repository: foo'' @ [CHR 0x0A] @ ''Repository:'') = Inl MissingRepositoryField
   \<and> ParseRepoInfo ''this is not valid output'' = Inl MissingRepositoryField
   \<and> ParseUserInfo ''this is not valid output'' = Inl MissingUsernameField
   \<and> lastValue ''Repository'' (parseKeyValues (''Repository: a'' @ [CHR 0x0A] @ ''Repository: b''))
       = Some ''b''
   \<and> lastValue ''Username'' (userKeyValues (SplitLines (''Username: alice'' @ [CHR 0x0A]
         @ ''Public keys:'' @ [CHR 0x0A] @ ''  Username: bob'')) False) = Some ''alice''"
proof -
  have a: "lastValue ''Repository''
      (parseKeyValues (''Repository: foo'' @ [CHR 0x0A] @ ''Repository:'')) = Some ''''"
    by code_simp
  have b: "\<not> labelHasValue ''Repository'' ''this is not valid output''"
    "\<not> labelHasValue ''Username'' ''this is not valid output''"
    by code_simp+
  have c: "ParseRepoInfo (''Repository: a'' @ [CHR 0x0A] @ ''Repository: b'')
      = Inr \<lparr>ri_ProjectName = '''', ri_Repository = ''b'', ri_Description = '''',
             ri_Private = False, ri_Hidden = False, ri_Mirror = False, ri_Owner = ''''\<rparr>"
    by code_simp
  have d: "ParseUserInfo (''Username: alice'' @ [CHR 0x0A] @ ''Public keys:'' @ [CHR 0x0A]
         @ ''  Username: bob'')
      = Inr \<lparr>ui_Username = ''alice'', ui_Admin = False, ui_PublicKeys = [''Username: bob'']\<rparr>"
    by code_simp
  from a Parse_mandatory_field [of "''Repository: foo'' @ [CHR 0x0A] @ ''Repository:''"]
  have 1: "ParseRepoInfo (''Repository: foo'' @ [CHR 0x0A] @ ''Repository:'')
      = Inl MissingRepositoryField" by simp
  from b Parse_mandatory_field [of "''this is not valid output''"]
  have 2: "ParseRepoInfo ''this is not valid output'' = Inl MissingRepositoryField"
    and 3: "ParseUserInfo ''this is not valid output'' = Inl MissingUsernameField" by blast+
  from c Parse_mandatory_field [of "''Repository: a'' @ [CHR 0x0A] @ ''Repository: b''"]
  have 4: "lastValue ''Repository''
      (parseKeyValues (''Repository: a'' @ [CHR 0x0A] @ ''Repository: b'')) = Some ''b''"
    by simp
  from d Parse_mandatory_field [of "''Username: alice'' @ [CHR 0x0A] @ ''Public keys:''
         @ [CHR 0x0A] @ ''  Username: bob''"]
  have 5: "lastValue ''Username'' (userKeyValues (SplitLines (''Username: alice'' @ [CHR 0x0A]
         @ ''Public keys:'' @ [CHR 0x0A] @ ''  Username: bob'')) False) = Some ''alice''"
    by simp
  from 1 2 3 4 5 show ?thesis by blast
qed

section \<open>The parser: the key section of a user\<close>

lemma trailingSpace_TrimRightSpace: "trailingSpace (TrimRightSpace s) = 0"
proof (induction s rule: trailing_runes_induct)
  case (none s)
  then show ?case by (simp add: TrimRightSpace_none)
next
  case (rune w t)
  then show ?case by (simp add: TrimRightSpace_rune)
qed

lemma trailingSpace_TrimSpace: "trailingSpace (TrimSpace s) = 0"
  by (simp add: TrimSpace_def trailingSpace_TrimRightSpace)

lemma userKeyValue_keys: "ui_PublicKeys (fst (userKeyValue r line)) = ui_PublicKeys r"
  by (simp add: userKeyValue_def split: prod.splits)

lemma userLine_keys:
  "ui_PublicKeys (fst (userLine (r, b) line)) = ui_PublicKeys r
   \<or> (TrimSpace line \<noteq> '''' \<and>
      ui_PublicKeys (fst (userLine (r, b) line)) = ui_PublicKeys r @ [TrimSpace line])"
  by (simp add: Let_def userKeyValue_keys)

lemma foldl_userLine_keys:
  "set (ui_PublicKeys (fst (foldl userLine st ls)))
     \<subseteq> set (ui_PublicKeys (fst st)) \<union> {TrimSpace l | l. l \<in> set ls \<and> TrimSpace l \<noteq> ''''}"
proof (induction ls arbitrary: st)
  case Nil
  then show ?case by simp
next
  case (Cons line ls)
  obtain r b where st: "st = (r, b)" by (cases st) auto
  from userLine_keys [of r b line]
  have "set (ui_PublicKeys (fst (userLine st line)))
      \<subseteq> set (ui_PublicKeys (fst st)) \<union> {TrimSpace l | l. l = line \<and> TrimSpace l \<noteq> ''''}"
    unfolding st by auto
  with Cons.IH [of "userLine st line"] show ?case by auto
qed

lemma foldl_userLine_collect:
  "\<forall>l\<in>set ks. TrimSpace l \<noteq> '''' \<and> (HasPrefix l ''  '' \<or> \<not> Contains l '': '')
   \<Longrightarrow> foldl userLine (r, True) ks
       = (r\<lparr>ui_PublicKeys := ui_PublicKeys r @ map TrimSpace ks\<rparr>, True)"
proof (induction ks arbitrary: r)
  case Nil
  then show ?case by simp
next
  case (Cons l ks)
  then have "userLine (r, True) l = (r\<lparr>ui_PublicKeys := ui_PublicKeys r @ [TrimSpace l]\<rparr>, True)"
    by (auto simp: Let_def)
  with Cons show ?case by simp
qed

text \<open>
  Claim C10. Inside a key section (the flag is set): when the flag is clear after a
  line, the line lacks the indentation of two spaces and contains \<open>": "\<close>; such a line
  is read as a \<open>label: value\<close> line; a line that is indented by two spaces and contains
  \<open>": "\<close> does not end the section but is appended, trimmed, to the keys. Every key of
  a result is a line of the input with the white space at both ends removed, so it is
  not empty and neither starts nor ends with white space. The last part is an input
  whose indented line \<open>k: v\<close> is collected as a key.
\<close>

theorem ParseUserInfo_key_section:
  "(snd (userLine (r, True) line) = False
      \<longrightarrow> \<not> HasPrefix line ''  '' \<and> Contains line '': '')
   \<and> (\<not> HasPrefix line ''  '' \<and> Contains line '': ''
      \<longrightarrow> userLine (r, True) line = userKeyValue r line)
   \<and> (HasPrefix line ''  '' \<and> Contains line '': ''
      \<longrightarrow> userLine (r, True) line
          = (r\<lparr>ui_PublicKeys := ui_PublicKeys r @ [TrimSpace line]\<rparr>, True))
   \<and> (\<forall>res. ParseUserInfo out = Inr res
      \<longrightarrow> (\<forall>k\<in>set (ui_PublicKeys res).
             k \<noteq> '''' \<and> leadingSpace k = 0 \<and> trailingSpace k = 0
             \<and> (\<exists>l\<in>set (SplitLines out). k = TrimSpace l)))
   \<and> ParseUserInfo (''Username: a'' @ [CHR 0x0A] @ ''Public keys:'' @ [CHR 0x0A] @ ''  k: v'')
       = Inr \<lparr>ui_Username = ''a'', ui_Admin = False, ui_PublicKeys = [''k: v'']\<rparr>"
proof -
  have 1: "snd (userLine (r, True) line) = False
      \<longrightarrow> \<not> HasPrefix line ''  '' \<and> Contains line '': ''"
    by (auto simp: Let_def split: if_splits)
  have 2: "\<not> HasPrefix line ''  '' \<and> Contains line '': ''
      \<longrightarrow> userLine (r, True) line = userKeyValue r line"
    using Contains_colon_TrimSpace [of line] by (auto simp: Let_def)
  have 3: "HasPrefix line ''  '' \<and> Contains line '': ''
      \<longrightarrow> userLine (r, True) line
          = (r\<lparr>ui_PublicKeys := ui_PublicKeys r @ [TrimSpace line]\<rparr>, True)"
    using Contains_colon_TrimSpace [of line] by (auto simp: Let_def)
  have 4: "k \<noteq> '''' \<and> leadingSpace k = 0 \<and> trailingSpace k = 0
             \<and> (\<exists>l\<in>set (SplitLines out). k = TrimSpace l)"
    if "ParseUserInfo out = Inr res" "k \<in> set (ui_PublicKeys res)" for res k
  proof -
    from that(1) have "res = fst (foldl userLine (emptyUserInfo, False) (SplitLines out))"
      by (auto simp: ParseUserInfo_def Let_def split: if_splits)
    with that(2) foldl_userLine_keys [of "(emptyUserInfo, False)" "SplitLines out"]
    obtain l where "l \<in> set (SplitLines out)" "k = TrimSpace l" "TrimSpace l \<noteq> ''''"
      by (auto simp: emptyUserInfo_def)
    then show ?thesis
      by (auto simp: leadingSpace_TrimSpace trailingSpace_TrimSpace)
  qed
  have 5: "ParseUserInfo (''Username: a'' @ [CHR 0x0A] @ ''Public keys:'' @ [CHR 0x0A] @ ''  k: v'')
       = Inr \<lparr>ui_Username = ''a'', ui_Admin = False, ui_PublicKeys = [''k: v'']\<rparr>"
    by code_simp
  from 1 2 3 4 5 show ?thesis by blast
qed

text \<open>The indented line \<open>k: v\<close> in a key section, and the line \<open>Admin: true\<close> that ends
  one.\<close>

theorem ParseUserInfo_key_section_witness:
  "userLine (emptyUserInfo, True) ''  k: v''
     = (emptyUserInfo\<lparr>ui_PublicKeys := ui_PublicKeys emptyUserInfo @ [TrimSpace ''  k: v'']\<rparr>, True)
   \<and> userLine (emptyUserInfo, True) ''Admin: true'' = userKeyValue emptyUserInfo ''Admin: true''
   \<and> \<not> HasPrefix ''Admin: true'' ''  '' \<and> Contains ''Admin: true'' '': ''
   \<and> leadingSpace ''k: v'' = 0 \<and> trailingSpace ''k: v'' = 0"
proof -
  let ?out = "''Username: a'' @ [CHR 0x0A] @ ''Public keys:'' @ [CHR 0x0A] @ ''  k: v''"
  have a: "HasPrefix ''  k: v'' ''  '' \<and> Contains ''  k: v'' '': ''" by code_simp
  have b: "\<not> HasPrefix ''Admin: true'' ''  '' \<and> Contains ''Admin: true'' '': ''" by code_simp
  have c: "snd (userLine (emptyUserInfo, True) ''Admin: true'') = False" by code_simp
  have d: "ParseUserInfo ?out
       = Inr \<lparr>ui_Username = ''a'', ui_Admin = False, ui_PublicKeys = [''k: v'']\<rparr>"
    by code_simp
  from a ParseUserInfo_key_section [of emptyUserInfo "''  k: v''"]
  have 1: "userLine (emptyUserInfo, True) ''  k: v''
     = (emptyUserInfo\<lparr>ui_PublicKeys := ui_PublicKeys emptyUserInfo @ [TrimSpace ''  k: v'']\<rparr>, True)"
    by blast
  from b ParseUserInfo_key_section [of emptyUserInfo "''Admin: true''"]
  have 2: "userLine (emptyUserInfo, True) ''Admin: true'' = userKeyValue emptyUserInfo ''Admin: true''"
    by blast
  from c ParseUserInfo_key_section [of emptyUserInfo "''Admin: true''"]
  have 3: "\<not> HasPrefix ''Admin: true'' ''  '' \<and> Contains ''Admin: true'' '': ''"
    by blast
  from d ParseUserInfo_key_section [of emptyUserInfo "''''" ?out]
  have 4: "leadingSpace ''k: v'' = 0 \<and> trailingSpace ''k: v'' = 0"
    by simp
  from 1 2 3 4 show ?thesis by blast
qed

text \<open>The keys of the loop are those of the key sections, whatever else the lines hold.\<close>

lemma userKeyValue_flag: "snd (userKeyValue r line) = opensKeySection line"
  by (simp add: userKeyValue_def opensKeySection_def split: prod.splits)

lemma PublicKeys_foldl:
  "ui_PublicKeys (fst (foldl userLine (r, b) ls)) = ui_PublicKeys r @ sectionKeys ls b"
proof (induction ls arbitrary: r b)
  case Nil
  then show ?case by simp
next
  case (Cons line ls)
  show ?case
  proof (cases "b \<and> (TrimSpace line = '''' \<or> HasPrefix line ''  '' \<or> \<not> Contains line '': '')")
    case True
    show ?thesis
    proof (cases "TrimSpace line = ''''")
      case blank: True
      with True have u: "userLine (r, b) line = (r, True)" by simp
      have k: "sectionKeys (line # ls) b = sectionKeys ls True"
        using True blank by simp
      show ?thesis
        using Cons.IH [of r True]
        by (simp add: u k del: userLine.simps sectionKeys.simps)
    next
      case key: False
      with True have u: "userLine (r, b) line
          = (r\<lparr>ui_PublicKeys := ui_PublicKeys r @ [TrimSpace line]\<rparr>, True)"
        by (auto simp: Let_def)
      have k: "sectionKeys (line # ls) b = TrimSpace line # sectionKeys ls True"
        using True key by auto
      show ?thesis
        using Cons.IH [of "r\<lparr>ui_PublicKeys := ui_PublicKeys r @ [TrimSpace line]\<rparr>" True]
        by (simp add: u k del: userLine.simps sectionKeys.simps)
    qed
  next
    case False
    then have "userLine (r, b) line = userKeyValue r line"
      using Contains_colon_TrimSpace [of line] by (auto simp: Let_def)
    moreover have "userKeyValue r line = (fst (userKeyValue r line), opensKeySection line)"
      using userKeyValue_flag [of r line] by (cases "userKeyValue r line") simp
    ultimately have u: "userLine (r, b) line = (fst (userKeyValue r line), opensKeySection line)"
      by (simp only:)
    have k: "sectionKeys (line # ls) b = sectionKeys ls (opensKeySection line)"
      using False Contains_colon_TrimSpace [of line] by auto
    show ?thesis
      using Cons.IH [of "fst (userKeyValue r line)" "opensKeySection line"]
      by (simp add: u k userKeyValue_keys del: userLine.simps sectionKeys.simps)
  qed
qed

lemma sectionKeys_outside:
  "\<forall>l\<in>set pre. \<not> opensKeySection l \<Longrightarrow> sectionKeys (pre @ ls) False = sectionKeys ls False"
  by (induction pre) simp_all

lemma sectionKeys_collect:
  "\<forall>l\<in>set ks. HasPrefix l ''  '' \<or> \<not> Contains l '': ''
   \<Longrightarrow> sectionKeys (ks @ ls) True
       = map TrimSpace (filter (\<lambda>l. TrimSpace l \<noteq> '''') ks) @ sectionKeys ls True"
  by (induction ks) auto

lemma sectionKeys_single:
  assumes pre: "\<forall>l\<in>set pre. \<not> opensKeySection l"
    and hdr: "opensKeySection hdr"
    and ks: "\<forall>l\<in>set ks. HasPrefix l ''  '' \<or> \<not> Contains l '': ''"
    and ends: "rest = [] \<or> (\<not> HasPrefix (hd rest) ''  '' \<and> Contains (hd rest) '': '')"
    and rest: "\<forall>l\<in>set rest. \<not> opensKeySection l"
  shows "sectionKeys (pre @ hdr # ks @ rest) False
      = map TrimSpace (filter (\<lambda>l. TrimSpace l \<noteq> '''') ks)"
proof -
  have "sectionKeys rest True = []"
  proof (cases rest)
    case Nil
    then show ?thesis by simp
  next
    case (Cons l rs)
    with ends have l: "\<not> HasPrefix l ''  ''" "Contains l '': ''" by auto
    then have "TrimSpace l \<noteq> ''''" using Contains_colon_TrimSpace by auto
    with l have "sectionKeys (l # rs) True = sectionKeys rs (opensKeySection l)"
      by simp
    also have "\<dots> = sectionKeys (rs @ []) False"
      using rest Cons by simp
    also have "\<dots> = sectionKeys [] False"
      using rest Cons by (intro sectionKeys_outside) simp
    finally show ?thesis using Cons by simp
  qed
  moreover have "sectionKeys (pre @ hdr # ks @ rest) False = sectionKeys (hdr # ks @ rest) False"
    using pre by (rule sectionKeys_outside)
  moreover have "sectionKeys (hdr # ks @ rest) False = sectionKeys (ks @ rest) True"
    using hdr by simp
  ultimately show ?thesis
    using sectionKeys_collect [OF ks, of rest] by simp
qed

text \<open>
  Claim C4 as stated fails on two points. The keys are not the lines verbatim: the
  lines \<open>  k: v\<close> and \<open>  k1\<close> are stored without their indentation. And the section does
  not end at every line that matches the \<open>label: value\<close> pattern: the line \<open>  k: v\<close> is
  read by \<open>parseKeyValue\<close> as the label \<open>k\<close> with the value \<open>v\<close>, yet it is collected as
  a key and the section goes on to \<open>  k1\<close>. In the second input the line \<open>Admin:\<close> is not
  indented and is read by \<open>parseKeyValue\<close> as the label \<open>Admin\<close> with an empty value, as
  the line \<open>Public keys:\<close> itself is; it does not end the section either, and is
  collected as a key.
\<close>

theorem ParseUserInfo_public_keys_counterexample:
  "SplitLines (''Username: a'' @ [CHR 0x0A] @ ''Public keys:'' @ [CHR 0x0A] @ ''  k: v''
       @ [CHR 0x0A] @ ''  k1'')
     = [''Username: a'', ''Public keys:'', ''  k: v'', ''  k1'']
   \<and> parseKeyValue ''  k: v'' = (''k'', ''v'', True)
   \<and> ParseUserInfo (''Username: a'' @ [CHR 0x0A] @ ''Public keys:'' @ [CHR 0x0A] @ ''  k: v''
       @ [CHR 0x0A] @ ''  k1'')
     = Inr \<lparr>ui_Username = ''a'', ui_Admin = False, ui_PublicKeys = [''k: v'', ''k1'']\<rparr>
   \<and> \<not> HasPrefix ''Admin:'' ''  ''
   \<and> parseKeyValue ''Admin:'' = (''Admin'', '''', True)
   \<and> parseKeyValue ''Public keys:'' = (''Public keys'', '''', True)
   \<and> ParseUserInfo (''Username: a'' @ [CHR 0x0A] @ ''Public keys:'' @ [CHR 0x0A] @ ''Admin:'')
     = Inr \<lparr>ui_Username = ''a'', ui_Admin = False, ui_PublicKeys = [''Admin:'']\<rparr>"
  by code_simp

text \<open>
  Claim C4, amended. For every input, \<open>ParseUserInfo\<close> returns either the missing-field
  error, exactly when the last line read as the label \<open>Username\<close> has an empty value or
  there is none, or a record whose keys are those of the key sections of the input, in
  their order: a section opens after a line read as the label \<open>Public keys\<close>, inside it
  a blank line is skipped, a line that is indented by two spaces or has no \<open>": "\<close> is a
  key, stored with the white space at both ends removed and not verbatim, and a line
  that is not indented by two spaces and contains \<open>": "\<close> ends the section and is read
  as a \<open>label: value\<close> line; keys collected before stay. For an input with one line
  that opens a section, followed by lines \<open>ks\<close> that are indented or have no \<open>": "\<close>
  up to the end of the input or to a line that ends the section, the keys of a result
  are the lines of \<open>ks\<close> that are not blank, trimmed; with no such line there is no key.
  The section itself gives no error: the error comes from a missing user name alone.
  The first part is the case of a section that runs to the end of the input, on the
  state of the loop; the next two are the steps of the loop on a blank line and on a
  line that ends the section.
\<close>

theorem ParseUserInfo_public_keys:
  "(SplitLines out = pre @ hdr # ks
      \<and> foldl userLine (emptyUserInfo, False) pre = (r, False)
      \<and> parseKeyValue hdr = (''Public keys'', v, True)
      \<and> (\<forall>l\<in>set ks. TrimSpace l \<noteq> '''' \<and> (HasPrefix l ''  '' \<or> \<not> Contains l '': ''))
      \<and> ui_Username r \<noteq> ''''
    \<longrightarrow> ParseUserInfo out = Inr (r\<lparr>ui_PublicKeys := ui_PublicKeys r @ map TrimSpace ks\<rparr>))
   \<and> (TrimSpace line = '''' \<longrightarrow> userLine (r, True) line = (r, True))
   \<and> (\<not> HasPrefix line ''  '' \<and> Contains line '': ''
      \<longrightarrow> userLine (r, True) line = userKeyValue r line)
   \<and> ((ParseUserInfo out = Inl MissingUsernameField
         \<and> lastValue ''Username'' (userKeyValues (SplitLines out) False) \<in> {None, Some ''''})
      \<or> (\<exists>res. ParseUserInfo out = Inr res
            \<and> ui_PublicKeys res = sectionKeys (SplitLines out) False
            \<and> lastValue ''Username'' (userKeyValues (SplitLines out) False)
                = Some (ui_Username res)
            \<and> ui_Username res \<noteq> ''''))
   \<and> (SplitLines out = pre @ hdr # ks @ rest
        \<and> (\<forall>l\<in>set pre. \<not> opensKeySection l)
        \<and> opensKeySection hdr
        \<and> (\<forall>l\<in>set ks. HasPrefix l ''  '' \<or> \<not> Contains l '': '')
        \<and> (rest = [] \<or> (\<not> HasPrefix (hd rest) ''  '' \<and> Contains (hd rest) '': ''))
        \<and> (\<forall>l\<in>set rest. \<not> opensKeySection l)
      \<longrightarrow> ParseUserInfo out = Inl MissingUsernameField
         \<or> (\<exists>res. ParseUserInfo out = Inr res
               \<and> ui_PublicKeys res = map TrimSpace (filter (\<lambda>l. TrimSpace l \<noteq> '''') ks)))"
proof -
  have 1: "ParseUserInfo out = Inr (r\<lparr>ui_PublicKeys := ui_PublicKeys r @ map TrimSpace ks\<rparr>)"
    if a: "SplitLines out = pre @ hdr # ks"
      "foldl userLine (emptyUserInfo, False) pre = (r, False)"
      "parseKeyValue hdr = (''Public keys'', v, True)"
      "\<forall>l\<in>set ks. TrimSpace l \<noteq> '''' \<and> (HasPrefix l ''  '' \<or> \<not> Contains l '': '')"
      "ui_Username r \<noteq> ''''"
  proof -
    from a(3) have h: "userLine (r, False) hdr = (r, True)"
      by (simp add: userKeyValue_def)
    have "foldl userLine (emptyUserInfo, False) (SplitLines out)
        = foldl userLine (userLine (r, False) hdr) ks"
      by (simp add: a(1) a(2) del: userLine.simps)
    also have "\<dots> = (r\<lparr>ui_PublicKeys := ui_PublicKeys r @ map TrimSpace ks\<rparr>, True)"
      unfolding h by (rule foldl_userLine_collect [OF a(4)])
    finally show ?thesis
      using a(5) by (simp add: ParseUserInfo_def)
  qed
  have 2: "TrimSpace line = '''' \<longrightarrow> userLine (r, True) line = (r, True)"
    by simp
  have 3: "\<not> HasPrefix line ''  '' \<and> Contains line '': ''
      \<longrightarrow> userLine (r, True) line = userKeyValue r line"
    using Contains_colon_TrimSpace [of line] by (auto simp: Let_def)
  define found where "found = fst (foldl userLine (emptyUserInfo, False) (SplitLines out))"
  have name: "ui_Username found =
      (case lastValue ''Username'' (userKeyValues (SplitLines out) False) of
         None \<Rightarrow> '''' | Some u \<Rightarrow> u)"
    using Username_foldl [of emptyUserInfo False "SplitLines out"]
    by (simp add: found_def emptyUserInfo_def split: option.splits)
  have keys: "ui_PublicKeys found = sectionKeys (SplitLines out) False"
    using PublicKeys_foldl [of emptyUserInfo False "SplitLines out"]
    by (simp add: found_def emptyUserInfo_def)
  have parse: "ParseUserInfo out
      = (if ui_Username found = '''' then Inl MissingUsernameField else Inr found)"
    by (simp add: ParseUserInfo_def Let_def found_def)
  have 4: "(ParseUserInfo out = Inl MissingUsernameField
         \<and> lastValue ''Username'' (userKeyValues (SplitLines out) False) \<in> {None, Some ''''})
      \<or> (\<exists>res. ParseUserInfo out = Inr res
            \<and> ui_PublicKeys res = sectionKeys (SplitLines out) False
            \<and> lastValue ''Username'' (userKeyValues (SplitLines out) False)
                = Some (ui_Username res)
            \<and> ui_Username res \<noteq> '''')"
  proof (cases "ui_Username found = ''''")
    case True
    with name have "lastValue ''Username'' (userKeyValues (SplitLines out) False)
        \<in> {None, Some ''''}"
      by (auto split: option.splits)
    with True parse show ?thesis by simp
  next
    case False
    with name have "lastValue ''Username'' (userKeyValues (SplitLines out) False)
        = Some (ui_Username found)"
      by (auto split: option.splits)
    with False parse keys show ?thesis by simp
  qed
  have 5: "ParseUserInfo out = Inl MissingUsernameField
         \<or> (\<exists>res. ParseUserInfo out = Inr res
               \<and> ui_PublicKeys res = map TrimSpace (filter (\<lambda>l. TrimSpace l \<noteq> '''') ks))"
    if b: "SplitLines out = pre @ hdr # ks @ rest
        \<and> (\<forall>l\<in>set pre. \<not> opensKeySection l)
        \<and> opensKeySection hdr
        \<and> (\<forall>l\<in>set ks. HasPrefix l ''  '' \<or> \<not> Contains l '': '')
        \<and> (rest = [] \<or> (\<not> HasPrefix (hd rest) ''  '' \<and> Contains (hd rest) '': ''))
        \<and> (\<forall>l\<in>set rest. \<not> opensKeySection l)"
  proof -
    from b have "sectionKeys (pre @ hdr # ks @ rest) False
        = map TrimSpace (filter (\<lambda>l. TrimSpace l \<noteq> '''') ks)"
      by (intro sectionKeys_single) blast+
    with b have "sectionKeys (SplitLines out) False
        = map TrimSpace (filter (\<lambda>l. TrimSpace l \<noteq> '''') ks)"
      by simp
    with 4 show ?thesis by auto
  qed
  from 1 2 3 4 5 show ?thesis by blast
qed

text \<open>The two inputs of the parser's tests, a user without keys and a user with two; a
  key section with a blank line and a line that is not indented, ended by the line
  \<open>Admin: true\<close>; and the line \<open>Public keys:\<close> alone, where the user name is missing.\<close>

theorem ParseUserInfo_public_keys_witness:
  "ParseUserInfo (''Username: admin'' @ [CHR 0x0A] @ ''Admin: true'' @ [CHR 0x0A]
       @ ''Public keys:'')
     = Inr \<lparr>ui_Username = ''admin'', ui_Admin = True, ui_PublicKeys = []\<rparr>
   \<and> ParseUserInfo (''Username: alice'' @ [CHR 0x0A] @ ''Admin: false'' @ [CHR 0x0A]
       @ ''Public keys:'' @ [CHR 0x0A] @ ''  ssh-ed25519 AAAA alice@laptop'' @ [CHR 0x0A]
       @ ''  ssh-rsa BBBB alice@desktop'')
     = Inr \<lparr>ui_Username = ''alice'', ui_Admin = False,
            ui_PublicKeys = [''ssh-ed25519 AAAA alice@laptop'', ''ssh-rsa BBBB alice@desktop'']\<rparr>
   \<and> (\<exists>res. ParseUserInfo (''Username: alice'' @ [CHR 0x0A] @ ''Public keys:'' @ [CHR 0x0A]
         @ ''  k1'' @ [CHR 0x0A] @ [CHR 0x0A] @ ''k2'' @ [CHR 0x0A] @ ''Admin: true'') = Inr res
        \<and> ui_Username res = ''alice'' \<and> ui_PublicKeys res = [''k1'', ''k2''])
   \<and> ParseUserInfo ''Public keys:'' = Inl MissingUsernameField"
proof -
  let ?o1 = "''Username: admin'' @ [CHR 0x0A] @ ''Admin: true'' @ [CHR 0x0A] @ ''Public keys:''"
  let ?o2 = "''Username: alice'' @ [CHR 0x0A] @ ''Admin: false'' @ [CHR 0x0A]
       @ ''Public keys:'' @ [CHR 0x0A] @ ''  ssh-ed25519 AAAA alice@laptop'' @ [CHR 0x0A]
       @ ''  ssh-rsa BBBB alice@desktop''"
  let ?o3 = "''Username: alice'' @ [CHR 0x0A] @ ''Public keys:'' @ [CHR 0x0A]
         @ ''  k1'' @ [CHR 0x0A] @ [CHR 0x0A] @ ''k2'' @ [CHR 0x0A] @ ''Admin: true''"
  let ?r1 = "\<lparr>ui_Username = ''admin'', ui_Admin = True, ui_PublicKeys = []\<rparr>"
  let ?r2 = "\<lparr>ui_Username = ''alice'', ui_Admin = False, ui_PublicKeys = []\<rparr>"
  let ?ks = "[''  ssh-ed25519 AAAA alice@laptop'', ''  ssh-rsa BBBB alice@desktop'']"
  let ?ks3 = "[''  k1'', '''', ''k2'']"
  have s1: "SplitLines ?o1 = [''Username: admin'', ''Admin: true''] @ ''Public keys:'' # []"
    by code_simp
  have p1: "foldl userLine (emptyUserInfo, False) [''Username: admin'', ''Admin: true'']
      = (?r1, False)"
    by code_simp
  have h: "parseKeyValue ''Public keys:'' = (''Public keys'', '''', True)"
    by code_simp
  have s2: "SplitLines ?o2 = [''Username: alice'', ''Admin: false''] @ ''Public keys:'' # ?ks"
    by code_simp
  have p2: "foldl userLine (emptyUserInfo, False) [''Username: alice'', ''Admin: false'']
      = (?r2, False)"
    by code_simp
  have "list_all (\<lambda>l. TrimSpace l \<noteq> '''' \<and> (HasPrefix l ''  '' \<or> \<not> Contains l '': '')) ?ks"
    by code_simp
  then have k2: "\<forall>l\<in>set ?ks. TrimSpace l \<noteq> '''' \<and> (HasPrefix l ''  '' \<or> \<not> Contains l '': '')"
    by (simp only: list_all_iff)
  have m: "map TrimSpace ?ks = [''ssh-ed25519 AAAA alice@laptop'', ''ssh-rsa BBBB alice@desktop'']"
    by code_simp
  have 1: "ParseUserInfo ?o1 = Inr (?r1\<lparr>ui_PublicKeys := ui_PublicKeys ?r1 @ map TrimSpace []\<rparr>)"
    by (rule ParseUserInfo_public_keys [of ?o1 "[''Username: admin'', ''Admin: true'']"
          "''Public keys:''" "[]" ?r1 "''''", THEN conjunct1, THEN mp])
       (intro conjI s1 p1 h, simp_all)
  have "ParseUserInfo ?o2 = Inr (?r2\<lparr>ui_PublicKeys := ui_PublicKeys ?r2 @ map TrimSpace ?ks\<rparr>)"
    by (rule ParseUserInfo_public_keys [of ?o2 "[''Username: alice'', ''Admin: false'']"
          "''Public keys:''" ?ks ?r2 "''''", THEN conjunct1, THEN mp])
       (intro conjI s2 p2 h k2, simp)
  then have 2: "ParseUserInfo ?o2 = Inr \<lparr>ui_Username = ''alice'', ui_Admin = False,
            ui_PublicKeys = [''ssh-ed25519 AAAA alice@laptop'', ''ssh-rsa BBBB alice@desktop'']\<rparr>"
    by (simp only: m) simp
  have s3: "SplitLines ?o3 = [''Username: alice''] @ ''Public keys:'' # ?ks3 @ [''Admin: true'']"
    by code_simp
  have "list_all (\<lambda>l. \<not> opensKeySection l) [''Username: alice'']"
    by code_simp
  then have pre3: "\<forall>l\<in>set [''Username: alice'']. \<not> opensKeySection l"
    by (simp only: list_all_iff)
  have hdr3: "opensKeySection ''Public keys:''"
    by code_simp
  have "list_all (\<lambda>l. HasPrefix l ''  '' \<or> \<not> Contains l '': '') ?ks3"
    by code_simp
  then have ks3: "\<forall>l\<in>set ?ks3. HasPrefix l ''  '' \<or> \<not> Contains l '': ''"
    by (simp only: list_all_iff)
  have "\<not> HasPrefix (hd [''Admin: true'']) ''  '' \<and> Contains (hd [''Admin: true'']) '': ''"
    by code_simp
  then have ends3: "[''Admin: true''] = [] \<or>
      (\<not> HasPrefix (hd [''Admin: true'']) ''  '' \<and> Contains (hd [''Admin: true'']) '': '')"
    by (rule disjI2)
  have "list_all (\<lambda>l. \<not> opensKeySection l) [''Admin: true'']"
    by code_simp
  then have rest3: "\<forall>l\<in>set [''Admin: true'']. \<not> opensKeySection l"
    by (simp only: list_all_iff)
  have m3: "map TrimSpace (filter (\<lambda>l. TrimSpace l \<noteq> '''') ?ks3) = [''k1'', ''k2'']"
    by code_simp
  have lv3: "lastValue ''Username'' (userKeyValues (SplitLines ?o3) False) = Some ''alice''"
    by code_simp
  have lv4: "lastValue ''Username'' (userKeyValues (SplitLines ''Public keys:'') False) = None"
    by code_simp
  have "ParseUserInfo ?o3 = Inl MissingUsernameField
         \<or> (\<exists>res. ParseUserInfo ?o3 = Inr res
               \<and> ui_PublicKeys res = map TrimSpace (filter (\<lambda>l. TrimSpace l \<noteq> '''') ?ks3))"
    by (rule ParseUserInfo_public_keys [of ?o3 "[''Username: alice'']" "''Public keys:''" ?ks3
          _ _ _ "[''Admin: true'']",
          THEN conjunct2, THEN conjunct2, THEN conjunct2, THEN conjunct2, THEN mp])
       (intro conjI s3 pre3 hdr3 ks3 ends3 rest3)
  moreover have "\<exists>res. ParseUserInfo ?o3 = Inr res \<and> ui_Username res = ''alice''"
    using ParseUserInfo_public_keys [of ?o3, THEN conjunct2, THEN conjunct2, THEN conjunct2,
        THEN conjunct1] lv3
    by auto
  ultimately have 3: "\<exists>res. ParseUserInfo ?o3 = Inr res
        \<and> ui_Username res = ''alice'' \<and> ui_PublicKeys res = [''k1'', ''k2'']"
    unfolding m3 by auto
  have 4: "ParseUserInfo ''Public keys:'' = Inl MissingUsernameField"
    using ParseUserInfo_public_keys [of "''Public keys:''", THEN conjunct2, THEN conjunct2,
        THEN conjunct2, THEN conjunct1] lv4
    by auto
  from 1 2 3 4 show ?thesis by simp
qed

section \<open>Construction of the client: the authentication method\<close>

text \<open>
  Claim C6 as stated fails. First the configuration of the repository's own test for an
  invalid private key: the key contents do not parse, no key file is given and the
  agent is off, so no method resolves; construction fails, however, with the error of
  parsing the private key, not with the error that no authentication method is
  available. Then the same key contents with an agent that is asked for and answers:
  the agent resolves, and construction fails all the same, with the error of parsing
  the private key. A configured method that fails ends the construction at once; the
  next method in the order is not tried.
\<close>

theorem NewClient_authentication_counterexample:
  "\<not> keyContentResolves
       \<lparr>sys_ParsePrivateKey = (\<lambda>k. Inl ''ssh: no key found''),
        sys_ReadFile = (\<lambda>p. Inl ''no such file or directory''), sys_SSH_AUTH_SOCK = '''',
        sys_Dial = (\<lambda>s. Inl ''connection refused''),
        sys_ParseAuthorizedKey = (\<lambda>d. Inl ''ssh: no key found'')\<rparr>
       \<lparr>cfg_Host = ''localhost'', cfg_Port = 23231, cfg_Username = ''admin'',
        cfg_PrivateKey = ''not-a-valid-key'', cfg_PrivateKeyPath = '''', cfg_UseAgent = False,
        cfg_IdentityFile = ''''\<rparr>
   \<and> \<not> keyFileResolves
       \<lparr>sys_ParsePrivateKey = (\<lambda>k. Inl ''ssh: no key found''),
        sys_ReadFile = (\<lambda>p. Inl ''no such file or directory''), sys_SSH_AUTH_SOCK = '''',
        sys_Dial = (\<lambda>s. Inl ''connection refused''),
        sys_ParseAuthorizedKey = (\<lambda>d. Inl ''ssh: no key found'')\<rparr>
       \<lparr>cfg_Host = ''localhost'', cfg_Port = 23231, cfg_Username = ''admin'',
        cfg_PrivateKey = ''not-a-valid-key'', cfg_PrivateKeyPath = '''', cfg_UseAgent = False,
        cfg_IdentityFile = ''''\<rparr>
   \<and> \<not> agentResolves
       \<lparr>sys_ParsePrivateKey = (\<lambda>k. Inl ''ssh: no key found''),
        sys_ReadFile = (\<lambda>p. Inl ''no such file or directory''), sys_SSH_AUTH_SOCK = '''',
        sys_Dial = (\<lambda>s. Inl ''connection refused''),
        sys_ParseAuthorizedKey = (\<lambda>d. Inl ''ssh: no key found'')\<rparr>
       \<lparr>cfg_Host = ''localhost'', cfg_Port = 23231, cfg_Username = ''admin'',
        cfg_PrivateKey = ''not-a-valid-key'', cfg_PrivateKeyPath = '''', cfg_UseAgent = False,
        cfg_IdentityFile = ''''\<rparr>
   \<and> fst (NewClient
       \<lparr>sys_ParsePrivateKey = (\<lambda>k. Inl ''ssh: no key found''),
        sys_ReadFile = (\<lambda>p. Inl ''no such file or directory''), sys_SSH_AUTH_SOCK = '''',
        sys_Dial = (\<lambda>s. Inl ''connection refused''),
        sys_ParseAuthorizedKey = (\<lambda>d. Inl ''ssh: no key found'')\<rparr>
       \<lparr>cfg_Host = ''localhost'', cfg_Port = 23231, cfg_Username = ''admin'',
        cfg_PrivateKey = ''not-a-valid-key'', cfg_PrivateKeyPath = '''', cfg_UseAgent = False,
        cfg_IdentityFile = ''''\<rparr>)
     = Inl (ParsingPrivateKey ''ssh: no key found'')
   \<and> ParsingPrivateKey ''ssh: no key found'' \<noteq> NoAuthenticationMethod
   \<and> agentResolves
       \<lparr>sys_ParsePrivateKey = (\<lambda>k. Inl ''ssh: no key found''),
        sys_ReadFile = (\<lambda>p. Inl ''no such file or directory''),
        sys_SSH_AUTH_SOCK = ''/agent.sock'', sys_Dial = (\<lambda>s. Inr 7),
        sys_ParseAuthorizedKey = (\<lambda>d. Inl ''ssh: no key found'')\<rparr>
       \<lparr>cfg_Host = ''localhost'', cfg_Port = 23231, cfg_Username = ''admin'',
        cfg_PrivateKey = ''not-a-valid-key'', cfg_PrivateKeyPath = '''', cfg_UseAgent = True,
        cfg_IdentityFile = ''''\<rparr>
   \<and> fst (NewClient
       \<lparr>sys_ParsePrivateKey = (\<lambda>k. Inl ''ssh: no key found''),
        sys_ReadFile = (\<lambda>p. Inl ''no such file or directory''),
        sys_SSH_AUTH_SOCK = ''/agent.sock'', sys_Dial = (\<lambda>s. Inr 7),
        sys_ParseAuthorizedKey = (\<lambda>d. Inl ''ssh: no key found'')\<rparr>
       \<lparr>cfg_Host = ''localhost'', cfg_Port = 23231, cfg_Username = ''admin'',
        cfg_PrivateKey = ''not-a-valid-key'', cfg_PrivateKeyPath = '''', cfg_UseAgent = True,
        cfg_IdentityFile = ''''\<rparr>)
     = Inl (ParsingPrivateKey ''ssh: no key found'')"
  by (simp add: keyContentResolves_def keyFileResolves_def agentResolves_def agentReached_def
      NewClient_def resolveSigner_def)

text \<open>
  Claim C6, amended. The signer comes from the key contents when they are given, and
  then the key file path has no influence on the result or on the files read;
  otherwise it comes from the key file when a path is given. When the agent is asked
  for and its socket can be dialled, the agent's signers are added as a second method,
  all of them without an identity file, and with one only the first signer whose public
  key is that of the file. Construction succeeds exactly when every configured step
  succeeds (the key parses, the key file can be read and parses, the identity file can
  be read and parses) and a signer or an agent connection results; the client then has
  the host, port and user name of the configuration and the connection to the agent,
  the key file was read only when no key contents were given, and nothing was closed.
  A configured step that fails ends the construction at once with that step's own
  error: key contents that do not parse, before any file is read or socket dialled; a
  key file that cannot be read, and one that does not parse, after reading that file
  only; an identity file that cannot be read, and one that does not parse, wrapped as
  an error of filtering the agent's keys, after which the connection to the agent is
  closed. Construction fails with the error that no authentication method is available
  exactly when neither key contents nor a key file path is given and no agent
  connection is made. The callback of the filtered method gives the agent's own error
  when the agent fails and the error that the key is not in the agent when no signer
  has the wanted public key.
\<close>

theorem NewClient_authentication:
  fixes sys :: system and cfg :: ClientConfig
  defines "key \<equiv> cfg_PrivateKey cfg"
    and "path \<equiv> cfg_PrivateKeyPath cfg"
    and "identity \<equiv> cfg_IdentityFile cfg"
    and "socket \<equiv> sys_SSH_AUTH_SOCK sys"
  defines "keyRead \<equiv> (if key = '''' \<and> path \<noteq> '''' then [ReadFile path] else [])"
    and "signerResolved \<equiv> (key \<noteq> '''' \<longrightarrow> keyContentResolves sys cfg)
           \<and> (key = '''' \<and> path \<noteq> '''' \<longrightarrow> keyFileResolves sys cfg)"
  shows
  "(cfg_PrivateKey cfg \<noteq> ''''
      \<longrightarrow> NewClient sys (cfg\<lparr>cfg_PrivateKeyPath := p\<rparr>) = NewClient sys cfg)
   \<and> (fst (NewClient sys cfg) = Inl NoAuthenticationMethod
      \<longleftrightarrow> cfg_PrivateKey cfg = '''' \<and> cfg_PrivateKeyPath cfg = '''' \<and> \<not> agentReached sys cfg)
   \<and> ((\<exists>c. fst (NewClient sys cfg) = Inr c)
      \<longleftrightarrow> (cfg_PrivateKey cfg \<noteq> '''' \<longrightarrow> keyContentResolves sys cfg)
        \<and> (cfg_PrivateKey cfg = '''' \<and> cfg_PrivateKeyPath cfg \<noteq> '''' \<longrightarrow> keyFileResolves sys cfg)
        \<and> (agentReached sys cfg \<longrightarrow> agentResolves sys cfg)
        \<and> (cfg_PrivateKey cfg \<noteq> '''' \<or> cfg_PrivateKeyPath cfg \<noteq> '''' \<or> agentReached sys cfg))
   \<and> (\<forall>c. fst (NewClient sys cfg) = Inr c \<longrightarrow>
        (cfg_PrivateKey cfg \<noteq> ''''
           \<longrightarrow> sys_ParsePrivateKey sys (cfg_PrivateKey cfg) = Inr (the (cl_signer c))
             \<and> cl_signer c \<noteq> None)
        \<and> (cfg_PrivateKey cfg = '''' \<and> cfg_PrivateKeyPath cfg \<noteq> ''''
           \<longrightarrow> (\<exists>keyData. sys_ReadFile sys (cfg_PrivateKeyPath cfg) = Inr keyData
                  \<and> sys_ParsePrivateKey sys keyData = Inr (the (cl_signer c)))
             \<and> cl_signer c \<noteq> None)
        \<and> (cfg_PrivateKey cfg = '''' \<and> cfg_PrivateKeyPath cfg = '''' \<longrightarrow> cl_signer c = None)
        \<and> (\<not> agentReached sys cfg \<longrightarrow> cl_agentAuth c = None)
        \<and> (agentReached sys cfg \<and> cfg_IdentityFile cfg = ''''
           \<longrightarrow> cl_agentAuth c = Some (PublicKeysCallback agentSigners))
        \<and> (agentReached sys cfg \<and> cfg_IdentityFile cfg \<noteq> ''''
           \<longrightarrow> (\<exists>pubKeyData wantBytes.
                  sys_ReadFile sys (cfg_IdentityFile cfg) = Inr pubKeyData
                  \<and> sys_ParseAuthorizedKey sys pubKeyData = Inr wantBytes
                  \<and> cl_agentAuth c = Some (PublicKeysCallback
                        (matchingSigner (cfg_IdentityFile cfg) wantBytes)))))
   \<and> (\<forall>signers offered. matchingSigner f wantBytes (Inr signers) = Inr offered
        \<longrightarrow> (\<exists>s. offered = [s] \<and> s \<in> set signers \<and> Marshal s = wantBytes))
   \<and> (\<forall>e. cfg_PrivateKey cfg \<noteq> '''' \<and> sys_ParsePrivateKey sys (cfg_PrivateKey cfg) = Inl e
        \<longrightarrow> fst (NewClient sys cfg) = Inl (ParsingPrivateKey e))
   \<and> (\<forall>e. key \<noteq> '''' \<and> sys_ParsePrivateKey sys key = Inl e
        \<longrightarrow> NewClient sys cfg = (Inl (ParsingPrivateKey e), []))
   \<and> (\<forall>e. key = '''' \<and> path \<noteq> '''' \<and> sys_ReadFile sys path = Inl e
        \<longrightarrow> NewClient sys cfg = (Inl (ReadingPrivateKeyFile path e), [ReadFile path]))
   \<and> (\<forall>keyData e. key = '''' \<and> path \<noteq> '''' \<and> sys_ReadFile sys path = Inr keyData
          \<and> sys_ParsePrivateKey sys keyData = Inl e
        \<longrightarrow> NewClient sys cfg = (Inl (ParsingPrivateKeyFrom path e), [ReadFile path]))
   \<and> (\<forall>conn e. signerResolved \<and> cfg_UseAgent cfg \<and> socket \<noteq> ''''
          \<and> sys_Dial sys socket = Inr conn
          \<and> identity \<noteq> '''' \<and> sys_ReadFile sys identity = Inl e
        \<longrightarrow> NewClient sys cfg
            = (Inl (FilteringAgentKeys (ReadingIdentityFile identity e)),
               keyRead @ [Dial socket, ReadFile identity, Close conn]))
   \<and> (\<forall>conn pubKeyData e. signerResolved \<and> cfg_UseAgent cfg \<and> socket \<noteq> ''''
          \<and> sys_Dial sys socket = Inr conn
          \<and> identity \<noteq> '''' \<and> sys_ReadFile sys identity = Inr pubKeyData
          \<and> sys_ParseAuthorizedKey sys pubKeyData = Inl e
        \<longrightarrow> NewClient sys cfg
            = (Inl (FilteringAgentKeys (ParsingPublicKeyFrom identity e)),
               keyRead @ [Dial socket, ReadFile identity, Close conn]))
   \<and> (key = '''' \<and> path = '''' \<and> \<not> agentReached sys cfg
        \<longrightarrow> NewClient sys cfg
            = (Inl NoAuthenticationMethod,
               if cfg_UseAgent cfg \<and> socket \<noteq> '''' then [Dial socket] else []))
   \<and> (\<forall>c. fst (NewClient sys cfg) = Inr c
        \<longrightarrow> snd (NewClient sys cfg)
            = keyRead @ (if cfg_UseAgent cfg \<and> socket \<noteq> ''''
                         then Dial socket
                              # (if agentReached sys cfg \<and> identity \<noteq> ''''
                                 then [ReadFile identity] else [])
                         else [])
          \<and> cl_host c = cfg_Host cfg \<and> cl_port c = cfg_Port cfg
          \<and> cl_username c = cfg_Username cfg
          \<and> (agentReached sys cfg \<longrightarrow> sys_Dial sys socket = Inr (the (cl_agentConn c))
                \<and> cl_agentConn c \<noteq> None)
          \<and> (\<not> agentReached sys cfg \<longrightarrow> cl_agentConn c = None))
   \<and> matchingSigner f wantBytes (Inl agentError) = Inl (AgentError agentError)
   \<and> (\<forall>signers. (\<forall>s\<in>set signers. Marshal s \<noteq> wantBytes)
        \<longrightarrow> matchingSigner f wantBytes (Inr signers) = Inl (KeyNotInAgent f))
   \<and> (\<forall>before s after. Marshal s = wantBytes \<and> (\<forall>x\<in>set before. Marshal x \<noteq> wantBytes)
        \<longrightarrow> matchingSigner f wantBytes (Inr (before @ s # after)) = Inr [s])
   \<and> agentSigners (Inl agentError) = Inl (AgentError agentError)
   \<and> (\<forall>signers. agentSigners (Inr signers) = Inr signers)"
proof -
  have a: "cfg_PrivateKey cfg \<noteq> ''''
      \<longrightarrow> NewClient sys (cfg\<lparr>cfg_PrivateKeyPath := p\<rparr>) = NewClient sys cfg"
  proof
    assume k: "cfg_PrivateKey cfg \<noteq> []"
    have s: "setUpAgent sys (cfg\<lparr>cfg_PrivateKeyPath := p\<rparr>) c = setUpAgent sys cfg c" for c
      by (auto simp: setUpAgent_def Let_def split: sum.splits)
    have r: "resolveSigner sys (cfg\<lparr>cfg_PrivateKeyPath := p\<rparr>) c = resolveSigner sys cfg c" for c
      using k by (simp add: resolveSigner_def)
    show "NewClient sys (cfg\<lparr>cfg_PrivateKeyPath := p\<rparr>) = NewClient sys cfg"
      unfolding NewClient_def s r by simp
  qed
  have b: "fst (NewClient sys cfg) = Inl NoAuthenticationMethod
      \<longleftrightarrow> cfg_PrivateKey cfg = '''' \<and> cfg_PrivateKeyPath cfg = '''' \<and> \<not> agentReached sys cfg"
    by (auto simp: NewClient_def resolveSigner_def setUpAgent_def agentReached_def Let_def
        split: sum.splits if_splits)
  have c: "(\<exists>c. fst (NewClient sys cfg) = Inr c)
      \<longleftrightarrow> (cfg_PrivateKey cfg \<noteq> '''' \<longrightarrow> keyContentResolves sys cfg)
        \<and> (cfg_PrivateKey cfg = '''' \<and> cfg_PrivateKeyPath cfg \<noteq> '''' \<longrightarrow> keyFileResolves sys cfg)
        \<and> (agentReached sys cfg \<longrightarrow> agentResolves sys cfg)
        \<and> (cfg_PrivateKey cfg \<noteq> '''' \<or> cfg_PrivateKeyPath cfg \<noteq> '''' \<or> agentReached sys cfg)"
    by (auto simp: NewClient_def resolveSigner_def setUpAgent_def agentReached_def Let_def
        keyContentResolves_def keyFileResolves_def agentResolves_def
        split: sum.splits if_splits)
  have d: "(cfg_PrivateKey cfg \<noteq> ''''
           \<longrightarrow> sys_ParsePrivateKey sys (cfg_PrivateKey cfg) = Inr (the (cl_signer c))
             \<and> cl_signer c \<noteq> None)
        \<and> (cfg_PrivateKey cfg = '''' \<and> cfg_PrivateKeyPath cfg \<noteq> ''''
           \<longrightarrow> (\<exists>keyData. sys_ReadFile sys (cfg_PrivateKeyPath cfg) = Inr keyData
                  \<and> sys_ParsePrivateKey sys keyData = Inr (the (cl_signer c)))
             \<and> cl_signer c \<noteq> None)
        \<and> (cfg_PrivateKey cfg = '''' \<and> cfg_PrivateKeyPath cfg = '''' \<longrightarrow> cl_signer c = None)
        \<and> (\<not> agentReached sys cfg \<longrightarrow> cl_agentAuth c = None)
        \<and> (agentReached sys cfg \<and> cfg_IdentityFile cfg = ''''
           \<longrightarrow> cl_agentAuth c = Some (PublicKeysCallback agentSigners))
        \<and> (agentReached sys cfg \<and> cfg_IdentityFile cfg \<noteq> ''''
           \<longrightarrow> (\<exists>pubKeyData wantBytes.
                  sys_ReadFile sys (cfg_IdentityFile cfg) = Inr pubKeyData
                  \<and> sys_ParseAuthorizedKey sys pubKeyData = Inr wantBytes
                  \<and> cl_agentAuth c = Some (PublicKeysCallback
                        (matchingSigner (cfg_IdentityFile cfg) wantBytes))))"
    if "fst (NewClient sys cfg) = Inr c" for c
    using that
    by (auto simp: NewClient_def resolveSigner_def setUpAgent_def agentReached_def Let_def
        filteredAgentAuth_def split: sum.splits if_splits)
  have e: "\<exists>s. offered = [s] \<and> s \<in> set signers \<and> Marshal s = wantBytes"
    if "matchingSigner f wantBytes (Inr signers) = Inr offered" for signers offered
    using that by (auto simp: matchingSigner_def split: option.splits dest: find_SomeD)
  have g: "fst (NewClient sys cfg) = Inl (ParsingPrivateKey e)"
    if "cfg_PrivateKey cfg \<noteq> '''' \<and> sys_ParsePrivateKey sys (cfg_PrivateKey cfg) = Inl e" for e
    using that by (simp add: NewClient_def resolveSigner_def)
  have old: "(cfg_PrivateKey cfg \<noteq> ''''
      \<longrightarrow> NewClient sys (cfg\<lparr>cfg_PrivateKeyPath := p\<rparr>) = NewClient sys cfg)
   \<and> (fst (NewClient sys cfg) = Inl NoAuthenticationMethod
      \<longleftrightarrow> cfg_PrivateKey cfg = '''' \<and> cfg_PrivateKeyPath cfg = '''' \<and> \<not> agentReached sys cfg)
   \<and> ((\<exists>c. fst (NewClient sys cfg) = Inr c)
      \<longleftrightarrow> (cfg_PrivateKey cfg \<noteq> '''' \<longrightarrow> keyContentResolves sys cfg)
        \<and> (cfg_PrivateKey cfg = '''' \<and> cfg_PrivateKeyPath cfg \<noteq> '''' \<longrightarrow> keyFileResolves sys cfg)
        \<and> (agentReached sys cfg \<longrightarrow> agentResolves sys cfg)
        \<and> (cfg_PrivateKey cfg \<noteq> '''' \<or> cfg_PrivateKeyPath cfg \<noteq> '''' \<or> agentReached sys cfg))
   \<and> (\<forall>c. fst (NewClient sys cfg) = Inr c \<longrightarrow>
        (cfg_PrivateKey cfg \<noteq> ''''
           \<longrightarrow> sys_ParsePrivateKey sys (cfg_PrivateKey cfg) = Inr (the (cl_signer c))
             \<and> cl_signer c \<noteq> None)
        \<and> (cfg_PrivateKey cfg = '''' \<and> cfg_PrivateKeyPath cfg \<noteq> ''''
           \<longrightarrow> (\<exists>keyData. sys_ReadFile sys (cfg_PrivateKeyPath cfg) = Inr keyData
                  \<and> sys_ParsePrivateKey sys keyData = Inr (the (cl_signer c)))
             \<and> cl_signer c \<noteq> None)
        \<and> (cfg_PrivateKey cfg = '''' \<and> cfg_PrivateKeyPath cfg = '''' \<longrightarrow> cl_signer c = None)
        \<and> (\<not> agentReached sys cfg \<longrightarrow> cl_agentAuth c = None)
        \<and> (agentReached sys cfg \<and> cfg_IdentityFile cfg = ''''
           \<longrightarrow> cl_agentAuth c = Some (PublicKeysCallback agentSigners))
        \<and> (agentReached sys cfg \<and> cfg_IdentityFile cfg \<noteq> ''''
           \<longrightarrow> (\<exists>pubKeyData wantBytes.
                  sys_ReadFile sys (cfg_IdentityFile cfg) = Inr pubKeyData
                  \<and> sys_ParseAuthorizedKey sys pubKeyData = Inr wantBytes
                  \<and> cl_agentAuth c = Some (PublicKeysCallback
                        (matchingSigner (cfg_IdentityFile cfg) wantBytes)))))
   \<and> (\<forall>signers offered. matchingSigner f wantBytes (Inr signers) = Inr offered
        \<longrightarrow> (\<exists>s. offered = [s] \<and> s \<in> set signers \<and> Marshal s = wantBytes))
   \<and> (\<forall>e. cfg_PrivateKey cfg \<noteq> '''' \<and> sys_ParsePrivateKey sys (cfg_PrivateKey cfg) = Inl e
        \<longrightarrow> fst (NewClient sys cfg) = Inl (ParsingPrivateKey e))"
    using a b c d e g by blast
  have signer: "\<exists>c. resolveSigner sys cfg c0 = (Inr c, keyRead)" if signerResolved for c0
    using that
    by (auto simp: signerResolved_def keyRead_def key_def path_def resolveSigner_def
        keyContentResolves_def keyFileResolves_def split: sum.splits)
  have n1: "(\<forall>e. key \<noteq> '''' \<and> sys_ParsePrivateKey sys key = Inl e
        \<longrightarrow> NewClient sys cfg = (Inl (ParsingPrivateKey e), []))"
    by (simp add: NewClient_def resolveSigner_def key_def)
  have n2: "(\<forall>e. key = '''' \<and> path \<noteq> '''' \<and> sys_ReadFile sys path = Inl e
        \<longrightarrow> NewClient sys cfg = (Inl (ReadingPrivateKeyFile path e), [ReadFile path]))"
    by (simp add: NewClient_def resolveSigner_def key_def path_def)
  have n3: "(\<forall>keyData e. key = '''' \<and> path \<noteq> '''' \<and> sys_ReadFile sys path = Inr keyData
          \<and> sys_ParsePrivateKey sys keyData = Inl e
        \<longrightarrow> NewClient sys cfg = (Inl (ParsingPrivateKeyFrom path e), [ReadFile path]))"
    by (simp add: NewClient_def resolveSigner_def key_def path_def)
  have n4: "(\<forall>conn e. signerResolved \<and> cfg_UseAgent cfg \<and> socket \<noteq> ''''
          \<and> sys_Dial sys socket = Inr conn
          \<and> identity \<noteq> '''' \<and> sys_ReadFile sys identity = Inl e
        \<longrightarrow> NewClient sys cfg
            = (Inl (FilteringAgentKeys (ReadingIdentityFile identity e)),
               keyRead @ [Dial socket, ReadFile identity, Close conn]))"
  proof (intro allI impI)
    fix conn e
    assume h: "signerResolved \<and> cfg_UseAgent cfg \<and> socket \<noteq> ''''
          \<and> sys_Dial sys socket = Inr conn
          \<and> identity \<noteq> '''' \<and> sys_ReadFile sys identity = Inl e"
    obtain c where c: "resolveSigner sys cfg
        \<lparr>cl_host = cfg_Host cfg, cl_port = cfg_Port cfg, cl_username = cfg_Username cfg,
         cl_signer = None, cl_agentConn = None, cl_agentAuth = None\<rparr> = (Inr c, keyRead)"
      using signer h by blast
    have "setUpAgent sys cfg c = (Inl (FilteringAgentKeys (ReadingIdentityFile identity e)),
        [Dial socket, ReadFile identity, Close conn])"
      using h by (simp add: setUpAgent_def Let_def filteredAgentAuth_def socket_def identity_def)
    with c show "NewClient sys cfg
            = (Inl (FilteringAgentKeys (ReadingIdentityFile identity e)),
               keyRead @ [Dial socket, ReadFile identity, Close conn])"
      by (simp add: NewClient_def)
  qed
  have n5: "(\<forall>conn pubKeyData e. signerResolved \<and> cfg_UseAgent cfg \<and> socket \<noteq> ''''
          \<and> sys_Dial sys socket = Inr conn
          \<and> identity \<noteq> '''' \<and> sys_ReadFile sys identity = Inr pubKeyData
          \<and> sys_ParseAuthorizedKey sys pubKeyData = Inl e
        \<longrightarrow> NewClient sys cfg
            = (Inl (FilteringAgentKeys (ParsingPublicKeyFrom identity e)),
               keyRead @ [Dial socket, ReadFile identity, Close conn]))"
  proof (intro allI impI)
    fix conn pubKeyData e
    assume h: "signerResolved \<and> cfg_UseAgent cfg \<and> socket \<noteq> ''''
          \<and> sys_Dial sys socket = Inr conn
          \<and> identity \<noteq> '''' \<and> sys_ReadFile sys identity = Inr pubKeyData
          \<and> sys_ParseAuthorizedKey sys pubKeyData = Inl e"
    obtain c where c: "resolveSigner sys cfg
        \<lparr>cl_host = cfg_Host cfg, cl_port = cfg_Port cfg, cl_username = cfg_Username cfg,
         cl_signer = None, cl_agentConn = None, cl_agentAuth = None\<rparr> = (Inr c, keyRead)"
      using signer h by blast
    have "setUpAgent sys cfg c = (Inl (FilteringAgentKeys (ParsingPublicKeyFrom identity e)),
        [Dial socket, ReadFile identity, Close conn])"
      using h by (simp add: setUpAgent_def Let_def filteredAgentAuth_def socket_def identity_def)
    with c show "NewClient sys cfg
            = (Inl (FilteringAgentKeys (ParsingPublicKeyFrom identity e)),
               keyRead @ [Dial socket, ReadFile identity, Close conn])"
      by (simp add: NewClient_def)
  qed
  have n6: "(key = '''' \<and> path = '''' \<and> \<not> agentReached sys cfg
        \<longrightarrow> NewClient sys cfg
            = (Inl NoAuthenticationMethod,
               if cfg_UseAgent cfg \<and> socket \<noteq> '''' then [Dial socket] else []))"
  proof
    assume h: "key = '''' \<and> path = '''' \<and> \<not> agentReached sys cfg"
    have 1: "resolveSigner sys cfg c0 = (Inr c0, [])" for c0
      using h by (simp add: resolveSigner_def key_def path_def)
    have 2: "setUpAgent sys cfg c0
        = (Inr c0, if cfg_UseAgent cfg \<and> socket \<noteq> '''' then [Dial socket] else [])" for c0
      using h by (auto simp: setUpAgent_def agentReached_def Let_def socket_def split: sum.splits)
    show "NewClient sys cfg
            = (Inl NoAuthenticationMethod,
               if cfg_UseAgent cfg \<and> socket \<noteq> '''' then [Dial socket] else [])"
      unfolding NewClient_def 1 2 by (simp add: Let_def)
  qed
  have n7: "(\<forall>c. fst (NewClient sys cfg) = Inr c
        \<longrightarrow> snd (NewClient sys cfg)
            = keyRead @ (if cfg_UseAgent cfg \<and> socket \<noteq> ''''
                         then Dial socket
                              # (if agentReached sys cfg \<and> identity \<noteq> ''''
                                 then [ReadFile identity] else [])
                         else [])
          \<and> cl_host c = cfg_Host cfg \<and> cl_port c = cfg_Port cfg
          \<and> cl_username c = cfg_Username cfg
          \<and> (agentReached sys cfg \<longrightarrow> sys_Dial sys socket = Inr (the (cl_agentConn c))
                \<and> cl_agentConn c \<noteq> None)
          \<and> (\<not> agentReached sys cfg \<longrightarrow> cl_agentConn c = None))"
  proof (intro allI impI)
    fix c
    assume h: "fst (NewClient sys cfg) = Inr c"
    define c0 where "c0 = \<lparr>cl_host = cfg_Host cfg, cl_port = cfg_Port cfg,
        cl_username = cfg_Username cfg, cl_signer = None, cl_agentConn = None,
        cl_agentAuth = None\<rparr>"
    define agentEvents where "agentEvents =
        (if cfg_UseAgent cfg \<and> socket \<noteq> ''''
         then Dial socket # (if agentReached sys cfg \<and> identity \<noteq> ''''
                             then [ReadFile identity] else [])
         else [])"
    have new: "NewClient sys cfg =
        (case resolveSigner sys cfg c0 of
           (Inl e, ev) \<Rightarrow> (Inl e, ev)
         | (Inr c, ev) \<Rightarrow>
             (case setUpAgent sys cfg c of
                (Inl e, ev') \<Rightarrow> (Inl e, ev @ ev')
              | (Inr c, ev') \<Rightarrow>
                  if cl_signer c = None \<and> cl_agentAuth c = None
                  then (Inl NoAuthenticationMethod, ev @ ev')
                  else (Inr c, ev @ ev')))"
      unfolding NewClient_def Let_def c0_def by (rule refl)
    obtain r1 ev1 where r1: "resolveSigner sys cfg c0 = (r1, ev1)"
      by (cases "resolveSigner sys cfg c0")
    from h obtain c1 where c1: "r1 = Inr c1"
      unfolding new r1 by (cases r1) auto
    have s1: "ev1 = keyRead \<and> cl_host c1 = cfg_Host cfg \<and> cl_port c1 = cfg_Port cfg
        \<and> cl_username c1 = cfg_Username cfg \<and> cl_agentConn c1 = None"
      using r1 c1
      by (auto simp: resolveSigner_def keyRead_def key_def path_def c0_def
          split: sum.splits if_splits)
    obtain r2 ev2 where r2: "setUpAgent sys cfg c1 = (r2, ev2)"
      by (cases "setUpAgent sys cfg c1")
    from h have c2: "r2 = Inr c" and ev: "snd (NewClient sys cfg) = ev1 @ ev2"
      unfolding new r1 c1 by (auto simp: r2 split: sum.splits if_splits)
    have s2: "ev2 = agentEvents \<and> cl_host c = cl_host c1 \<and> cl_port c = cl_port c1
        \<and> cl_username c = cl_username c1
        \<and> (agentReached sys cfg \<longrightarrow> sys_Dial sys socket = Inr (the (cl_agentConn c))
                \<and> cl_agentConn c \<noteq> None)
        \<and> (\<not> agentReached sys cfg \<longrightarrow> cl_agentConn c = cl_agentConn c1)"
      using r2 c2
      by (auto simp: setUpAgent_def agentReached_def agentEvents_def Let_def socket_def
          identity_def split: sum.splits if_splits)
    from s1 s2 ev show "snd (NewClient sys cfg)
            = keyRead @ (if cfg_UseAgent cfg \<and> socket \<noteq> ''''
                         then Dial socket
                              # (if agentReached sys cfg \<and> identity \<noteq> ''''
                                 then [ReadFile identity] else [])
                         else [])
          \<and> cl_host c = cfg_Host cfg \<and> cl_port c = cfg_Port cfg
          \<and> cl_username c = cfg_Username cfg
          \<and> (agentReached sys cfg \<longrightarrow> sys_Dial sys socket = Inr (the (cl_agentConn c))
                \<and> cl_agentConn c \<noteq> None)
          \<and> (\<not> agentReached sys cfg \<longrightarrow> cl_agentConn c = None)"
      unfolding agentEvents_def by simp
  qed
  have n8: "matchingSigner f wantBytes (Inl agentError) = Inl (AgentError agentError)"
    by (simp add: matchingSigner_def)
  have n9: "(\<forall>signers. (\<forall>s\<in>set signers. Marshal s \<noteq> wantBytes)
        \<longrightarrow> matchingSigner f wantBytes (Inr signers) = Inl (KeyNotInAgent f))"
  proof (intro allI impI)
    fix signers
    assume "\<forall>s\<in>set signers. Marshal s \<noteq> wantBytes"
    then have "find (\<lambda>s. Marshal s = wantBytes) signers = None"
      by (simp add: find_None_iff)
    then show "matchingSigner f wantBytes (Inr signers) = Inl (KeyNotInAgent f)"
      by (simp add: matchingSigner_def)
  qed
  have n10: "(\<forall>before s after. Marshal s = wantBytes \<and> (\<forall>x\<in>set before. Marshal x \<noteq> wantBytes)
        \<longrightarrow> matchingSigner f wantBytes (Inr (before @ s # after)) = Inr [s])"
  proof (intro allI impI)
    fix before s after
    assume "Marshal s = wantBytes \<and> (\<forall>x\<in>set before. Marshal x \<noteq> wantBytes)"
    then have "find (\<lambda>s. Marshal s = wantBytes) (before @ s # after) = Some s"
      by (induction before) auto
    then show "matchingSigner f wantBytes (Inr (before @ s # after)) = Inr [s]"
      by (simp add: matchingSigner_def)
  qed
  have n11: "agentSigners (Inl agentError) = Inl (AgentError agentError)"
    by (simp add: agentSigners_def)
  have n12: "(\<forall>signers. agentSigners (Inr signers) = Inr signers)"
    by (simp add: agentSigners_def)
  from old n1 n2 n3 n4 n5 n6 n7 n8 n9 n10 n11 n12 show ?thesis
    by (elim conjE, intro conjI) assumption+
qed

text \<open>A system whose agent answers, with the key \<open>KEY\<close> and the identity file
  \<open>/id.pub\<close>: key contents with a path that does not exist; nothing configured; the
  agent filtered by the identity file; key contents that do not parse; a key file that
  cannot be read; and a good key with an identity file that cannot be read, where the
  connection to the agent is closed again.\<close>

theorem NewClient_authentication_witness:
  "NewClient
      \<lparr>sys_ParsePrivateKey = (\<lambda>k. if k = ''KEY'' then Inr (Signer ''pubA'') else Inl ''no key''),
       sys_ReadFile = (\<lambda>p. if p = ''/id.pub'' then Inr ''ssh-ed25519 pubB'' else Inl ''no file''),
       sys_SSH_AUTH_SOCK = ''/agent.sock'', sys_Dial = (\<lambda>s. Inr 7),
       sys_ParseAuthorizedKey = (\<lambda>d. Inr ''pubB'')\<rparr>
      (\<lparr>cfg_Host = ''localhost'', cfg_Port = 23231, cfg_Username = ''admin'',
        cfg_PrivateKey = ''KEY'', cfg_PrivateKeyPath = '''', cfg_UseAgent = False,
        cfg_IdentityFile = ''''\<rparr>\<lparr>cfg_PrivateKeyPath := ''/missing''\<rparr>)
     = NewClient
      \<lparr>sys_ParsePrivateKey = (\<lambda>k. if k = ''KEY'' then Inr (Signer ''pubA'') else Inl ''no key''),
       sys_ReadFile = (\<lambda>p. if p = ''/id.pub'' then Inr ''ssh-ed25519 pubB'' else Inl ''no file''),
       sys_SSH_AUTH_SOCK = ''/agent.sock'', sys_Dial = (\<lambda>s. Inr 7),
       sys_ParseAuthorizedKey = (\<lambda>d. Inr ''pubB'')\<rparr>
      \<lparr>cfg_Host = ''localhost'', cfg_Port = 23231, cfg_Username = ''admin'',
       cfg_PrivateKey = ''KEY'', cfg_PrivateKeyPath = '''', cfg_UseAgent = False,
       cfg_IdentityFile = ''''\<rparr>
   \<and> fst (NewClient
      \<lparr>sys_ParsePrivateKey = (\<lambda>k. if k = ''KEY'' then Inr (Signer ''pubA'') else Inl ''no key''),
       sys_ReadFile = (\<lambda>p. if p = ''/id.pub'' then Inr ''ssh-ed25519 pubB'' else Inl ''no file''),
       sys_SSH_AUTH_SOCK = ''/agent.sock'', sys_Dial = (\<lambda>s. Inr 7),
       sys_ParseAuthorizedKey = (\<lambda>d. Inr ''pubB'')\<rparr>
      \<lparr>cfg_Host = ''localhost'', cfg_Port = 23231, cfg_Username = ''admin'',
       cfg_PrivateKey = '''', cfg_PrivateKeyPath = '''', cfg_UseAgent = False,
       cfg_IdentityFile = ''''\<rparr>) = Inl NoAuthenticationMethod
   \<and> (\<exists>c. fst (NewClient
      \<lparr>sys_ParsePrivateKey = (\<lambda>k. if k = ''KEY'' then Inr (Signer ''pubA'') else Inl ''no key''),
       sys_ReadFile = (\<lambda>p. if p = ''/id.pub'' then Inr ''ssh-ed25519 pubB'' else Inl ''no file''),
       sys_SSH_AUTH_SOCK = ''/agent.sock'', sys_Dial = (\<lambda>s. Inr 7),
       sys_ParseAuthorizedKey = (\<lambda>d. Inr ''pubB'')\<rparr>
      \<lparr>cfg_Host = ''localhost'', cfg_Port = 23231, cfg_Username = ''admin'',
       cfg_PrivateKey = '''', cfg_PrivateKeyPath = '''', cfg_UseAgent = True,
       cfg_IdentityFile = ''/id.pub''\<rparr>) = Inr c)
   \<and> fst (NewClient
      \<lparr>sys_ParsePrivateKey = (\<lambda>k. if k = ''KEY'' then Inr (Signer ''pubA'') else Inl ''no key''),
       sys_ReadFile = (\<lambda>p. if p = ''/id.pub'' then Inr ''ssh-ed25519 pubB'' else Inl ''no file''),
       sys_SSH_AUTH_SOCK = ''/agent.sock'', sys_Dial = (\<lambda>s. Inr 7),
       sys_ParseAuthorizedKey = (\<lambda>d. Inr ''pubB'')\<rparr>
      \<lparr>cfg_Host = ''localhost'', cfg_Port = 23231, cfg_Username = ''admin'',
       cfg_PrivateKey = ''not-a-valid-key'', cfg_PrivateKeyPath = '''', cfg_UseAgent = True,
       cfg_IdentityFile = ''''\<rparr>) = Inl (ParsingPrivateKey ''no key'')
   \<and> NewClient
      \<lparr>sys_ParsePrivateKey = (\<lambda>k. if k = ''KEY'' then Inr (Signer ''pubA'') else Inl ''no key''),
       sys_ReadFile = (\<lambda>p. if p = ''/id.pub'' then Inr ''ssh-ed25519 pubB'' else Inl ''no file''),
       sys_SSH_AUTH_SOCK = ''/agent.sock'', sys_Dial = (\<lambda>s. Inr 7),
       sys_ParseAuthorizedKey = (\<lambda>d. Inr ''pubB'')\<rparr>
      \<lparr>cfg_Host = ''localhost'', cfg_Port = 23231, cfg_Username = ''admin'',
       cfg_PrivateKey = '''', cfg_PrivateKeyPath = ''/missing'', cfg_UseAgent = True,
       cfg_IdentityFile = ''''\<rparr>
     = (Inl (ReadingPrivateKeyFile ''/missing'' ''no file''), [ReadFile ''/missing''])
   \<and> NewClient
      \<lparr>sys_ParsePrivateKey = (\<lambda>k. if k = ''KEY'' then Inr (Signer ''pubA'') else Inl ''no key''),
       sys_ReadFile = (\<lambda>p. if p = ''/id.pub'' then Inr ''ssh-ed25519 pubB'' else Inl ''no file''),
       sys_SSH_AUTH_SOCK = ''/agent.sock'', sys_Dial = (\<lambda>s. Inr 7),
       sys_ParseAuthorizedKey = (\<lambda>d. Inr ''pubB'')\<rparr>
      \<lparr>cfg_Host = ''localhost'', cfg_Port = 23231, cfg_Username = ''admin'',
       cfg_PrivateKey = ''KEY'', cfg_PrivateKeyPath = '''', cfg_UseAgent = True,
       cfg_IdentityFile = ''/nope.pub''\<rparr>
     = (Inl (FilteringAgentKeys (ReadingIdentityFile ''/nope.pub'' ''no file'')),
        [Dial ''/agent.sock'', ReadFile ''/nope.pub'', Close 7])"
proof -
  let ?sys = "\<lparr>sys_ParsePrivateKey = (\<lambda>k. if k = ''KEY'' then Inr (Signer ''pubA'') else Inl ''no key''),
       sys_ReadFile = (\<lambda>p. if p = ''/id.pub'' then Inr ''ssh-ed25519 pubB'' else Inl ''no file''),
       sys_SSH_AUTH_SOCK = ''/agent.sock'', sys_Dial = (\<lambda>s. Inr 7),
       sys_ParseAuthorizedKey = (\<lambda>d. Inr ''pubB'')\<rparr>"
  let ?key = "\<lparr>cfg_Host = ''localhost'', cfg_Port = 23231, cfg_Username = ''admin'',
       cfg_PrivateKey = ''KEY'', cfg_PrivateKeyPath = '''', cfg_UseAgent = False,
       cfg_IdentityFile = ''''\<rparr>"
  let ?none = "\<lparr>cfg_Host = ''localhost'', cfg_Port = 23231, cfg_Username = ''admin'',
       cfg_PrivateKey = '''', cfg_PrivateKeyPath = '''', cfg_UseAgent = False,
       cfg_IdentityFile = ''''\<rparr>"
  let ?agent = "\<lparr>cfg_Host = ''localhost'', cfg_Port = 23231, cfg_Username = ''admin'',
       cfg_PrivateKey = '''', cfg_PrivateKeyPath = '''', cfg_UseAgent = True,
       cfg_IdentityFile = ''/id.pub''\<rparr>"
  let ?bad = "\<lparr>cfg_Host = ''localhost'', cfg_Port = 23231, cfg_Username = ''admin'',
       cfg_PrivateKey = ''not-a-valid-key'', cfg_PrivateKeyPath = '''', cfg_UseAgent = True,
       cfg_IdentityFile = ''''\<rparr>"
  let ?file = "\<lparr>cfg_Host = ''localhost'', cfg_Port = 23231, cfg_Username = ''admin'',
       cfg_PrivateKey = '''', cfg_PrivateKeyPath = ''/missing'', cfg_UseAgent = True,
       cfg_IdentityFile = ''''\<rparr>"
  let ?identity = "\<lparr>cfg_Host = ''localhost'', cfg_Port = 23231, cfg_Username = ''admin'',
       cfg_PrivateKey = ''KEY'', cfg_PrivateKeyPath = '''', cfg_UseAgent = True,
       cfg_IdentityFile = ''/nope.pub''\<rparr>"
  have 1: "NewClient ?sys (?key\<lparr>cfg_PrivateKeyPath := ''/missing''\<rparr>) = NewClient ?sys ?key"
    using NewClient_authentication [where sys = ?sys and cfg = ?key and p = "''/missing''"]
    by simp
  have 2: "fst (NewClient ?sys ?none) = Inl NoAuthenticationMethod"
    using NewClient_authentication [where sys = ?sys and cfg = ?none]
    by (simp add: agentReached_def)
  have 3: "\<exists>c. fst (NewClient ?sys ?agent) = Inr c"
    using NewClient_authentication [where sys = ?sys and cfg = ?agent]
    by (simp add: agentReached_def agentResolves_def filteredAgentAuth_def)
  have 4: "fst (NewClient ?sys ?bad) = Inl (ParsingPrivateKey ''no key'')"
    using NewClient_authentication [where sys = ?sys and cfg = ?bad]
    by simp
  have 5: "NewClient ?sys ?file
      = (Inl (ReadingPrivateKeyFile ''/missing'' ''no file''), [ReadFile ''/missing''])"
    using NewClient_authentication [where sys = ?sys and cfg = ?file]
    by simp
  have 6: "NewClient ?sys ?identity
      = (Inl (FilteringAgentKeys (ReadingIdentityFile ''/nope.pub'' ''no file'')),
        [Dial ''/agent.sock'', ReadFile ''/nope.pub'', Close 7])"
    using NewClient_authentication [where sys = ?sys and cfg = ?identity]
    by (simp add: keyContentResolves_def)
  from 1 2 3 4 5 6 show ?thesis by (intro conjI)
qed

end
